(* ===== verification/JS_Prelude.thy ===== *)
theory JS_Prelude
  imports Main "HOL-Library.Word"
begin

text \<open>
  Shared vocabulary of the development: the representation of JavaScript strings, the
  character classes and the \<^verbatim>\<open>String.prototype.trim\<close> built-in that
  \<^verbatim>\<open>src/script.js\<close> calls, the error type of the model, the fact collections
  the component theories feed, and the list lemmas they share.

  A JavaScript string is a sequence of UTF-16 code units, so a character is a
  \<^typ>\<open>16 word\<close> and a string a list of them. The literals of the script are ASCII and
  are written \<open>lit ''...''\<close>.
\<close>

section \<open>Fact collections\<close>

named_theorems js_defs
  "definitions of built-ins and handlers, unfolded when a model is evaluated on an input"
named_theorems js_frame
  "frame facts: the fields an operation leaves as they were"

section \<open>Strings of UTF-16 code units\<close>

type_synonym jschar = "16 word"
type_synonym jstring = "jschar list"

definition lit :: "string \<Rightarrow> jstring" where
  "lit s = map of_char s"

text \<open>What an evaluation can throw and a promise can be rejected with. The script has no
  \<^verbatim>\<open>throw\<close> of its own: its operations raise the \<^verbatim>\<open>TypeError\<close> of a property
  read on \<^verbatim>\<open>null\<close> or \<^verbatim>\<open>undefined\<close> and of a call of a non-function;
  \<^verbatim>\<open>fetch\<close> rejects with a \<^verbatim>\<open>TypeError\<close> when the network fails, and
  \<^verbatim>\<open>response.json()\<close> with a \<^verbatim>\<open>SyntaxError\<close> for a body that is not JSON or an
  \<^verbatim>\<open>AbortError\<close> when the body cannot be read.\<close>

datatype js_error = TypeError | SyntaxError | AbortError

type_synonym 'a result = "js_error + 'a"

section \<open>Character classes of the language\<close>

text \<open>The class \<^verbatim>\<open>\s\<close> of a regular expression and the characters
  \<^verbatim>\<open>trim\<close> strips are the same set: ECMAScript's WhiteSpace (TAB, VT, FF, SP, NBSP,
  ZWNBSP and the Unicode category Zs) and LineTerminator (LF, CR, LS, PS) code points.
  All of them are in the Basic Multilingual Plane, so each is one code unit.\<close>

definition is_white_space :: "jschar \<Rightarrow> bool" where
  "is_white_space c \<longleftrightarrow>
     c \<in> set [0x0009, 0x000A, 0x000B, 0x000C, 0x000D, 0x0020, 0x00A0, 0x1680,
              0x2028, 0x2029, 0x202F, 0x205F, 0x3000, 0xFEFF]
     \<or> (0x2000 \<le> c \<and> c \<le> 0x200A)"

text \<open>The class \<^verbatim>\<open>\d\<close> (without the \<^verbatim>\<open>u\<close> and \<^verbatim>\<open>v\<close> flags): the ten ASCII
  digits only.\<close>

definition is_digit :: "jschar \<Rightarrow> bool" where
  "is_digit c \<longleftrightarrow> 0x30 \<le> c \<and> c \<le> 0x39"

section \<open>\<^verbatim>\<open>String.prototype.trim\<close>\<close>

definition trim_start :: "jstring \<Rightarrow> jstring" where
  "trim_start s = dropWhile is_white_space s"

definition trim_end :: "jstring \<Rightarrow> jstring" where
  "trim_end s = rev (dropWhile is_white_space (rev s))"

definition trim :: "jstring \<Rightarrow> jstring" where
  "trim s = trim_end (trim_start s)"

section \<open>Lemmas on lists\<close>

lemma filter_dropWhile_disjoint:
  "(\<And>x. P x \<Longrightarrow> \<not> Q x) \<Longrightarrow> filter P (dropWhile Q xs) = filter P xs"
  by (induction xs) auto

lemma dropWhile_rev_eq_Nil: "dropWhile Q (rev xs) = [] \<longleftrightarrow> (\<forall>x\<in>set xs. Q x)"
  by (simp add: dropWhile_eq_Nil_conv)

lemma rev_dropWhile_rev_decomp:
  "\<exists>suf. xs = rev (dropWhile Q (rev xs)) @ suf \<and> (\<forall>x\<in>set suf. Q x)"
proof -
  have "rev xs = takeWhile Q (rev xs) @ dropWhile Q (rev xs)" by simp
  then have "xs = rev (dropWhile Q (rev xs)) @ rev (takeWhile Q (rev xs))"
    by (metis rev_append rev_rev_ident)
  moreover have "\<forall>x\<in>set (rev (takeWhile Q (rev xs))). Q x"
    by (auto dest: set_takeWhileD)
  ultimately show ?thesis by blast
qed

lemma dropWhile_decomp:
  "\<exists>pre. xs = pre @ dropWhile Q xs \<and> (\<forall>x\<in>set pre. Q x)"
proof -
  have "xs = takeWhile Q xs @ dropWhile Q xs" by simp
  moreover have "\<forall>x\<in>set (takeWhile Q xs). Q x" by (auto dest: set_takeWhileD)
  ultimately show ?thesis by blast
qed

lemma dropWhile_id_iff: "dropWhile Q xs = xs \<longleftrightarrow> (xs = [] \<or> \<not> Q (hd xs))"
proof (cases xs)
  case (Cons a list)
  have "length (dropWhile Q list) \<le> length list" by (rule length_dropWhile_le)
  then have "dropWhile Q list \<noteq> a # list" by auto
  with Cons show ?thesis by auto
qed simp

lemma all_dropWhile_iff: "(\<forall>x\<in>set (dropWhile Q xs). Q x) \<longleftrightarrow> (\<forall>x\<in>set xs. Q x)"
proof
  assume all: "\<forall>x\<in>set (dropWhile Q xs). Q x"
  have "dropWhile Q xs = []"
  proof (rule ccontr)
    assume ne: "dropWhile Q xs \<noteq> []"
    then have "\<not> Q (hd (dropWhile Q xs))" by (rule hd_dropWhile)
    with all ne show False by simp
  qed
  then show "\<forall>x\<in>set xs. Q x" by (simp add: dropWhile_eq_Nil_conv)
qed (auto dest: set_dropWhileD)

lemma filter_concat_singletons:
  "concat (map (\<lambda>x. if P x then [] else [x]) xs) = filter (\<lambda>x. \<not> P x) xs"
  by (induction xs) auto

section \<open>Literals\<close>

lemma of_char_nat_less: "(of_char c :: nat) < 256"
proof -
  have "(of_char c :: nat) mod 256 < 256" by simp
  then show ?thesis by simp
qed

lemma unat_of_char: "unat (of_char c :: jschar) = of_char c"
proof -
  from of_char_nat_less [of c] have lt: "(of_char c :: nat) < 2 ^ 16"
    by (rule order_less_trans) simp
  have "unat (of_nat (of_char c) :: jschar) = of_char c mod 2 ^ 16"
    by (simp add: unat_of_nat)
  also from lt have "\<dots> = of_char c"
    by (rule mod_less)
  finally show ?thesis by (simp add: of_nat_of_char)
qed

text \<open>Every 8-bit character is a distinct code unit: a literal denotes one string only.\<close>

lemma jschar_of_char_eq_iff [simp]: "(of_char c :: jschar) = of_char d \<longleftrightarrow> c = d"
proof
  assume "(of_char c :: jschar) = of_char d"
  then have "unat (of_char c :: jschar) = unat (of_char d :: jschar)" by simp
  then show "c = d" by (simp add: unat_of_char)
qed simp

lemma lit_Nil [simp]: "lit [] = []"
  by (simp add: lit_def)

lemma lit_Cons [js_defs]: "lit (c # cs) = of_char c # lit cs"
  by (simp add: lit_def)

lemma lit_append [simp]: "lit (s @ t) = lit s @ lit t"
  by (simp add: lit_def)

lemma length_lit [simp]: "length (lit s) = length s"
  by (simp add: lit_def)

lemma lit_eq_iff [simp]: "lit s = lit t \<longleftrightarrow> s = t"
  by (simp add: lit_def inj_map_eq_map inj_def)

lemma lit_eq_Nil_iff [simp]: "lit s = [] \<longleftrightarrow> s = []"
  by (simp add: lit_def)

lemma Nil_eq_lit_iff [simp]: "[] = lit s \<longleftrightarrow> s = []"
  by (simp add: lit_def)

lemma lit_eq_Cons_iff: "lit s = c # t \<longleftrightarrow> (\<exists>d u. s = d # u \<and> of_char d = c \<and> lit u = t)"
  by (cases s) (auto simp: lit_Cons)

declare is_white_space_def [js_defs] is_digit_def [js_defs]
  trim_def [js_defs] trim_start_def [js_defs] trim_end_def [js_defs]

section \<open>Character classes\<close>

lemma digit_not_white_space: "is_digit c \<Longrightarrow> \<not> is_white_space c"
  unfolding is_digit_def is_white_space_def
  by (auto simp: word_le_nat_alt)

lemma is_digit_iff_unat: "is_digit c \<longleftrightarrow> 48 \<le> unat c \<and> unat c \<le> 57"
  by (simp add: is_digit_def word_le_nat_alt)

section \<open>Trimming\<close>

lemma trim_Nil [simp]: "trim [] = []"
  by (simp add: trim_def trim_start_def trim_end_def)

lemma trim_eq_Nil_iff: "trim s = [] \<longleftrightarrow> (\<forall>c\<in>set s. is_white_space c)"
  by (simp add: trim_def trim_start_def trim_end_def dropWhile_eq_Nil_conv
      all_dropWhile_iff)

text \<open>Trimming removes white space only, so whatever is read off the other characters is
  the same before and after.\<close>

lemma filter_trim:
  assumes "\<And>c. P c \<Longrightarrow> \<not> is_white_space c"
  shows "filter P (trim s) = filter P s"
proof -
  have "filter P (trim s) = rev (filter P (dropWhile is_white_space (rev (trim_start s))))"
    by (simp add: trim_def trim_end_def rev_filter)
  also have "\<dots> = rev (filter P (rev (trim_start s)))"
    by (simp add: filter_dropWhile_disjoint assms)
  also have "\<dots> = filter P (dropWhile is_white_space s)"
    by (simp add: rev_filter trim_start_def)
  also have "\<dots> = filter P s"
    by (simp add: filter_dropWhile_disjoint assms)
  finally show ?thesis .
qed

lemma trim_decomp:
  "\<exists>pre suf. s = pre @ trim s @ suf
     \<and> (\<forall>c\<in>set pre. is_white_space c) \<and> (\<forall>c\<in>set suf. is_white_space c)"
proof -
  obtain pre where pre: "s = pre @ trim_start s" "\<forall>c\<in>set pre. is_white_space c"
    unfolding trim_start_def using dropWhile_decomp [of s is_white_space] by blast
  obtain suf where suf: "trim_start s = trim s @ suf" "\<forall>c\<in>set suf. is_white_space c"
    unfolding trim_def trim_end_def
    using rev_dropWhile_rev_decomp [of "trim_start s" is_white_space] by blast
  from pre suf show ?thesis by metis
qed

lemma trim_start_no_leading:
  "trim_start s \<noteq> [] \<Longrightarrow> \<not> is_white_space (hd (trim_start s))"
  unfolding trim_start_def by (rule hd_dropWhile)

lemma trim_end_no_trailing:
  "trim_end s \<noteq> [] \<Longrightarrow> \<not> is_white_space (last (trim_end s))"
  unfolding trim_end_def
  by (metis hd_dropWhile last_rev rev_is_Nil_conv)

lemma hd_trim_end:
  assumes "s \<noteq> []" "\<not> is_white_space (hd s)"
  shows "trim_end s \<noteq> [] \<and> hd (trim_end s) = hd s"
proof -
  obtain suf where suf: "s = trim_end s @ suf" "\<forall>c\<in>set suf. is_white_space c"
    unfolding trim_end_def using rev_dropWhile_rev_decomp [of s is_white_space] by blast
  show ?thesis
  proof (cases "trim_end s")
    case Nil
    with suf assms show ?thesis by (cases suf) auto
  next
    case (Cons c cs)
    with suf(1) have "hd s = c" by (metis append_Cons list.sel(1))
    with Cons show ?thesis by simp
  qed
qed

lemma trim_no_edge_space:
  assumes "trim s \<noteq> []"
  shows "\<not> is_white_space (hd (trim s))" and "\<not> is_white_space (last (trim s))"
proof -
  from assms have ne: "trim_start s \<noteq> []"
    by (auto simp: trim_def trim_end_def)
  then have lead: "\<not> is_white_space (hd (trim_start s))"
    by (rule trim_start_no_leading)
  from hd_trim_end [OF ne lead] lead show "\<not> is_white_space (hd (trim s))"
    by (simp add: trim_def)
  from assms show "\<not> is_white_space (last (trim s))"
    unfolding trim_def by (rule trim_end_no_trailing)
qed

lemma trim_fixed:
  assumes "s = [] \<or> (\<not> is_white_space (hd s) \<and> \<not> is_white_space (last s))"
  shows "trim s = s"
proof (cases "s = []")
  case True
  then show ?thesis by simp
next
  case False
  with assms have h: "\<not> is_white_space (hd s)" and l: "\<not> is_white_space (last s)"
    by auto
  from False h have "trim_start s = s"
    by (simp add: trim_start_def dropWhile_id_iff)
  moreover from False l have "dropWhile is_white_space (rev s) = rev s"
    by (simp add: dropWhile_id_iff hd_rev)
  then have "trim_end s = s"
    by (simp add: trim_end_def)
  ultimately show ?thesis by (simp add: trim_def)
qed

lemma trim_idem [simp]: "trim (trim s) = trim s"
proof (cases "trim s = []")
  case True
  then show ?thesis by simp
next
  case False
  then show ?thesis
    by (intro trim_fixed disjI2 conjI trim_no_edge_space)
qed

end
