(* ===== verification/JS_Regex.thy ===== *)
theory JS_Regex
  imports JS_Prelude
begin

text \<open>
  The fragment of JavaScript regular expressions that \<^verbatim>\<open>src/script.js\<close> writes:
  character classes, grouping with alternation, concatenation and the counted
  repetition \<^verbatim>\<open>{n}\<close>. A pattern is a value of \<open>rexp\<close>; \<open>matches\<close> decides by
  derivatives whether a whole string matches, and \<open>lang\<close> is the set of strings a pattern
  denotes, against which the matcher is proved right. The two ways the script applies a
  pattern are \<open>test_whole\<close> (a \<^verbatim>\<open>test\<close> of a pattern between \<^verbatim>\<open>^\<close> and \<^verbatim>\<open>$\<close>) and
  \<open>replace_class\<close> (a \<^verbatim>\<open>replace\<close> of a one-class pattern with the \<^verbatim>\<open>g\<close> flag).
\<close>

section \<open>Patterns\<close>

datatype 'a rexp =
    Never
  | Empty
  | Class "'a \<Rightarrow> bool"
  | Alt "'a rexp" "'a rexp"
  | Seq "'a rexp" "'a rexp"

text \<open>\<^verbatim>\<open>r{n}\<close>: exactly \<open>n\<close> copies of \<open>r\<close> in a row.\<close>

primrec rep :: "nat \<Rightarrow> 'a rexp \<Rightarrow> 'a rexp" where
  "rep 0 r = Empty"
| "rep (Suc n) r = Seq r (rep n r)"

section \<open>Matching by derivatives\<close>

primrec nullable :: "'a rexp \<Rightarrow> bool" where
  "nullable Never \<longleftrightarrow> False"
| "nullable Empty \<longleftrightarrow> True"
| "nullable (Class p) \<longleftrightarrow> False"
| "nullable (Alt r s) \<longleftrightarrow> nullable r \<or> nullable s"
| "nullable (Seq r s) \<longleftrightarrow> nullable r \<and> nullable s"

primrec deriv :: "'a \<Rightarrow> 'a rexp \<Rightarrow> 'a rexp" where
  "deriv c Never = Never"
| "deriv c Empty = Never"
| "deriv c (Class p) = (if p c then Empty else Never)"
| "deriv c (Alt r s) = Alt (deriv c r) (deriv c s)"
| "deriv c (Seq r s) =
     (if nullable r then Alt (Seq (deriv c r) s) (deriv c s) else Seq (deriv c r) s)"

definition matches :: "'a rexp \<Rightarrow> 'a list \<Rightarrow> bool" where
  "matches r s = nullable (foldl (\<lambda>r c. deriv c r) r s)"

section \<open>The two uses of a pattern in the script\<close>

text \<open>\<^verbatim>\<open>/^(r)$/.test(s)\<close>: without the \<^verbatim>\<open>m\<close> flag \<^verbatim>\<open>^\<close> holds at the start of the input
  only and \<^verbatim>\<open>$\<close> at its end only, so the search for a match succeeds exactly when the
  whole input matches \<open>r\<close>.\<close>

definition test_whole :: "'a rexp \<Rightarrow> 'a list \<Rightarrow> bool" where
  "test_whole r s = matches r s"

text \<open>\<^verbatim>\<open>s.replace(/[...]/g, t)\<close> for a pattern that is one character class and a
  replacement \<open>t\<close> without \<^verbatim>\<open>$\<close>: every character of the class is replaced by \<open>t\<close>,
  from left to right.\<close>

definition replace_class :: "('a \<Rightarrow> bool) \<Rightarrow> 'a list \<Rightarrow> 'a list \<Rightarrow> 'a list" where
  "replace_class p t s = concat (map (\<lambda>c. if p c then t else [c]) s)"

section \<open>What a pattern denotes\<close>

primrec lang :: "'a rexp \<Rightarrow> 'a list set" where
  "lang Never = {}"
| "lang Empty = {[]}"
| "lang (Class p) = {[c] | c. p c}"
| "lang (Alt r s) = lang r \<union> lang s"
| "lang (Seq r s) = {u @ v | u v. u \<in> lang r \<and> v \<in> lang s}"

lemma nullable_iff_Nil_in_lang: "nullable r \<longleftrightarrow> [] \<in> lang r"
  by (induction r) auto

lemma lang_deriv: "lang (deriv c r) = {s. c # s \<in> lang r}"
proof (induction r)
  case (Seq r1 r2)
  have "{s. c # s \<in> lang (Seq r1 r2)} =
      {u @ v | u v. c # u \<in> lang r1 \<and> v \<in> lang r2} \<union>
      (if [] \<in> lang r1 then {s. c # s \<in> lang r2} else {})"
    by (auto simp: Cons_eq_append_conv)
  with Seq show ?case
    by (auto simp: nullable_iff_Nil_in_lang)
qed auto

lemma lang_derivs: "lang (foldl (\<lambda>r c. deriv c r) r s) = {t. s @ t \<in> lang r}"
  by (induction s arbitrary: r) (simp_all add: lang_deriv)

text \<open>The matcher decides membership in the language of the pattern.\<close>

lemma matches_iff_lang: "matches r s \<longleftrightarrow> s \<in> lang r"
  by (simp add: matches_def nullable_iff_Nil_in_lang lang_derivs)

lemma lang_rep_Class:
  "lang (rep n (Class p)) = {s. length s = n \<and> list_all p s}"
proof (induction n)
  case 0
  show ?case by auto
next
  case (Suc n)
  have "lang (rep (Suc n) (Class p)) = {c # v | c v. p c \<and> v \<in> lang (rep n (Class p))}"
    by (auto intro: exI [where x = "[c]" for c])
  also have "\<dots> = {s. length s = Suc n \<and> list_all p s}"
    by (auto simp: Suc length_Suc_conv)
  finally show ?case .
qed

lemma matches_rep_Class:
  "matches (rep n (Class p)) s \<longleftrightarrow> length s = n \<and> list_all p s"
  by (simp add: matches_iff_lang lang_rep_Class)

lemma matches_Alt [simp]: "matches (Alt r s) w \<longleftrightarrow> matches r w \<or> matches s w"
  by (simp add: matches_iff_lang)

lemma matches_Empty [simp]: "matches Empty w \<longleftrightarrow> w = []"
  by (simp add: matches_iff_lang)

lemma matches_Never [simp]: "\<not> matches Never w"
  by (simp add: matches_iff_lang)

lemma matches_Class [simp]: "matches (Class p) w \<longleftrightarrow> (\<exists>c. w = [c] \<and> p c)"
  by (auto simp: matches_iff_lang)

lemma matches_Seq:
  "matches (Seq r s) w \<longleftrightarrow> (\<exists>u v. w = u @ v \<and> matches r u \<and> matches s v)"
  by (auto simp: matches_iff_lang)

section \<open>Replacement\<close>

lemma replace_class_Nil [simp]: "replace_class p t [] = []"
  by (simp add: replace_class_def)

lemma replace_class_Cons [simp]:
  "replace_class p t (c # s) = (if p c then t else [c]) @ replace_class p t s"
  by (simp add: replace_class_def)

lemma replace_class_append [simp]:
  "replace_class p t (u @ v) = replace_class p t u @ replace_class p t v"
  by (simp add: replace_class_def)

text \<open>Replacing by the empty string deletes the class: what is left is a filter.\<close>

lemma replace_class_empty: "replace_class p [] s = filter (\<lambda>c. \<not> p c) s"
  by (simp add: replace_class_def filter_concat_singletons)

end
