(* ===== verification/ISBN.thy ===== *)
theory ISBN
  imports JS_Regex
begin

text \<open>
  \<^verbatim>\<open>isValidISBN\<close> (\<^verbatim>\<open>src/script.js\<close>, lines 117-123): the two regular expressions of
  the function as patterns, the function as their composition, and its characterisation
  without regular expressions: after the hyphens and the white space are deleted, what
  is left is ten or thirteen ASCII digits.
\<close>

section \<open>The function\<close>

text \<open>The class \<^verbatim>\<open>[-\s]\<close> of line 119.\<close>

definition isbn_separator :: "jschar \<Rightarrow> bool" where
  "isbn_separator c \<longleftrightarrow> c = 0x2D \<or> is_white_space c"

text \<open>The group \<^verbatim>\<open>(\d{10}|\d{13})\<close> of line 122.\<close>

definition isbn_pattern :: "jschar rexp" where
  "isbn_pattern = Alt (rep 10 (Class is_digit)) (rep 13 (Class is_digit))"

definition cleanISBN :: "jstring \<Rightarrow> jstring" where
  "cleanISBN isbn = replace_class isbn_separator [] isbn"

definition isValidISBN :: "jstring \<Rightarrow> bool" where
  "isValidISBN isbn = test_whole isbn_pattern (cleanISBN isbn)"

section \<open>The reference definition\<close>

text \<open>What the function is meant to decide, stated on the string itself.\<close>

definition isbn_digits :: "jstring \<Rightarrow> jstring" where
  "isbn_digits s = filter (\<lambda>c. \<not> isbn_separator c) s"

definition isbn_format :: "jstring \<Rightarrow> bool" where
  "isbn_format s \<longleftrightarrow>
     list_all is_digit (isbn_digits s) \<and> (length (isbn_digits s) = 10 \<or> length (isbn_digits s) = 13)"

section \<open>Separators and digits\<close>

lemma digit_not_separator: "is_digit c \<Longrightarrow> \<not> isbn_separator c"
  by (auto simp: isbn_separator_def digit_not_white_space) (simp add: is_digit_def)

lemma white_space_separator: "is_white_space c \<Longrightarrow> isbn_separator c"
  by (simp add: isbn_separator_def)

lemma cleanISBN_eq_digits: "cleanISBN s = isbn_digits s"
  by (simp add: cleanISBN_def isbn_digits_def replace_class_empty)

lemma isbn_digits_append [simp]: "isbn_digits (u @ v) = isbn_digits u @ isbn_digits v"
  by (simp add: isbn_digits_def)

lemma isbn_digits_Cons:
  "isbn_digits (c # s) = (if isbn_separator c then isbn_digits s else c # isbn_digits s)"
  by (simp add: isbn_digits_def)

lemma isbn_digits_Nil [simp]: "isbn_digits [] = []"
  by (simp add: isbn_digits_def)

lemma isbn_digits_trim: "isbn_digits (trim s) = isbn_digits s"
  unfolding isbn_digits_def by (rule filter_trim) (auto simp: isbn_separator_def)

lemma isbn_digits_idem [simp]: "isbn_digits (isbn_digits s) = isbn_digits s"
  by (simp add: isbn_digits_def)

lemma isbn_digits_all_digits:
  "list_all is_digit s \<Longrightarrow> isbn_digits s = s"
  by (induction s) (auto simp: isbn_digits_Cons digit_not_separator)

section \<open>The function against the reference\<close>

lemma isValidISBN_format: "isValidISBN s \<longleftrightarrow> isbn_format s"
  by (auto simp: isValidISBN_def test_whole_def isbn_pattern_def matches_rep_Class
      cleanISBN_eq_digits isbn_format_def)

lemma isValidISBN_Nil [simp]: "\<not> isValidISBN []"
  by (simp add: isValidISBN_format isbn_format_def)

lemma isValidISBN_trim_eq: "isValidISBN (trim s) = isValidISBN s"
  by (simp add: isValidISBN_format isbn_format_def isbn_digits_trim)

lemma isValidISBN_separator_eq:
  "isbn_separator c \<Longrightarrow> isValidISBN (u @ c # v) = isValidISBN (u @ v)"
  by (simp add: isValidISBN_format isbn_format_def isbn_digits_Cons)

lemma isValidISBN_chars:
  assumes "isValidISBN s" and "c \<in> set s"
  shows "is_digit c \<or> isbn_separator c"
proof (cases "isbn_separator c")
  case False
  with assms(2) have "c \<in> set (isbn_digits s)"
    by (simp add: isbn_digits_def)
  with assms(1) show ?thesis
    by (auto simp: isValidISBN_format isbn_format_def list_all_iff)
qed simp

text \<open>\<^bold>\<open>C1\<close> (equivalence). \<^verbatim>\<open>isValidISBN\<close>, which deletes the separators with one regular
  expression and tests the rest against another, accepts a string exactly when the
  characters of the string other than hyphens and white space are all ASCII digits and
  there are ten or thirteen of them.\<close>

theorem isValidISBN_iff:
  "isValidISBN s \<longleftrightarrow>
     list_all is_digit (filter (\<lambda>c. \<not> (c = 0x2D \<or> is_white_space c)) s) \<and>
     length (filter (\<lambda>c. \<not> (c = 0x2D \<or> is_white_space c)) s) \<in> {10, 13}"
  using isValidISBN_format [of s]
  by (simp add: isbn_format_def isbn_digits_def isbn_separator_def)

theorem isValidISBN_iff_witness:
  "isValidISBN (lit ''0-13-468599-7'') \<and> \<not> isValidISBN (lit ''12345'')
     \<and> \<not> isValidISBN (lit ''abcdefghij'')"
proof (intro conjI)
  show "isValidISBN (lit ''0-13-468599-7'')"
    using isValidISBN_iff [of "lit ''0-13-468599-7''"]
    by (simp add: js_defs)
  show "\<not> isValidISBN (lit ''12345'')"
    using isValidISBN_iff [of "lit ''12345''"]
    by (simp add: js_defs)
  show "\<not> isValidISBN (lit ''abcdefghij'')"
    using isValidISBN_iff [of "lit ''abcdefghij''"]
    by (simp add: js_defs)
qed

text \<open>\<^bold>\<open>C27\<close> (functional). White space around the value does not change the verdict: the
  listeners validate \<^verbatim>\<open>value.trim()\<close>, and \<^verbatim>\<open>isValidISBN\<close> gives the trimmed and
  the untrimmed string the same answer, whichever of the language's white-space
  characters surround it.\<close>

theorem isValidISBN_trim:
  "isValidISBN (trim s) \<longleftrightarrow> isValidISBN s"
  by (rule isValidISBN_trim_eq)

text \<open>\<^bold>\<open>C28\<close> (functional). A hyphen or a white-space character may be inserted at, or
  removed from, any position of a string without changing whether it is accepted.\<close>

theorem isValidISBN_separator_insensitive:
  assumes "c = 0x2D \<or> is_white_space c"
  shows "isValidISBN (u @ c # v) \<longleftrightarrow> isValidISBN (u @ v)"
  using assms by (intro isValidISBN_separator_eq) (simp add: isbn_separator_def)

theorem isValidISBN_separator_insensitive_witness:
  "isValidISBN (lit ''978-0134685991'') \<and> isValidISBN (lit ''9780134685991'')"
proof -
  have "isValidISBN (lit ''978'' @ 0x2D # lit ''0134685991'')
      \<longleftrightarrow> isValidISBN (lit ''978'' @ lit ''0134685991'')"
    by (rule isValidISBN_separator_insensitive) simp
  moreover have "isValidISBN (lit ''9780134685991'')"
    by code_simp
  ultimately show ?thesis by (simp add: js_defs)
qed

text \<open>\<^bold>\<open>C29\<close> (error). An accepted string consists of ASCII digits, hyphens and white
  space only; in particular the function rejects an ISBN-10 whose check digit is the
  letter X, although such ISBNs exist.\<close>

theorem isValidISBN_only_digits_and_separators:
  assumes "isValidISBN s"
  shows "\<forall>c\<in>set s. is_digit c \<or> c = 0x2D \<or> is_white_space c"
  using isValidISBN_chars [OF assms] by (auto simp: isbn_separator_def)

theorem isValidISBN_only_digits_and_separators_witness:
  "isValidISBN (lit ''0-13 468599-7'') \<and>
   list_all (\<lambda>c. is_digit c \<or> c = 0x2D \<or> is_white_space c) (lit ''0-13 468599-7'')"
proof -
  have valid: "isValidISBN (lit ''0-13 468599-7'')"
    by code_simp
  from isValidISBN_only_digits_and_separators [OF valid] valid show ?thesis
    by (simp add: list_all_iff)
qed

lemma isValidISBN_rejects_check_digit_X: "\<not> isValidISBN (lit ''0-8044-2957-X'')"
proof
  assume "isValidISBN (lit ''0-8044-2957-X'')"
  then have "is_digit (of_char CHR ''X'') \<or> isbn_separator (of_char CHR ''X'')"
    by (rule isValidISBN_chars) (simp add: js_defs)
  then show False
    by (simp add: isbn_separator_def js_defs)
qed

end
