(* ===== verification/Search_Form.thy ===== *)
theory Search_Form
  imports ISBN
begin

text \<open>
  The two listeners of the search form that decide without touching the network
  (\<^verbatim>\<open>src/script.js\<close>): the \<^verbatim>\<open>input\<close> listener of the ISBN field (lines 45-53), which
  sets or clears the field's custom validity message, and the part of the \<^verbatim>\<open>submit\<close>
  listener that runs before the search is started (lines 67-100 and 109-112): it trims
  the fields, rejects a malformed ISBN, builds the query and either hands it to
  \<^verbatim>\<open>searchForTextbook\<close> or alerts the user.
\<close>

section \<open>The form's fields\<close>

text \<open>The values of the controls \<^verbatim>\<open>form.isbn\<close>, \<^verbatim>\<open>form.title\<close>, \<^verbatim>\<open>form.author\<close> and
  \<^verbatim>\<open>form.language\<close> at the moment a listener reads them.\<close>

record form_values =
  isbn_value :: jstring
  title_value :: jstring
  author_value :: jstring
  language_value :: jstring

section \<open>The messages\<close>

definition invalid_isbn_message :: jstring where
  "invalid_isbn_message = lit ''Please enter a valid ISBN (10 or 13 digits)''"

definition no_criteria_message :: jstring where
  "no_criteria_message = lit ''Please enter either ISBN or Title/Author!''"

section \<open>The \<^verbatim>\<open>input\<close> listener of the ISBN field\<close>

text \<open>The listener's effect on the field: the custom validity message it sets, and
  whether it calls \<^verbatim>\<open>reportValidity\<close>.\<close>

record isbn_feedback =
  custom_validity :: jstring
  reported :: bool

definition on_isbn_input :: "jstring \<Rightarrow> isbn_feedback" where
  "on_isbn_input v =
     (let isbn = trim v in
      if isbn \<noteq> [] \<and> \<not> isValidISBN isbn
      then \<lparr>custom_validity = invalid_isbn_message, reported = True\<rparr>
      else \<lparr>custom_validity = [], reported = False\<rparr>)"

section \<open>The \<^verbatim>\<open>submit\<close> listener up to the search\<close>

text \<open>The template literals of lines 89 and 92. An empty string is falsy, so
  \<^verbatim>\<open>if (isbn)\<close> tests for a non-empty string.\<close>

definition base_query :: "jstring \<Rightarrow> jstring \<Rightarrow> jstring \<Rightarrow> jstring" where
  "base_query isbn title author =
     (if isbn \<noteq> [] then 0x22 # isbn @ 0x22 # lit '' textbook pdf''
      else if title \<noteq> [] \<or> author \<noteq> [] then title @ lit '' '' @ author @ lit '' textbook pdf''
      else [])"

text \<open>Lines 98-100: the language is appended unless it is exactly \<^verbatim>\<open>english\<close>.\<close>

definition with_language :: "jstring \<Rightarrow> jstring \<Rightarrow> jstring" where
  "with_language searchQuery language =
     (if language \<noteq> lit ''english'' then searchQuery @ lit '' '' @ language else searchQuery)"

text \<open>What the listener does next: it starts a search with a query, or it shows an alert
  and returns.\<close>

datatype submit_outcome = Alert jstring | Search jstring

definition on_submit :: "form_values \<Rightarrow> submit_outcome" where
  "on_submit f =
     (let isbn = trim (isbn_value f);
          title = trim (title_value f);
          author = trim (author_value f);
          language = language_value f
      in if isbn \<noteq> [] \<and> \<not> isValidISBN isbn then Alert invalid_isbn_message
         else let searchQuery = base_query isbn title author
              in if searchQuery \<noteq> [] then Search (with_language searchQuery language)
                 else Alert no_criteria_message)"

section \<open>The search criteria, as the listener sees them\<close>

text \<open>A field is absent when it is empty or white space only.\<close>

definition blank :: "jstring \<Rightarrow> bool" where
  "blank s \<longleftrightarrow> (\<forall>c\<in>set s. is_white_space c)"

lemma trim_eq_Nil_blank [simp]: "trim s = [] \<longleftrightarrow> blank s"
  by (simp add: blank_def trim_eq_Nil_iff)

lemma trim_blank: "blank s \<Longrightarrow> trim s = []"
  by simp

lemma blank_Nil [simp]: "blank []"
  by (simp add: blank_def)

lemma isValidISBN_not_blank: "isValidISBN s \<Longrightarrow> \<not> blank s"
proof
  assume "isValidISBN s" and "blank s"
  from \<open>blank s\<close> have "isbn_digits s = []"
    by (auto simp: isbn_digits_def blank_def filter_empty_conv white_space_separator)
  with \<open>isValidISBN s\<close> show False
    by (simp add: isValidISBN_format isbn_format_def)
qed

section \<open>Queries\<close>

lemma base_query_isbn [simp]:
  "isbn \<noteq> [] \<Longrightarrow> base_query isbn title author = 0x22 # isbn @ 0x22 # lit '' textbook pdf''"
  by (simp add: base_query_def)

lemma base_query_no_isbn [simp]:
  "title \<noteq> [] \<or> author \<noteq> [] \<Longrightarrow>
   base_query [] title author = title @ lit '' '' @ author @ lit '' textbook pdf''"
  by (simp add: base_query_def)

lemma base_query_eq_Nil_iff [simp]:
  "base_query isbn title author = [] \<longleftrightarrow> isbn = [] \<and> title = [] \<and> author = []"
  by (simp add: base_query_def)

lemma with_language_nonempty [simp]: "q \<noteq> [] \<Longrightarrow> with_language q l \<noteq> []"
  by (simp add: with_language_def)

lemma with_language_english [simp]: "with_language q (lit ''english'') = q"
  by (simp add: with_language_def)

lemma with_language_other:
  "l \<noteq> lit ''english'' \<Longrightarrow> with_language q l = q @ lit '' '' @ l"
  by (simp add: with_language_def)

text \<open>Every query the listener builds ends with the fixed search terms, followed by the
  language when there is one.\<close>

lemma base_query_suffix:
  "base_query isbn title author \<noteq> [] \<Longrightarrow>
   \<exists>p. base_query isbn title author = p @ lit '' textbook pdf''"
  by (auto simp: base_query_def split: if_splits intro: exI [where x = "0x22 # isbn @ [0x22]"])

section \<open>The listener, case by case\<close>

lemma on_submit_invalid:
  "\<not> blank (isbn_value f) \<Longrightarrow> \<not> isValidISBN (isbn_value f) \<Longrightarrow>
   on_submit f = Alert invalid_isbn_message"
  by (simp add: on_submit_def isValidISBN_trim_eq)

lemma on_submit_valid_isbn:
  "isValidISBN (isbn_value f) \<Longrightarrow>
   on_submit f = Search (with_language
     (0x22 # trim (isbn_value f) @ 0x22 # lit '' textbook pdf'') (language_value f))"
  by (simp add: on_submit_def isValidISBN_trim_eq Let_def isValidISBN_not_blank)

lemma on_submit_title_author:
  "blank (isbn_value f) \<Longrightarrow> \<not> blank (title_value f) \<or> \<not> blank (author_value f) \<Longrightarrow>
   on_submit f = Search (with_language
     (trim (title_value f) @ lit '' '' @ trim (author_value f) @ lit '' textbook pdf'')
     (language_value f))"
  by (auto simp: on_submit_def Let_def trim_blank)

lemma on_submit_nothing:
  "blank (isbn_value f) \<Longrightarrow> blank (title_value f) \<Longrightarrow> blank (author_value f) \<Longrightarrow>
   on_submit f = Alert no_criteria_message"
  by (simp add: on_submit_def trim_blank)

lemmas on_submit_cases =
  on_submit_invalid on_submit_valid_isbn on_submit_title_author on_submit_nothing

text \<open>The four cases cover every form.\<close>

lemma form_cases [case_names invalid_isbn valid_isbn title_author nothing]:
  obtains
    "\<not> blank (isbn_value f)" "\<not> isValidISBN (isbn_value f)"
  | "isValidISBN (isbn_value f)"
  | "blank (isbn_value f)" "\<not> blank (title_value f) \<or> \<not> blank (author_value f)"
  | "blank (isbn_value f)" "blank (title_value f)" "blank (author_value f)"
  by blast

lemma on_submit_Search_iff:
  "(\<exists>q. on_submit f = Search q) \<longleftrightarrow>
     isValidISBN (isbn_value f) \<or>
     (blank (isbn_value f) \<and> (\<not> blank (title_value f) \<or> \<not> blank (author_value f)))"
  by (cases f rule: form_cases) (auto simp: on_submit_cases dest: isValidISBN_not_blank)

lemma on_submit_Search_nonempty: "on_submit f = Search q \<Longrightarrow> q \<noteq> []"
  by (auto simp: on_submit_def Let_def split: if_splits)

lemma on_isbn_input_agrees:
  "custom_validity (on_isbn_input v) \<noteq> [] \<longleftrightarrow>
   on_submit \<lparr>isbn_value = v, title_value = t, author_value = a, language_value = l\<rparr>
     = Alert invalid_isbn_message"
  by (auto simp: on_isbn_input_def on_submit_def Let_def invalid_isbn_message_def
      no_criteria_message_def)

declare blank_def [js_defs] base_query_def [js_defs] with_language_def [js_defs]
  invalid_isbn_message_def [js_defs] no_criteria_message_def [js_defs]

section \<open>Properties of the listeners\<close>

text \<open>\<^bold>\<open>C3\<close> (functional). When the ISBN field holds a well-formed ISBN, the submit
  listener starts a search for the trimmed ISBN in double quotes followed by
  \<^verbatim>\<open> textbook pdf\<close>, and by a space and the language unless the language is
  \<^verbatim>\<open>english\<close>; the title and the author fields are ignored.\<close>

theorem on_submit_isbn_query:
  assumes "isValidISBN (isbn_value f)"
  shows "on_submit f = Search
     (0x22 # trim (isbn_value f) @ 0x22 # lit '' textbook pdf''
      @ (if language_value f = lit ''english'' then [] else lit '' '' @ language_value f))"
  using assms by (simp add: on_submit_valid_isbn with_language_def)

theorem on_submit_isbn_query_witness:
  "on_submit \<lparr>isbn_value = lit ''9780134685991'', title_value = lit ''ignored'',
      author_value = [], language_value = lit ''english''\<rparr>
   = Search (0x22 # lit ''9780134685991'' @ 0x22 # lit '' textbook pdf'')
   \<and> on_submit \<lparr>isbn_value = lit '' 978-0134685991'', title_value = [],
      author_value = [], language_value = lit ''french''\<rparr>
   = Search (0x22 # lit ''978-0134685991'' @ 0x22 # lit '' textbook pdf french'')"
proof -
  have "isValidISBN (lit ''9780134685991'')" "isValidISBN (lit '' 978-0134685991'')"
    by code_simp+
  then show ?thesis
    using on_submit_isbn_query [of "\<lparr>isbn_value = lit ''9780134685991'',
      title_value = lit ''ignored'', author_value = [], language_value = lit ''english''\<rparr>"]
      on_submit_isbn_query [of "\<lparr>isbn_value = lit '' 978-0134685991'',
      title_value = [], author_value = [], language_value = lit ''french''\<rparr>"]
    by (simp add: js_defs)
qed

text \<open>\<^bold>\<open>C4\<close> (functional). When the ISBN field is blank and the title or the author is
  not, the listener starts a search for the trimmed title, one space, the trimmed author
  and \<^verbatim>\<open> textbook pdf\<close>, followed by a space and the language unless the language is
  \<^verbatim>\<open>english\<close>.\<close>

theorem on_submit_title_author_query:
  assumes "blank (isbn_value f)"
    and "\<not> blank (title_value f) \<or> \<not> blank (author_value f)"
  shows "on_submit f = Search
     (trim (title_value f) @ lit '' '' @ trim (author_value f) @ lit '' textbook pdf''
      @ (if language_value f = lit ''english'' then [] else lit '' '' @ language_value f))"
  using assms by (simp add: on_submit_title_author with_language_def)

theorem on_submit_title_author_query_witness:
  "on_submit \<lparr>isbn_value = [], title_value = lit ''Effective'',
      author_value = lit ''Bloch'', language_value = lit ''spanish''\<rparr>
   = Search (lit ''Effective Bloch textbook pdf spanish'')
   \<and> on_submit \<lparr>isbn_value = lit '' '', title_value = lit '' Effective Java '',
      author_value = lit ''Bloch'', language_value = lit ''english''\<rparr>
   = Search (lit ''Effective Java Bloch textbook pdf'')"
  using on_submit_title_author_query [of "\<lparr>isbn_value = [], title_value = lit ''Effective'',
      author_value = lit ''Bloch'', language_value = lit ''spanish''\<rparr>"]
    on_submit_title_author_query [of "\<lparr>isbn_value = lit '' '',
      title_value = lit '' Effective Java '', author_value = lit ''Bloch'',
      language_value = lit ''english''\<rparr>"]
  by (simp add: js_defs)

text \<open>\<^bold>\<open>C9\<close> (error). When the ISBN, the title and the author are all blank (empty or
  white space only), the listener starts no search: it alerts the user to enter an ISBN
  or a title or author.\<close>

theorem on_submit_no_criteria:
  assumes "blank (isbn_value f)" and "blank (title_value f)" and "blank (author_value f)"
  shows "on_submit f = Alert no_criteria_message"
  using assms by (rule on_submit_nothing)

theorem on_submit_no_criteria_witness:
  "on_submit \<lparr>isbn_value = [], title_value = lit ''  '', author_value = [],
      language_value = lit ''english''\<rparr>
   = Alert (lit ''Please enter either ISBN or Title/Author!'')"
  using on_submit_no_criteria [of "\<lparr>isbn_value = [], title_value = lit ''  '',
      author_value = [], language_value = lit ''english''\<rparr>"]
  by (simp add: js_defs)

text \<open>\<^bold>\<open>C10\<close> (error). A non-blank ISBN that is not well formed stops the submission with
  the ISBN alert, whatever the title, the author and the language are: no search is
  started for the other criteria.\<close>

theorem on_submit_invalid_isbn:
  assumes "\<not> blank (isbn_value f)" and "\<not> isValidISBN (isbn_value f)"
  shows "on_submit f = Alert invalid_isbn_message"
  using assms by (rule on_submit_invalid)

theorem on_submit_invalid_isbn_witness:
  "on_submit \<lparr>isbn_value = lit ''12345'', title_value = lit ''Effective'',
      author_value = lit ''Bloch'', language_value = lit ''english''\<rparr>
   = Alert (lit ''Please enter a valid ISBN (10 or 13 digits)'')"
proof -
  have "\<not> isValidISBN (lit ''12345'')"
    by code_simp
  then show ?thesis
    using on_submit_invalid_isbn [of "\<lparr>isbn_value = lit ''12345'',
      title_value = lit ''Effective'', author_value = lit ''Bloch'',
      language_value = lit ''english''\<rparr>"]
    by (simp add: js_defs)
qed

text \<open>\<^bold>\<open>C15\<close> (safety). A search is started only with a non-empty query, and only when
  the ISBN field is blank or holds a well-formed ISBN.\<close>

theorem search_only_with_valid_criteria:
  assumes "on_submit f = Search q"
  shows "q \<noteq> [] \<and> (blank (isbn_value f) \<or> isValidISBN (isbn_value f))"
proof
  from assms show "q \<noteq> []" by (rule on_submit_Search_nonempty)
  from assms have "\<exists>q. on_submit f = Search q" by blast
  then show "blank (isbn_value f) \<or> isValidISBN (isbn_value f)"
    by (auto simp: on_submit_Search_iff)
qed

theorem search_only_with_valid_criteria_witness:
  "on_submit \<lparr>isbn_value = lit ''0-13-468599-7'', title_value = lit ''Effective Java'',
      author_value = [], language_value = lit ''english''\<rparr>
     = Search (0x22 # lit ''0-13-468599-7'' @ 0x22 # lit '' textbook pdf'')
   \<and> isValidISBN (lit ''0-13-468599-7'')"
proof -
  let ?f = "\<lparr>isbn_value = lit ''0-13-468599-7'', title_value = lit ''Effective Java'',
      author_value = [], language_value = lit ''english''\<rparr>"
  have "cleanISBN (lit ''0-13-468599-7'') = lit ''0134685997''"
    by code_simp
  then have q: "on_submit ?f = Search (0x22 # lit ''0-13-468599-7'' @ 0x22 # lit '' textbook pdf'')"
    by (simp add: on_submit_def isValidISBN_def) code_simp
  have "\<not> blank (isbn_value ?f)"
    by (simp add: js_defs)
  with search_only_with_valid_criteria [OF q] q show ?thesis
    by simp
qed

text \<open>\<^bold>\<open>C33\<close> (functional). The separator of a missing field stays in the query: with
  only an author the query begins with a space, and with only a title it holds two
  spaces before \<^verbatim>\<open>textbook\<close>.\<close>

theorem missing_field_leaves_space:
  assumes "blank (isbn_value f)"
  shows "(blank (title_value f) \<and> \<not> blank (author_value f) \<longrightarrow>
           on_submit f = Search
             (lit '' '' @ trim (author_value f) @ lit '' textbook pdf''
              @ (if language_value f = lit ''english'' then [] else lit '' '' @ language_value f)))
    \<and> (\<not> blank (title_value f) \<and> blank (author_value f) \<longrightarrow>
           on_submit f = Search
             (trim (title_value f) @ lit ''  textbook pdf''
              @ (if language_value f = lit ''english'' then [] else lit '' '' @ language_value f)))"
proof -
  have two: "lit '' '' @ lit '' textbook pdf'' @ l = lit ''  textbook pdf'' @ l" for l
    by (simp add: lit_Cons)
  from assms show ?thesis
    using two [of "[]"] by (auto simp: on_submit_title_author trim_blank with_language_def two)
qed

theorem missing_field_leaves_space_witness:
  "on_submit \<lparr>isbn_value = [], title_value = lit ''Effective'', author_value = [],
      language_value = lit ''english''\<rparr> = Search (lit ''Effective  textbook pdf'')
   \<and> on_submit \<lparr>isbn_value = [], title_value = [], author_value = lit ''Bloch'',
      language_value = lit ''german''\<rparr> = Search (lit '' Bloch textbook pdf german'')"
  using missing_field_leaves_space [of "\<lparr>isbn_value = [],
      title_value = lit ''Effective'', author_value = [], language_value = lit ''english''\<rparr>"]
    missing_field_leaves_space [of "\<lparr>isbn_value = [],
      title_value = [], author_value = lit ''Bloch'', language_value = lit ''german''\<rparr>"]
  by (simp add: js_defs)

text \<open>\<^bold>\<open>C30\<close> (equivalence). The live validation of the ISBN field and the check at
  submission agree: the \<^verbatim>\<open>input\<close> listener leaves a validity message on the field
  exactly for the values with which the \<^verbatim>\<open>submit\<close> listener would show the ISBN alert.\<close>

theorem live_validation_agrees_with_submit:
  "custom_validity (on_isbn_input v) \<noteq> [] \<longleftrightarrow>
   on_submit \<lparr>isbn_value = v, title_value = t, author_value = a, language_value = l\<rparr>
     = Alert invalid_isbn_message"
  by (rule on_isbn_input_agrees)

end
