(* ===== verification/Modal.thy ===== *)
theory Modal
  imports JS_Prelude
begin

text \<open>
  The modal controller (\<^verbatim>\<open>src/script.js\<close>, lines 4-36). Its state is the part of the
  page its four listeners read and write: the class list of the \<^verbatim>\<open>aboutModal\<close> element
  and the \<^verbatim>\<open>overflow\<close> style of the document body. Each listener is one definition;
  \<open>dispatch\<close> delivers an event to the listeners on its path, in the order the browser
  calls them; \<open>modal_run\<close> delivers a sequence of events. The contract is the two-state machine
  \<open>spec_step\<close>, and the invariant is that the page's scrolling is locked exactly while
  the overlay is shown.
\<close>

section \<open>Class lists\<close>

text \<open>A \<^verbatim>\<open>DOMTokenList\<close> is an ordered set of tokens: \<^verbatim>\<open>add\<close> appends a token
  that is not there yet, \<^verbatim>\<open>remove\<close> deletes it, \<^verbatim>\<open>contains\<close> tests membership.\<close>

definition token_contains :: "jstring list \<Rightarrow> jstring \<Rightarrow> bool" where
  "token_contains ts t \<longleftrightarrow> t \<in> set ts"

definition token_add :: "jstring list \<Rightarrow> jstring \<Rightarrow> jstring list" where
  "token_add ts t = (if t \<in> set ts then ts else ts @ [t])"

definition token_remove :: "jstring list \<Rightarrow> jstring \<Rightarrow> jstring list" where
  "token_remove ts t = filter (\<lambda>u. u \<noteq> t) ts"

section \<open>State and events\<close>

record modal_page =
  modal_classes :: "jstring list"
  body_overflow :: jstring

text \<open>Where a click lands, as far as the listeners can tell: on the about link, on the
  close control, on the modal element itself (its backdrop: the target of the event is
  the element of line 5), or anywhere else, the content of the overlay included.\<close>

datatype click_target = AboutLink | CloseBtn | ModalBackdrop | Elsewhere

datatype modal_event = Click click_target | KeyDown jstring

section \<open>The listeners\<close>

text \<open>Lines 10-14: the \<^verbatim>\<open>click\<close> listener of the about link.\<close>

definition on_about_click :: "modal_page \<Rightarrow> modal_page" where
  "on_about_click s =
     s\<lparr>modal_classes := token_add (modal_classes s) (lit ''show''),
       body_overflow := lit ''hidden''\<rparr>"

text \<open>Lines 17-20: the \<^verbatim>\<open>click\<close> listener of the close control.\<close>

definition on_close_click :: "modal_page \<Rightarrow> modal_page" where
  "on_close_click s =
     s\<lparr>modal_classes := token_remove (modal_classes s) (lit ''show''),
       body_overflow := []\<rparr>"

text \<open>Lines 23-28: the \<^verbatim>\<open>click\<close> listener of the window, which sees every click.\<close>

definition on_window_click :: "click_target \<Rightarrow> modal_page \<Rightarrow> modal_page" where
  "on_window_click target s =
     (if target = ModalBackdrop
      then s\<lparr>modal_classes := token_remove (modal_classes s) (lit ''show''),
             body_overflow := []\<rparr>
      else s)"

text \<open>Lines 31-36: the \<^verbatim>\<open>keydown\<close> listener of the document.\<close>

definition on_keydown :: "jstring \<Rightarrow> modal_page \<Rightarrow> modal_page" where
  "on_keydown key s =
     (if key = lit ''Escape'' \<and> token_contains (modal_classes s) (lit ''show'')
      then s\<lparr>modal_classes := token_remove (modal_classes s) (lit ''show''),
             body_overflow := []\<rparr>
      else s)"

text \<open>A click is delivered to the listener of the element it lands on and then, bubbling,
  to the listener of the window; \<^verbatim>\<open>preventDefault\<close> does not stop the bubbling.\<close>

fun dispatch :: "modal_event \<Rightarrow> modal_page \<Rightarrow> modal_page" where
  "dispatch (Click AboutLink) s = on_window_click AboutLink (on_about_click s)"
| "dispatch (Click CloseBtn) s = on_window_click CloseBtn (on_close_click s)"
| "dispatch (Click target) s = on_window_click target s"
| "dispatch (KeyDown key) s = on_keydown key s"

definition modal_run :: "modal_event list \<Rightarrow> modal_page \<Rightarrow> modal_page" where
  "modal_run es s = foldl (\<lambda>s e. dispatch e s) s es"

section \<open>The page at the start\<close>

text \<open>The markup is not part of the sources. What is assumed of it is what the
  specification says: the overlay starts hidden (its class list, whatever else it holds,
  does not hold \<^verbatim>\<open>show\<close>, and is a set) and the body has no inline \<^verbatim>\<open>overflow\<close>.\<close>

definition modal_initial :: "modal_page \<Rightarrow> bool" where
  "modal_initial s \<longleftrightarrow>
     distinct (modal_classes s) \<and> lit ''show'' \<notin> set (modal_classes s) \<and> body_overflow s = []"

inductive modal_reachable :: "modal_page \<Rightarrow> bool" where
  start: "modal_initial s \<Longrightarrow> modal_reachable s"
| step: "modal_reachable s \<Longrightarrow> modal_reachable (dispatch e s)"

section \<open>The contract\<close>

datatype modal_state = HIDDEN | SHOWN

fun spec_step :: "modal_event \<Rightarrow> modal_state \<Rightarrow> modal_state" where
  "spec_step (Click AboutLink) m = SHOWN"
| "spec_step (Click CloseBtn) m = HIDDEN"
| "spec_step (Click ModalBackdrop) m = HIDDEN"
| "spec_step (Click Elsewhere) m = m"
| "spec_step (KeyDown key) m = (if key = lit ''Escape'' then HIDDEN else m)"

definition visible :: "modal_page \<Rightarrow> bool" where
  "visible s \<longleftrightarrow> token_contains (modal_classes s) (lit ''show'')"

definition scroll_locked :: "modal_page \<Rightarrow> bool" where
  "scroll_locked s \<longleftrightarrow> body_overflow s = lit ''hidden''"

definition state_of :: "modal_page \<Rightarrow> modal_state" where
  "state_of s = (if visible s then SHOWN else HIDDEN)"

text \<open>The invariant: the class list is a set, the body's \<^verbatim>\<open>overflow\<close> is one of the two
  values the listeners write, and it is \<^verbatim>\<open>hidden\<close> exactly when the overlay is shown.\<close>

definition modal_inv :: "modal_page \<Rightarrow> bool" where
  "modal_inv s \<longleftrightarrow>
     distinct (modal_classes s) \<and>
     (body_overflow s = [] \<or> body_overflow s = lit ''hidden'') \<and>
     (scroll_locked s \<longleftrightarrow> visible s)"

section \<open>Class lists: lemmas\<close>

lemma token_contains_add [simp]: "token_contains (token_add ts t) u \<longleftrightarrow> u = t \<or> token_contains ts u"
  by (auto simp: token_contains_def token_add_def)

lemma token_contains_remove [simp]:
  "token_contains (token_remove ts t) u \<longleftrightarrow> u \<noteq> t \<and> token_contains ts u"
  by (auto simp: token_contains_def token_remove_def)

lemma distinct_token_add [simp]: "distinct (token_add ts t) \<longleftrightarrow> distinct ts"
  by (auto simp: token_add_def)

lemma distinct_token_remove [simp]: "distinct ts \<Longrightarrow> distinct (token_remove ts t)"
  by (simp add: token_remove_def)

lemma token_add_idem [simp]: "token_add (token_add ts t) t = token_add ts t"
  by (simp add: token_add_def)

lemma token_remove_idem [simp]: "token_remove (token_remove ts t) t = token_remove ts t"
  by (simp add: token_remove_def)

lemma token_remove_absent: "\<not> token_contains ts t \<Longrightarrow> token_remove ts t = ts"
  by (auto simp: token_contains_def token_remove_def filter_id_conv)

text \<open>The other tokens of a class list, in their order, are what neither operation
  touches.\<close>

definition others :: "jstring \<Rightarrow> jstring list \<Rightarrow> jstring list" where
  "others t ts = filter (\<lambda>u. u \<noteq> t) ts"

lemma others_token_add [simp]: "others t (token_add ts t) = others t ts"
  by (simp add: others_def token_add_def)

lemma others_token_remove [simp]: "others t (token_remove ts t) = others t ts"
  by (simp add: others_def token_remove_def)

section \<open>The listeners: what each establishes\<close>

lemma visible_on_about_click [simp]: "visible (on_about_click s)"
  by (simp add: visible_def on_about_click_def)

lemma visible_on_close_click [simp]: "\<not> visible (on_close_click s)"
  by (simp add: visible_def on_close_click_def)

lemma on_window_click_backdrop [simp]: "on_window_click ModalBackdrop s = on_close_click s"
  by (simp add: on_window_click_def on_close_click_def)

lemma on_window_click_other [simp]: "target \<noteq> ModalBackdrop \<Longrightarrow> on_window_click target s = s"
  by (simp add: on_window_click_def)

lemma on_keydown_escape_visible [simp]:
  "visible s \<Longrightarrow> on_keydown (lit ''Escape'') s = on_close_click s"
  by (simp add: on_keydown_def on_close_click_def visible_def)

lemma on_keydown_noop [simp]:
  "key \<noteq> lit ''Escape'' \<or> \<not> visible s \<Longrightarrow> on_keydown key s = s"
  by (auto simp: on_keydown_def visible_def)

lemma dispatch_simps [simp]:
  "dispatch (Click AboutLink) s = on_about_click s"
  "dispatch (Click CloseBtn) s = on_close_click s"
  "dispatch (Click ModalBackdrop) s = on_close_click s"
  "dispatch (Click Elsewhere) s = s"
  by simp_all

lemmas [simp del] = dispatch.simps(1-3)

text \<open>Every event either leaves the page as it is, or has the effect of the about
  listener, or has the effect of the close listener.\<close>

lemma dispatch_cases:
  obtains (unchanged) "dispatch e s = s"
  | (opened) "dispatch e s = on_about_click s"
  | (closed) "dispatch e s = on_close_click s"
proof (cases e)
  case (Click target)
  then show ?thesis by (cases target) (auto intro: that)
next
  case (KeyDown key)
  then show ?thesis
    by (cases "key = lit ''Escape'' \<and> visible s") (auto intro: that)
qed

lemma modal_inv_on_about_click: "distinct (modal_classes s) \<Longrightarrow> modal_inv (on_about_click s)"
  by (simp add: modal_inv_def scroll_locked_def visible_def on_about_click_def)

lemma modal_inv_on_close_click: "distinct (modal_classes s) \<Longrightarrow> modal_inv (on_close_click s)"
  by (simp add: modal_inv_def scroll_locked_def visible_def on_close_click_def)

lemma modal_inv_initial: "modal_initial s \<Longrightarrow> modal_inv s"
  by (auto simp: modal_inv_def modal_initial_def scroll_locked_def visible_def token_contains_def)

lemma modal_inv_dispatch:
  assumes "modal_inv s"
  shows "modal_inv (dispatch e s)"
proof -
  from assms have "distinct (modal_classes s)"
    by (simp add: modal_inv_def)
  then show ?thesis
    using assms
    by (cases e s rule: dispatch_cases)
      (simp_all add: modal_inv_on_about_click modal_inv_on_close_click)
qed

lemma modal_inv_run: "modal_inv s \<Longrightarrow> modal_inv (modal_run es s)"
  unfolding modal_run_def by (induction es arbitrary: s) (simp_all add: modal_inv_dispatch)

lemma reachable_modal_inv: "modal_reachable s \<Longrightarrow> modal_inv s"
  by (induction rule: modal_reachable.induct) (auto intro: modal_inv_initial modal_inv_dispatch)

lemma run_Nil [simp]: "modal_run [] s = s"
  by (simp add: modal_run_def)

lemma run_Cons [simp]: "modal_run (e # es) s = modal_run es (dispatch e s)"
  by (simp add: modal_run_def)

lemma run_append [simp]: "modal_run (es @ fs) s = modal_run fs (modal_run es s)"
  by (simp add: modal_run_def)

lemma modal_reachable_run: "modal_reachable s \<Longrightarrow> modal_reachable (modal_run es s)"
  by (induction es arbitrary: s) (auto intro: modal_reachable.step)

section \<open>The controller against its contract\<close>

lemma state_of_dispatch: "state_of (dispatch e s) = spec_step e (state_of s)"
proof (cases e)
  case (Click target)
  then show ?thesis by (cases target) (simp_all add: state_of_def)
next
  case (KeyDown key)
  then show ?thesis
    by (cases "key = lit ''Escape'' \<and> visible s") (auto simp: state_of_def)
qed

lemma state_of_run: "state_of (modal_run es s) = foldl (\<lambda>m e. spec_step e m) (state_of s) es"
  by (induction es arbitrary: s) (simp_all add: state_of_dispatch)

lemma others_dispatch:
  "others (lit ''show'') (modal_classes (dispatch e s)) = others (lit ''show'') (modal_classes s)"
  by (cases e s rule: dispatch_cases) (simp_all add: on_about_click_def on_close_click_def)

lemma others_run:
  "others (lit ''show'') (modal_classes (modal_run es s)) = others (lit ''show'') (modal_classes s)"
  by (induction es arbitrary: s) (simp_all add: others_dispatch)

lemma modal_reachable_iff_run:
  "modal_reachable s \<longleftrightarrow> (\<exists>s0 es. modal_initial s0 \<and> s = modal_run es s0)"
proof
  assume "modal_reachable s"
  then show "\<exists>s0 es. modal_initial s0 \<and> s = modal_run es s0"
  proof (induction rule: modal_reachable.induct)
    case (start s)
    then have "modal_initial s \<and> s = modal_run [] s" by simp
    then show ?case by blast
  next
    case (step s e)
    then obtain s0 es where "modal_initial s0" "s = modal_run es s0" by blast
    then have "modal_initial s0 \<and> dispatch e s = modal_run (es @ [e]) s0" by simp
    then show ?case by blast
  qed
qed (auto intro: modal_reachable_run modal_reachable.start)

section \<open>Properties of the controller\<close>

text \<open>\<^bold>\<open>C2\<close> (invariant). From a page whose overlay is hidden and whose body has no
  inline \<^verbatim>\<open>overflow\<close>, after every event of every sequence of clicks and key presses
  the page's scrolling is locked (\<^verbatim>\<open>overflow\<close> is \<^verbatim>\<open>hidden\<close>) exactly when the
  overlay is shown (its class list holds \<^verbatim>\<open>show\<close>).\<close>

theorem scroll_lock_matches_visibility:
  assumes "modal_initial s"
  shows "\<forall>n\<le>length es. scroll_locked (modal_run (take n es) s)
            \<longleftrightarrow> visible (modal_run (take n es) s)"
proof (intro allI impI)
  fix n
  from assms have "modal_inv (modal_run (take n es) s)"
    by (intro modal_inv_run modal_inv_initial)
  then show "scroll_locked (modal_run (take n es) s) \<longleftrightarrow> visible (modal_run (take n es) s)"
    by (simp add: modal_inv_def)
qed

theorem scroll_lock_matches_visibility_witness:
  "scroll_locked (modal_run [Click AboutLink] \<lparr>modal_classes = [lit ''modal''], body_overflow = []\<rparr>)
   \<and> visible (modal_run [Click AboutLink] \<lparr>modal_classes = [lit ''modal''], body_overflow = []\<rparr>)
   \<and> \<not> scroll_locked (modal_run [Click AboutLink, KeyDown (lit ''Escape'')]
        \<lparr>modal_classes = [lit ''modal''], body_overflow = []\<rparr>)
   \<and> \<not> visible (modal_run [Click AboutLink, KeyDown (lit ''Escape'')]
        \<lparr>modal_classes = [lit ''modal''], body_overflow = []\<rparr>)"
proof -
  let ?s = "\<lparr>modal_classes = [lit ''modal''], body_overflow = []\<rparr>"
  let ?es = "[Click AboutLink, KeyDown (lit ''Escape'')]"
  have init: "modal_initial ?s"
    by (simp add: modal_initial_def)
  note inv = scroll_lock_matches_visibility [OF init, of ?es, rule_format]
  have shown: "visible (modal_run [Click AboutLink] ?s)"
    and hidden: "\<not> visible (modal_run ?es ?s)"
    by simp_all
  from inv [of 1] shown have "scroll_locked (modal_run [Click AboutLink] ?s)"
    by simp
  moreover from inv [of 2] hidden have "\<not> scroll_locked (modal_run ?es ?s)"
    by simp
  ultimately show ?thesis
    using shown hidden by blast
qed

text \<open>\<^bold>\<open>C13\<close> (refinement). The controller implements the two-state machine of its
  contract: after any sequence of events, from any page, the overlay is shown or hidden
  as the machine says, started from the state the page was in.\<close>

theorem modal_refines_state_machine:
  "state_of (modal_run es s) = foldl (\<lambda>m e. spec_step e m) (state_of s) es"
  by (rule state_of_run)

text \<open>\<^bold>\<open>C21\<close> (functional). Each of the three ways to dismiss the overlay (the close
  control, a click on the backdrop, the Escape key) hides it and restores the body's
  \<^verbatim>\<open>overflow\<close> to the empty string.\<close>

theorem every_dismissal_unlocks_scroll:
  assumes "e = Click CloseBtn \<or> e = Click ModalBackdrop \<or> e = KeyDown (lit ''Escape'')"
    and "visible s"
  shows "\<not> visible (dispatch e s) \<and> body_overflow (dispatch e s) = []"
proof -
  from assms have "dispatch e s = on_close_click s" by auto
  moreover have "body_overflow (on_close_click s) = []"
    by (simp add: on_close_click_def)
  ultimately show ?thesis by simp
qed

theorem every_dismissal_unlocks_scroll_witness:
  "\<not> visible (dispatch (KeyDown (lit ''Escape''))
       \<lparr>modal_classes = [lit ''modal'', lit ''show''], body_overflow = lit ''hidden''\<rparr>)
   \<and> body_overflow (dispatch (KeyDown (lit ''Escape''))
       \<lparr>modal_classes = [lit ''modal'', lit ''show''], body_overflow = lit ''hidden''\<rparr>) = []"
  by (rule every_dismissal_unlocks_scroll) (simp_all add: visible_def token_contains_def)

text \<open>\<^bold>\<open>C32\<close> (functional). Activating the about link while the overlay is shown
  changes nothing: the class list does not grow and the lock stays.\<close>

theorem opening_twice_is_opening_once:
  "dispatch (Click AboutLink) (dispatch (Click AboutLink) s) = dispatch (Click AboutLink) s"
  by (simp add: on_about_click_def)

text \<open>\<^bold>\<open>C31\<close> (safety). No other transition exists: an event that changes the page is
  a click on the about link, on the close control or on the backdrop, or the Escape key
  pressed while the overlay is shown.\<close>

theorem only_the_four_triggers_change_the_page:
  assumes "dispatch e s \<noteq> s"
  shows "e = Click AboutLink \<or> e = Click CloseBtn \<or> e = Click ModalBackdrop
         \<or> (e = KeyDown (lit ''Escape'') \<and> visible s)"
proof (cases e)
  case (Click target)
  with assms show ?thesis by (cases target) auto
next
  case (KeyDown key)
  with assms show ?thesis
    by (cases "key = lit ''Escape'' \<and> visible s") auto
qed

theorem only_the_four_triggers_change_the_page_witness:
  "dispatch (KeyDown (lit ''Escape''))
       \<lparr>modal_classes = [lit ''modal'', lit ''show''], body_overflow = lit ''hidden''\<rparr>
     \<noteq> \<lparr>modal_classes = [lit ''modal'', lit ''show''], body_overflow = lit ''hidden''\<rparr>
   \<and> visible \<lparr>modal_classes = [lit ''modal'', lit ''show''], body_overflow = lit ''hidden''\<rparr>
   \<and> dispatch (KeyDown (lit ''Enter''))
       \<lparr>modal_classes = [lit ''modal'', lit ''show''], body_overflow = lit ''hidden''\<rparr>
     = \<lparr>modal_classes = [lit ''modal'', lit ''show''], body_overflow = lit ''hidden''\<rparr>"
proof -
  let ?s = "\<lparr>modal_classes = [lit ''modal'', lit ''show''], body_overflow = lit ''hidden''\<rparr>"
  have changed: "dispatch (KeyDown (lit ''Escape'')) ?s \<noteq> ?s"
    by (simp add: on_keydown_def token_contains_def token_remove_def)
  have "dispatch (KeyDown (lit ''Enter'')) ?s = ?s"
    using only_the_four_triggers_change_the_page [of "KeyDown (lit ''Enter'')" ?s] by auto
  with changed only_the_four_triggers_change_the_page [OF changed] show ?thesis
    by simp
qed

text \<open>\<^bold>\<open>C34\<close> (invariant). The controller touches one token only: the other classes of
  the modal element keep their order through every sequence of events, and a class list
  without duplicates stays without duplicates.\<close>

theorem other_classes_are_preserved:
  "others (lit ''show'') (modal_classes (modal_run es s)) = others (lit ''show'') (modal_classes s)
   \<and> (distinct (modal_classes s) \<longrightarrow> distinct (modal_classes (modal_run es s)))"
proof
  show "others (lit ''show'') (modal_classes (modal_run es s))
      = others (lit ''show'') (modal_classes s)"
    by (rule others_run)
  show "distinct (modal_classes s) \<longrightarrow> distinct (modal_classes (modal_run es s))"
  proof (induction es arbitrary: s)
    case (Cons e es)
    have "distinct (modal_classes s) \<longrightarrow> distinct (modal_classes (dispatch e s))"
      by (cases e s rule: dispatch_cases) (simp_all add: on_about_click_def on_close_click_def)
    with Cons show ?case by simp
  qed simp
qed

theorem other_classes_are_preserved_witness:
  "modal_classes (modal_run [Click AboutLink, Click CloseBtn]
      \<lparr>modal_classes = [lit ''modal'', lit ''fade''], body_overflow = []\<rparr>)
   = [lit ''modal'', lit ''fade'']"
  using other_classes_are_preserved [of "[Click AboutLink, Click CloseBtn]"
      "\<lparr>modal_classes = [lit ''modal'', lit ''fade''], body_overflow = []\<rparr>"]
  by (simp add: others_def on_about_click_def on_close_click_def token_add_def token_remove_def)

end
