(* ===== verification/JS_Value.thy ===== *)
theory JS_Value
  imports JS_Prelude
begin

text \<open>
  The values that reach \<^verbatim>\<open>displayResults\<close> (\<^verbatim>\<open>src/script.js\<close>, lines 154-157 and
  168-204) and the operations of the language the script applies to them: the values
  \<^verbatim>\<open>response.json()\<close> can produce, \<^verbatim>\<open>undefined\<close> for a property that is not
  there, the test for truth of \<^verbatim>\<open>!results\<close> and \<^verbatim>\<open>||\<close>, the property reads
  \<^verbatim>\<open>.items\<close>, \<^verbatim>\<open>.length\<close>, \<^verbatim>\<open>.title\<close>, \<^verbatim>\<open>.snippet\<close> and \<^verbatim>\<open>.link\<close>, and the
  conversion to a string that a template literal performs. Each can raise a
  \<^verbatim>\<open>TypeError\<close>, which is a value of the result type.

  Numbers are modelled as integers: the model covers the JSON numbers that are integers
  of magnitude below \<open>2\<^sup>5\<^sup>3\<close>, which print as their decimal digits. Other numbers
  (fractions, exponents) are outside the model.
\<close>

section \<open>Results that may be exceptions\<close>

definition rbind :: "'a result \<Rightarrow> ('a \<Rightarrow> 'b result) \<Rightarrow> 'b result" where
  "rbind r f = (case r of Inl e \<Rightarrow> Inl e | Inr x \<Rightarrow> f x)"

lemma rbind_Inr [simp]: "rbind (Inr x) f = f x"
  by (simp add: rbind_def)

lemma rbind_Inl [simp]: "rbind (Inl e) f = Inl e"
  by (simp add: rbind_def)

lemma rbind_eq_Inr_iff: "rbind r f = Inr y \<longleftrightarrow> (\<exists>x. r = Inr x \<and> f x = Inr y)"
  by (cases r) simp_all

lemma rbind_eq_Inl_iff:
  "rbind r f = Inl e \<longleftrightarrow> r = Inl e \<or> (\<exists>x. r = Inr x \<and> f x = Inl e)"
  by (cases r) simp_all

text \<open>The results of a list of evaluations done in order: the first exception, or all
  the values.\<close>

primrec collect :: "'a result list \<Rightarrow> 'a list result" where
  "collect [] = Inr []"
| "collect (r # rs) = rbind r (\<lambda>x. rbind (collect rs) (\<lambda>xs. Inr (x # xs)))"

lemma collect_eq_Inr_iff: "collect rs = Inr xs \<longleftrightarrow> rs = map Inr xs"
  by (induction rs arbitrary: xs) (auto simp: rbind_eq_Inr_iff)

lemma collect_map_Inr [simp]: "collect (map Inr xs) = Inr xs"
  by (simp add: collect_eq_Inr_iff)

lemma collect_map_eq_Inr_iff:
  "collect (map f xs) = Inr ys \<longleftrightarrow> length ys = length xs \<and> (\<forall>i<length xs. f (xs ! i) = Inr (ys ! i))"
  by (auto simp: collect_eq_Inr_iff list_eq_iff_nth_eq)

section \<open>Values\<close>

text \<open>\<open>StringProtoLink\<close> is the one function object a property read of the script can
  return on data parsed from JSON: \<^verbatim>\<open>String.prototype.link\<close>, which \<^verbatim>\<open>item.link\<close> finds
  when \<^verbatim>\<open>item\<close> is a string. An object is the list of its own properties, each name
  once (\<open>json_value\<close> below says so for the bodies that reach the script:
  \<^verbatim>\<open>JSON.parse\<close> keeps one value per name); a read takes the binding of the name.\<close>

datatype jsval =
    Undefined
  | Null
  | Boolean bool
  | Number int
  | String jstring
  | Array "jsval list"
  | Object "(jstring \<times> jsval) list"
  | StringProtoLink

text \<open>The property names the script reads.\<close>

datatype prop_key = Items | Length | Title | Snippet | Link

primrec prop_name :: "prop_key \<Rightarrow> jstring" where
  "prop_name Items = lit ''items''"
| "prop_name Length = lit ''length''"
| "prop_name Title = lit ''title''"
| "prop_name Snippet = lit ''snippet''"
| "prop_name Link = lit ''link''"

section \<open>Truth\<close>

text \<open>\<^verbatim>\<open>ToBoolean\<close>: \<^verbatim>\<open>undefined\<close>, \<^verbatim>\<open>null\<close>, \<^verbatim>\<open>false\<close>, \<^verbatim>\<open>0\<close> and the empty
  string are falsy, everything else (every array and object included) is truthy.\<close>

primrec truthy :: "jsval \<Rightarrow> bool" where
  "truthy Undefined \<longleftrightarrow> False"
| "truthy Null \<longleftrightarrow> False"
| "truthy (Boolean b) \<longleftrightarrow> b"
| "truthy (Number n) \<longleftrightarrow> n \<noteq> 0"
| "truthy (String s) \<longleftrightarrow> s \<noteq> []"
| "truthy (Array xs) \<longleftrightarrow> True"
| "truthy (Object ps) \<longleftrightarrow> True"
| "truthy StringProtoLink \<longleftrightarrow> True"

text \<open>\<^verbatim>\<open>a || b\<close>.\<close>

definition js_or :: "jsval \<Rightarrow> jsval \<Rightarrow> jsval" where
  "js_or a b = (if truthy a then a else b)"

section \<open>Property reads\<close>

text \<open>\<^verbatim>\<open>v.p\<close> for the names of \<open>prop_key\<close>: a \<^verbatim>\<open>TypeError\<close> on \<^verbatim>\<open>undefined\<close> and
  \<^verbatim>\<open>null\<close>; the own property of an object; the length of a string or an array; on a
  string, \<^verbatim>\<open>link\<close> is inherited from \<^verbatim>\<open>String.prototype\<close>; no prototype has one of
  the other names.\<close>

fun get_prop :: "jsval \<Rightarrow> prop_key \<Rightarrow> jsval result" where
  "get_prop Undefined p = Inl TypeError"
| "get_prop Null p = Inl TypeError"
| "get_prop (String s) Length = Inr (Number (int (length s)))"
| "get_prop (String s) Link = Inr StringProtoLink"
| "get_prop (Array xs) Length = Inr (Number (int (length xs)))"
| "get_prop (Object ps) p = Inr (case map_of ps (prop_name p) of Some v \<Rightarrow> v | None \<Rightarrow> Undefined)"
| "get_prop StringProtoLink Length = Inr (Number 1)"
| "get_prop v p = Inr Undefined"

section \<open>Conversion to a string\<close>

definition digit_char :: "nat \<Rightarrow> jschar" where
  "digit_char d = 0x30 + of_nat d"

fun digits_of :: "nat \<Rightarrow> jstring" where
  "digits_of n = (if n < 10 then [digit_char n] else digits_of (n div 10) @ [digit_char (n mod 10)])"

declare digits_of.simps [simp del]

definition number_to_string :: "int \<Rightarrow> jstring" where
  "number_to_string n = (if n < 0 then 0x2D # digits_of (nat (- n)) else digits_of (nat n))"

text \<open>\<^verbatim>\<open>Array.prototype.join\<close> on strings.\<close>

fun join :: "jstring \<Rightarrow> jstring list \<Rightarrow> jstring" where
  "join sep [] = []"
| "join sep [x] = x"
| "join sep (x # y # ys) = x @ sep @ join sep (y # ys)"

text \<open>\<^verbatim>\<open>ToString\<close>, as a template literal applies it. An array is the join of its
  elements with commas, \<^verbatim>\<open>null\<close> and \<^verbatim>\<open>undefined\<close> elements printing as nothing. An
  object prints as \<^verbatim>\<open>[object Object]\<close> through the inherited \<^verbatim>\<open>toString\<close>; an own
  property of that name, which cannot be a function in parsed JSON, hides it, and the
  conversion raises a \<^verbatim>\<open>TypeError\<close>. A built-in function prints in the form the V8 and
  JavaScriptCore engines use.\<close>

fun to_string :: "jsval \<Rightarrow> jstring result" where
  "to_string Undefined = Inr (lit ''undefined'')"
| "to_string Null = Inr (lit ''null'')"
| "to_string (Boolean b) = Inr (if b then lit ''true'' else lit ''false'')"
| "to_string (Number n) = Inr (number_to_string n)"
| "to_string (String s) = Inr s"
| "to_string (Array xs) =
     rbind (collect (map (\<lambda>x. if x = Undefined \<or> x = Null then Inr [] else to_string x) xs))
       (\<lambda>ss. Inr (join (lit '','') ss))"
| "to_string (Object ps) =
     (if map_of ps (lit ''toString'') = None then Inr (lit ''[object Object]'') else Inl TypeError)"
| "to_string StringProtoLink = Inr (lit ''function link() { [native code] }'')"

section \<open>Values parsed from JSON\<close>

text \<open>What \<^verbatim>\<open>JSON.parse\<close> can return, within the numbers of the model: no
  \<^verbatim>\<open>undefined\<close>, no function, integers below \<open>2\<^sup>5\<^sup>3\<close> in magnitude, and objects
  in which no property name occurs twice.\<close>

fun json_value :: "jsval \<Rightarrow> bool" where
  "json_value Undefined \<longleftrightarrow> False"
| "json_value StringProtoLink \<longleftrightarrow> False"
| "json_value (Number n) \<longleftrightarrow> \<bar>n\<bar> < 2 ^ 53"
| "json_value (Array xs) \<longleftrightarrow> list_all json_value xs"
| "json_value (Object ps) \<longleftrightarrow>
     distinct (map fst ps) \<and> list_all (\<lambda>p. json_value (snd p)) ps"
| "json_value v \<longleftrightarrow> True"

section \<open>Lemmas\<close>

lemma get_prop_eq_Inl_iff:
  "get_prop v p = Inl e \<longleftrightarrow> e = TypeError \<and> (v = Undefined \<or> v = Null)"
  by (cases "(v, p)" rule: get_prop.cases) auto

lemma get_prop_truthy: "truthy v \<Longrightarrow> \<exists>w. get_prop v p = Inr w"
  by (cases "(v, p)" rule: get_prop.cases) auto

lemma get_prop_Object:
  "get_prop (Object ps) p = Inr (case map_of ps (prop_name p) of Some v \<Rightarrow> v | None \<Rightarrow> Undefined)"
  by simp

lemma prop_name_inject [simp]: "prop_name p = prop_name q \<longleftrightarrow> p = q"
  by (cases p; cases q) simp_all

lemma js_or_truthy [simp]: "truthy a \<Longrightarrow> js_or a b = a"
  by (simp add: js_or_def)

lemma js_or_falsy [simp]: "\<not> truthy a \<Longrightarrow> js_or a b = b"
  by (simp add: js_or_def)

lemma digit_char_is_digit: "d < 10 \<Longrightarrow> is_digit (digit_char d)"
  unfolding is_digit_def digit_char_def
  by (simp add: word_le_nat_alt unat_word_ariths unat_of_nat)

lemma digits_of_nonempty [simp]: "digits_of n \<noteq> []"
  by (subst digits_of.simps) simp

lemma digits_of_all_digits: "list_all is_digit (digits_of n)"
proof (induction n rule: digits_of.induct)
  case (1 n)
  then show ?case
    by (subst digits_of.simps) (auto simp: digit_char_is_digit)
qed

lemma number_to_string_nonempty [simp]: "number_to_string n \<noteq> []"
  by (simp add: number_to_string_def)

lemma length_join:
  "length (join sep xs) = sum_list (map length xs) + length sep * (length xs - 1)"
  by (induction sep xs rule: join.induct) simp_all

declare digit_char_def [js_defs] number_to_string_def [js_defs] js_or_def [js_defs]

end
