(* ===== verification/Render.thy ===== *)
theory Render
  imports JS_Value
begin

text \<open>
  The results region of the page and \<^verbatim>\<open>displayResults\<close> (\<^verbatim>\<open>src/script.js\<close>, lines
  168-204). The content of an element is a list of nodes: markup that was assigned to
  \<^verbatim>\<open>innerHTML\<close>, kept as the string that was assigned, and elements that the script
  created and appended. The document is the part of the page the search controller
  touches: the element with id \<^verbatim>\<open>results\<close>, if there is one, and whether there is an
  element of class \<^verbatim>\<open>search-container\<close>. An operation returns the exception it threw,
  if any, together with the document it left behind.
\<close>

section \<open>Nodes\<close>

datatype node =
    Markup jstring
  | Element (tag: jstring) (class_name: jstring) (children: "node list")

text \<open>The \<^verbatim>\<open>innerHTML\<close> getter. Markup reads back as it was written, which is exact for
  the one use of the getter (line 177, right after the heading was assigned in line 173).\<close>

fun outer_html :: "node \<Rightarrow> jstring" where
  "outer_html (Markup m) = m"
| "outer_html (Element t c ns) =
     0x3C # t @ lit '' class='' @ 0x22 # c @ 0x22 # 0x3E # concat (map outer_html ns)
       @ 0x3C # 0x2F # t @ [0x3E]"

definition inner_html :: "node list \<Rightarrow> jstring" where
  "inner_html ns = concat (map outer_html ns)"

section \<open>The document\<close>

record dom =
  results_div :: "node list option"
  search_container :: bool

type_synonym 's outcome = "js_error option \<times> 's"

section \<open>The fixed markup\<close>

definition heading_markup :: jstring where
  "heading_markup = lit ''<h2>Search Results</h2>''"

definition no_results_markup :: jstring where
  "no_results_markup = lit ''<p>No results found. Try a different search.</p>''"

section \<open>One result\<close>

text \<open>The template literal of lines 192-196 with its three substitutions converted to
  strings: a line feed and twelve spaces before each tag, a line feed and eight spaces at
  the end.\<close>

definition item_template :: "jstring \<Rightarrow> jstring \<Rightarrow> jstring \<Rightarrow> jstring" where
  "item_template title snippet link =
     0x0A # lit ''            <h3>'' @ title @ lit ''</h3>''
     @ 0x0A # lit ''            <p>'' @ snippet @ lit ''</p>''
     @ 0x0A # lit ''            <a href='' @ 0x22 # link @ 0x22 # lit '' target='' @ 0x22 # lit ''_blank''
     @ 0x22 # lit '' class='' @ 0x22 # lit ''download-link'' @ 0x22 # lit ''>View Resource</a>''
     @ 0x0A # lit ''        ''"

text \<open>The evaluation of the template for an item: each substitution is evaluated and
  converted before the next one, and the first exception ends the evaluation.\<close>

definition item_markup :: "jsval \<Rightarrow> jstring result" where
  "item_markup item =
     rbind (get_prop item Title) (\<lambda>title.
     rbind (to_string title) (\<lambda>title_text.
     rbind (get_prop item Snippet) (\<lambda>snippet.
     rbind (to_string (js_or snippet (String []))) (\<lambda>snippet_text.
     rbind (get_prop item Link) (\<lambda>link.
     rbind (to_string link) (\<lambda>link_text.
     Inr (item_template title_text snippet_text link_text)))))))"

text \<open>Lines 188-196: the \<^verbatim>\<open>div\<close> of one result.\<close>

definition result_element :: "jsval \<Rightarrow> node result" where
  "result_element item =
     rbind (item_markup item) (\<lambda>m. Inr (Element (lit ''div'') (lit ''result-item'') [Markup m]))"

text \<open>Lines 186-200: \<^verbatim>\<open>forEach\<close> appends the element of each item to the container, in
  the order of the array; an exception ends the loop.\<close>

primrec for_each_item :: "jsval list \<Rightarrow> node list \<Rightarrow> node list result" where
  "for_each_item [] kids = Inr kids"
| "for_each_item (item # items) kids =
     rbind (result_element item) (\<lambda>e. for_each_item items (kids @ [e]))"

section \<open>\<^verbatim>\<open>displayResults\<close>\<close>

text \<open>Without an element of id \<^verbatim>\<open>results\<close> the first assignment throws. Otherwise the
  heading replaces the content; for a falsy argument or one whose \<^verbatim>\<open>length\<close> is
  \<^verbatim>\<open>0\<close> the message is added and the function returns; for anything else that is not
  an array the call of \<^verbatim>\<open>forEach\<close> throws; for an array the container with the items
  is appended, unless an item throws.\<close>

definition displayResults :: "jsval \<Rightarrow> 'a dom_scheme \<Rightarrow> 'a dom_scheme outcome" where
  "displayResults results s =
     (case results_div s of
        None \<Rightarrow> (Some TypeError, s)
      | Some old \<Rightarrow>
          let s1 = s\<lparr>results_div := Some [Markup heading_markup]\<rparr> in
          if \<not> truthy results \<or> get_prop results Length = Inr (Number 0)
          then (None, s1\<lparr>results_div :=
                  Some [Markup (inner_html [Markup heading_markup] @ no_results_markup)]\<rparr>)
          else (case results of
                  Array items \<Rightarrow>
                    (case for_each_item items [] of
                       Inl e \<Rightarrow> (Some e, s1)
                     | Inr kids \<Rightarrow>
                         (None, s1\<lparr>results_div := Some [Markup heading_markup,
                            Element (lit ''div'') (lit ''results-container'') kids]\<rparr>))
                | _ \<Rightarrow> (Some TypeError, s1)))"

section \<open>Result items, as the specification describes them\<close>

text \<open>A \<open>ResultItem\<close> has a title, an optional snippet and a link, all strings. In the
  response it is an object with these properties.\<close>

record result_item =
  item_title :: jstring
  item_snippet :: "jstring option"
  item_link :: jstring

definition item_value :: "result_item \<Rightarrow> jsval" where
  "item_value it = Object
     ((lit ''title'', String (item_title it))
      # (case item_snippet it of None \<Rightarrow> [] | Some sn \<Rightarrow> [(lit ''snippet'', String sn)])
      @ [(lit ''link'', String (item_link it))])"

text \<open>The block the specification asks for: title, snippet (or the empty string) and
  link, in the template.\<close>

definition result_block :: "result_item \<Rightarrow> node" where
  "result_block it = Element (lit ''div'') (lit ''result-item'')
     [Markup (item_template (item_title it)
        (case item_snippet it of None \<Rightarrow> [] | Some sn \<Rightarrow> sn) (item_link it))]"

section \<open>Lemmas: nodes\<close>

lemma inner_html_Nil [simp]: "inner_html [] = []"
  by (simp add: inner_html_def)

lemma inner_html_Markup [simp]: "inner_html [Markup m] = m"
  by (simp add: inner_html_def)

lemma inner_html_append [simp]: "inner_html (ms @ ns) = inner_html ms @ inner_html ns"
  by (simp add: inner_html_def)

section \<open>Lemmas: the loop\<close>

lemma for_each_item_collect:
  "for_each_item items kids =
     rbind (collect (map result_element items)) (\<lambda>es. Inr (kids @ es))"
  by (induction items arbitrary: kids) (auto simp: rbind_def split: sum.splits)

lemma for_each_item_eq_Inr_iff:
  "for_each_item items kids = Inr ns \<longleftrightarrow>
     (\<exists>es. map result_element items = map Inr es \<and> ns = kids @ es)"
  by (auto simp: for_each_item_collect rbind_eq_Inr_iff collect_eq_Inr_iff)

lemma for_each_item_length:
  "for_each_item items kids = Inr ns \<Longrightarrow> length ns = length kids + length items"
  by (auto simp: for_each_item_eq_Inr_iff dest: map_eq_imp_length_eq)

lemma result_element_eq_Inl_iff: "result_element item = Inl e \<longleftrightarrow> item_markup item = Inl e"
  by (simp add: result_element_def rbind_eq_Inl_iff)

lemma for_each_item_eq_Inl_iff:
  "(\<exists>e. for_each_item items kids = Inl e) \<longleftrightarrow> (\<exists>item\<in>set items. \<exists>e. item_markup item = Inl e)"
proof (induction items arbitrary: kids)
  case (Cons item items)
  show ?case
  proof (cases "result_element item")
    case (Inl e)
    then have "item_markup item = Inl e"
      by (simp add: result_element_eq_Inl_iff)
    with Inl show ?thesis by auto
  next
    case (Inr n)
    then have "\<And>e. item_markup item \<noteq> Inl e"
      by (auto simp: result_element_eq_Inl_iff [symmetric])
    with Inr Cons show ?thesis by simp
  qed
qed simp

section \<open>Lemmas: well-formed items\<close>

lemma item_markup_item_value:
  "item_markup (item_value it) =
     Inr (item_template (item_title it)
       (case item_snippet it of None \<Rightarrow> [] | Some sn \<Rightarrow> sn) (item_link it))"
  by (cases "item_snippet it") (simp_all add: item_markup_def item_value_def js_or_def)

lemma result_element_item_value [simp]:
  "result_element (item_value it) = Inr (result_block it)"
  by (simp add: result_element_def item_markup_item_value result_block_def)

lemma for_each_item_item_values:
  "for_each_item (map item_value its) kids = Inr (kids @ map result_block its)"
  by (induction its arbitrary: kids) simp_all

section \<open>Lemmas: \<^verbatim>\<open>displayResults\<close> branch by branch\<close>

lemma displayResults_no_element:
  "results_div s = None \<Longrightarrow> displayResults results s = (Some TypeError, s)"
  by (simp add: displayResults_def)

lemma displayResults_empty:
  assumes "results_div s \<noteq> None"
    and "\<not> truthy results \<or> get_prop results Length = Inr (Number 0)"
  shows "displayResults results s =
     (None, s\<lparr>results_div := Some [Markup (heading_markup @ no_results_markup)]\<rparr>)"
  using assms by (auto simp: displayResults_def)

lemma displayResults_not_array:
  assumes "results_div s \<noteq> None"
    and "truthy results" and "get_prop results Length \<noteq> Inr (Number 0)"
    and "\<And>items. results \<noteq> Array items"
  shows "displayResults results s = (Some TypeError, s\<lparr>results_div := Some [Markup heading_markup]\<rparr>)"
  using assms by (cases results) (auto simp: displayResults_def)

lemma displayResults_array:
  assumes "results_div s \<noteq> None" and "items \<noteq> []"
  shows "displayResults (Array items) s =
     (case for_each_item items [] of
        Inl e \<Rightarrow> (Some e, s\<lparr>results_div := Some [Markup heading_markup]\<rparr>)
      | Inr kids \<Rightarrow> (None, s\<lparr>results_div := Some [Markup heading_markup,
          Element (lit ''div'') (lit ''results-container'') kids]\<rparr>))"
  using assms by (auto simp: displayResults_def split: sum.splits)

lemmas displayResults_branches =
  displayResults_no_element displayResults_empty displayResults_not_array displayResults_array

text \<open>Whatever the argument, \<^verbatim>\<open>displayResults\<close> touches the results element only, and
  never removes it.\<close>

lemma displayResults_frame [js_frame]:
  "search_container (snd (displayResults results s)) = search_container s"
  "dom.more (snd (displayResults results s)) = dom.more s"
  "results_div (snd (displayResults results s)) = None \<longleftrightarrow> results_div s = None"
  by (auto simp: displayResults_def Let_def split: option.splits jsval.splits sum.splits)

text \<open>It changes the content of the results element and nothing else.\<close>

lemma displayResults_shape:
  "snd (displayResults results s) = s\<lparr>results_div := results_div (snd (displayResults results s))\<rparr>"
  by (auto simp: displayResults_def Let_def split: option.splits jsval.splits sum.splits)

section \<open>What is shown, as a function of the argument\<close>

text \<open>The content \<^verbatim>\<open>displayResults\<close> gives the results element, or the exception it
  throws, without the document: the specification of the rendering.\<close>

definition shown_for :: "jsval \<Rightarrow> node list result" where
  "shown_for results =
     (if \<not> truthy results \<or> get_prop results Length = Inr (Number 0)
      then Inr [Markup (heading_markup @ no_results_markup)]
      else case results of
             Array items \<Rightarrow>
               rbind (collect (map result_element items)) (\<lambda>es.
                 Inr [Markup heading_markup, Element (lit ''div'') (lit ''results-container'') es])
           | _ \<Rightarrow> Inl TypeError)"

text \<open>\<^verbatim>\<open>displayResults\<close> implements it on every document with a results element: it
  leaves the content \<open>shown_for\<close> computes, and when it throws it leaves the heading.\<close>

lemma displayResults_shown_for:
  assumes "results_div s \<noteq> None"
  shows "displayResults results s =
     (case shown_for results of
        Inl e \<Rightarrow> (Some e, s\<lparr>results_div := Some [Markup heading_markup]\<rparr>)
      | Inr ns \<Rightarrow> (None, s\<lparr>results_div := Some ns\<rparr>))"
proof (cases "\<not> truthy results \<or> get_prop results Length = Inr (Number 0)")
  case True
  with assms show ?thesis
    by (simp add: displayResults_empty shown_for_def)
next
  case False
  show ?thesis
  proof (cases "\<exists>items. results = Array items")
    case True
    then obtain items where r: "results = Array items" by blast
    with False have "items \<noteq> []" by auto
    with assms r False show ?thesis
      by (simp add: displayResults_array shown_for_def for_each_item_collect rbind_def
          split: sum.splits)
  next
    case no_array: False
    with assms False have "displayResults results s =
        (Some TypeError, s\<lparr>results_div := Some [Markup heading_markup]\<rparr>)"
      by (intro displayResults_not_array) auto
    with False no_array show ?thesis
      by (cases results) (simp_all add: shown_for_def)
  qed
qed

lemma collect_result_elements [simp]:
  "collect (map result_element (map item_value its)) = Inr (map result_block its)"
  by (simp add: collect_eq_Inr_iff)

lemma shown_for_item_values:
  "its \<noteq> [] \<Longrightarrow> shown_for (Array (map item_value its)) =
     Inr [Markup heading_markup,
          Element (lit ''div'') (lit ''results-container'') (map result_block its)]"
  by (simp add: shown_for_def del: map_map)

lemma shown_for_no_items [simp]:
  "shown_for Undefined = Inr [Markup (heading_markup @ no_results_markup)]"
  "shown_for (Array []) = Inr [Markup (heading_markup @ no_results_markup)]"
  by (simp_all add: shown_for_def)

lemma json_value_item_value [simp]: "json_value (item_value it)"
  by (simp add: item_value_def split: option.splits)

lemma shown_for_eq_Inl_iff:
  "(\<exists>e. shown_for results = Inl e) \<longleftrightarrow>
     truthy results \<and> get_prop results Length \<noteq> Inr (Number 0) \<and>
     (case results of
        Array items \<Rightarrow> list_ex (\<lambda>item. \<exists>e. item_markup item = Inl e) items
      | _ \<Rightarrow> True)"
proof (cases "\<not> truthy results \<or> get_prop results Length = Inr (Number 0)")
  case True
  then show ?thesis by (auto simp: shown_for_def)
next
  case False
  show ?thesis
  proof (cases results)
    case (Array items)
    have "(\<exists>e. rbind (collect (map result_element items)) (\<lambda>es. Inr (f es)) = Inl e)
        \<longleftrightarrow> (\<exists>e. for_each_item items [] = Inl e)" for f :: "node list \<Rightarrow> node list"
      by (simp add: for_each_item_collect rbind_eq_Inl_iff)
    with False Array show ?thesis
      by (simp add: shown_for_def for_each_item_eq_Inl_iff list_ex_iff)
  qed (use False in \<open>simp_all add: shown_for_def\<close>)
qed

declare heading_markup_def [js_defs] no_results_markup_def [js_defs] item_template_def [js_defs]

section \<open>Properties of the rendering\<close>

text \<open>\<^bold>\<open>C5\<close> (functional). For well-formed items (objects with a string title, an
  optional string snippet and a string link) \<^verbatim>\<open>displayResults\<close> replaces the content of
  the results element by the heading and one container that holds one block per item,
  in the order of the response, each block being the template filled with the item's
  title, its snippet or the empty string, and its link.\<close>

theorem displayResults_renders_items_in_order:
  assumes "results_div s \<noteq> None" and "its \<noteq> []"
  shows "displayResults (Array (map item_value its)) s =
     (None, s\<lparr>results_div := Some [Markup heading_markup,
        Element (lit ''div'') (lit ''results-container'') (map result_block its)]\<rparr>)"
  using assms by (simp add: displayResults_shown_for shown_for_item_values)

theorem displayResults_renders_items_in_order_witness:
  "displayResults
     (Array [Object [(lit ''title'', String (lit ''A'')), (lit ''snippet'', String (lit ''s'')),
                     (lit ''link'', String (lit ''u''))],
             Object [(lit ''title'', String (lit ''B'')), (lit ''link'', String (lit ''v''))]])
     \<lparr>results_div = Some [], search_container = True\<rparr>
   = (None, \<lparr>results_div = Some [Markup heading_markup,
        Element (lit ''div'') (lit ''results-container'')
          [Element (lit ''div'') (lit ''result-item'')
             [Markup (item_template (lit ''A'') (lit ''s'') (lit ''u''))],
           Element (lit ''div'') (lit ''result-item'')
             [Markup (item_template (lit ''B'') [] (lit ''v''))]]],
      search_container = True\<rparr>)"
  using displayResults_renders_items_in_order [of "\<lparr>results_div = Some [], search_container = True\<rparr>"
      "[\<lparr>item_title = lit ''A'', item_snippet = Some (lit ''s''), item_link = lit ''u''\<rparr>,
        \<lparr>item_title = lit ''B'', item_snippet = None, item_link = lit ''v''\<rparr>]"]
  by (simp add: item_value_def result_block_def)

text \<open>\<^bold>\<open>C8\<close> (functional). For an absent or empty item sequence (a falsy argument, or
  one whose \<^verbatim>\<open>length\<close> is \<^verbatim>\<open>0\<close>) \<^verbatim>\<open>displayResults\<close> leaves exactly the heading
  followed by the no-results message in the results element, and no result block.\<close>

theorem displayResults_nothing_found:
  assumes "results_div s \<noteq> None"
    and "\<not> truthy results \<or> get_prop results Length = Inr (Number 0)"
  shows "displayResults results s =
     (None, s\<lparr>results_div := Some [Markup (heading_markup @ no_results_markup)]\<rparr>)"
  using assms by (rule displayResults_empty)

theorem displayResults_nothing_found_witness:
  "displayResults Undefined \<lparr>results_div = Some [Markup (lit ''old'')], search_container = True\<rparr>
     = (None, \<lparr>results_div = Some [Markup
          (lit ''<h2>Search Results</h2><p>No results found. Try a different search.</p>'')],
        search_container = True\<rparr>)
   \<and> displayResults (Array []) \<lparr>results_div = Some [Markup (lit ''old'')], search_container = True\<rparr>
     = (None, \<lparr>results_div = Some [Markup
          (lit ''<h2>Search Results</h2><p>No results found. Try a different search.</p>'')],
        search_container = True\<rparr>)"
  using displayResults_nothing_found [of
      "\<lparr>results_div = Some [Markup (lit ''old'')], search_container = True\<rparr>" Undefined]
    displayResults_nothing_found [of
      "\<lparr>results_div = Some [Markup (lit ''old'')], search_container = True\<rparr>" "Array []"]
  by (simp add: js_defs)

text \<open>\<^bold>\<open>C19\<close> (refinement). \<^verbatim>\<open>displayResults\<close> implements the function \<open>shown_for\<close> of
  its argument: on every document with a results element it stores the content
  \<open>shown_for\<close> computes and returns normally, or throws the exception \<open>shown_for\<close>
  computes and leaves the heading alone; nothing else of the document changes.\<close>

theorem displayResults_implements_shown_for:
  assumes "results_div s \<noteq> None"
  shows "displayResults results s =
     (case shown_for results of
        Inl e \<Rightarrow> (Some e, s\<lparr>results_div := Some [Markup heading_markup]\<rparr>)
      | Inr ns \<Rightarrow> (None, s\<lparr>results_div := Some ns\<rparr>))"
  using assms by (rule displayResults_shown_for)

theorem displayResults_implements_shown_for_witness:
  "displayResults (Number 5) \<lparr>results_div = Some [], search_container = False\<rparr>
     = (Some TypeError, \<lparr>results_div = Some [Markup heading_markup], search_container = False\<rparr>)"
  using displayResults_implements_shown_for [of
      "\<lparr>results_div = Some [], search_container = False\<rparr>" "Number 5"]
  by (simp add: shown_for_def)

text \<open>\<^bold>\<open>C20\<close> (error). \<^verbatim>\<open>displayResults\<close> throws exactly when its argument is truthy,
  its \<^verbatim>\<open>length\<close> is not \<^verbatim>\<open>0\<close>, and it is either not an array or an array with an
  item whose template cannot be evaluated (\<^verbatim>\<open>null\<close>, or a field that cannot be
  converted to a string). When it throws, the results element holds the heading only.\<close>

theorem displayResults_throws_iff:
  assumes "results_div s \<noteq> None"
  shows "(fst (displayResults results s) \<noteq> None \<longleftrightarrow>
           truthy results \<and> get_prop results Length \<noteq> Inr (Number 0) \<and>
           (case results of
              Array items \<Rightarrow> list_ex (\<lambda>item. \<exists>e. item_markup item = Inl e) items
            | _ \<Rightarrow> True))
       \<and> (fst (displayResults results s) \<noteq> None \<longrightarrow>
           results_div (snd (displayResults results s)) = Some [Markup heading_markup])"
proof -
  have "fst (displayResults results s) \<noteq> None \<longleftrightarrow> (\<exists>e. shown_for results = Inl e)"
    using assms by (cases "shown_for results") (simp_all add: displayResults_shown_for)
  moreover have "fst (displayResults results s) \<noteq> None \<longrightarrow>
      results_div (snd (displayResults results s)) = Some [Markup heading_markup]"
    using assms by (cases "shown_for results") (simp_all add: displayResults_shown_for)
  ultimately show ?thesis
    by (simp add: shown_for_eq_Inl_iff)
qed

theorem displayResults_throws_iff_witness:
  "fst (displayResults (Array [Null]) \<lparr>results_div = Some [], search_container = True\<rparr>) \<noteq> None
   \<and> results_div (snd (displayResults (Array [Null])
        \<lparr>results_div = Some [], search_container = True\<rparr>)) = Some [Markup heading_markup]"
  using displayResults_throws_iff [of "\<lparr>results_div = Some [], search_container = True\<rparr>"
      "Array [Null]"]
  by (simp add: item_markup_def)

end
