(* ===== verification/Search.thy ===== *)
theory Search
  imports Render
begin

text \<open>
  \<^verbatim>\<open>searchForTextbook\<close> (\<^verbatim>\<open>src/script.js\<close>, lines 127-164). The function is
  asynchronous: it runs up to the call of \<^verbatim>\<open>fetch\<close>, is suspended until the response
  arrives, calls \<^verbatim>\<open>response.json()\<close>, is suspended again until the body is parsed,
  and then renders. Each stretch between two suspensions is one definition here; the
  searches that are suspended are kept in the state with the point they wait at, so that
  the page model can let other events happen in between. The state is the document,
  extended by the configuration, the list of suspended searches and the log of what the
  function sent and reported.
\<close>

section \<open>State\<close>

text \<open>\<^verbatim>\<open>import.meta.env.VITE_GOOGLE_API_KEY\<close> and \<^verbatim>\<open>VITE_SEARCH_ENGINE_ID\<close>: strings, or
  \<^verbatim>\<open>undefined\<close> when the variable was not set at build time. The object
  \<^verbatim>\<open>import.meta.env\<close> itself is taken to exist, as it does in every build of the bundler
  the names belong to; run unbundled, lines 130-131 would throw before anything else.\<close>

record config =
  apiKey :: "jstring option"
  searchEngineId :: "jstring option"

text \<open>Where a suspended search waits: at \<^verbatim>\<open>await fetch(url)\<close> (line 152) or at
  \<^verbatim>\<open>await response.json()\<close> (line 154).\<close>

datatype phase = AwaitFetch | AwaitJson

record search_page = dom +
  config :: config
  pending :: "(nat \<times> phase) list"
  next_id :: nat
  requests :: "jstring list"
  console_errors :: "js_error list"

section \<open>The fixed markup and the request\<close>

definition loading_markup :: jstring where
  "loading_markup = lit ''<h2>Search Results</h2><p>Searching for textbooks...</p>''"

definition error_markup :: jstring where
  "error_markup =
     lit ''<h2>Search Results</h2><p>An error occurred while searching. Please try again.</p>''"

text \<open>A template literal prints \<^verbatim>\<open>undefined\<close> as the word.\<close>

definition env_text :: "jstring option \<Rightarrow> jstring" where
  "env_text v = (case v of None \<Rightarrow> lit ''undefined'' | Some s \<Rightarrow> s)"

text \<open>Line 148: the query is spliced into the URL as it is.\<close>

definition request_url :: "config \<Rightarrow> jstring \<Rightarrow> jstring" where
  "request_url c query =
     lit ''https://www.googleapis.com/customsearch/v1?q='' @ query
     @ lit ''+filetype:pdf&key='' @ env_text (apiKey c)
     @ lit ''&cx='' @ env_text (searchEngineId c)"

section \<open>The function, stretch by stretch\<close>

text \<open>Lines 134-141: the results element is looked up and, when there is none, created
  and appended to the element of class \<^verbatim>\<open>search-container\<close>; without such an element
  \<^verbatim>\<open>querySelector\<close> returns \<^verbatim>\<open>null\<close> and the call of \<^verbatim>\<open>appendChild\<close> throws.\<close>

definition ensure_results_div :: "'a dom_scheme \<Rightarrow> 'a dom_scheme outcome" where
  "ensure_results_div s =
     (case results_div s of
        Some content \<Rightarrow> (None, s)
      | None \<Rightarrow>
          if search_container s then (None, s\<lparr>results_div := Some []\<rparr>)
          else (Some TypeError, s))"

text \<open>Lines 127-152, up to the first suspension. An exception here is thrown outside the
  \<^verbatim>\<open>try\<close> block: it rejects the promise of the function.\<close>

definition search_start :: "jstring \<Rightarrow> 'a search_page_scheme \<Rightarrow> 'a search_page_scheme outcome" where
  "search_start query s =
     (case ensure_results_div s of
        (Some e, s1) \<Rightarrow> (Some e, s1)
      | (None, s1) \<Rightarrow>
          (None, s1\<lparr>results_div := Some [Markup loading_markup],
                    requests := requests s1 @ [request_url (config s1) query],
                    pending := pending s1 @ [(next_id s1, AwaitFetch)],
                    next_id := Suc (next_id s1)\<rparr>))"

text \<open>A search that has returned is not suspended any more.\<close>

definition finish :: "nat \<Rightarrow> 'a search_page_scheme \<Rightarrow> 'a search_page_scheme" where
  "finish i s = s\<lparr>pending := filter (\<lambda>p. fst p \<noteq> i) (pending s)\<rparr>"

text \<open>Lines 158-163: the \<^verbatim>\<open>catch\<close> block logs the error and writes the error message
  into the element that line 134 or 137 bound to \<^verbatim>\<open>resultsDiv\<close>. Nothing in the script
  removes that element from the document, so it is the results element of the state; in
  a state without one the assignment would change an element that is not in the page.\<close>

definition search_catch :: "js_error \<Rightarrow> 'a search_page_scheme \<Rightarrow> 'a search_page_scheme" where
  "search_catch e s =
     s\<lparr>console_errors := console_errors s @ [e],
       results_div := (case results_div s of None \<Rightarrow> None | Some content \<Rightarrow> Some [Markup error_markup])\<rparr>"

text \<open>Line 152 resumes with the response: line 154 calls \<^verbatim>\<open>response.json()\<close> and the
  search is suspended again.\<close>

definition fetch_fulfilled :: "nat \<Rightarrow> 'a search_page_scheme \<Rightarrow> 'a search_page_scheme" where
  "fetch_fulfilled i s = s\<lparr>pending := map (\<lambda>p. if fst p = i then (i, AwaitJson) else p) (pending s)\<rparr>"

text \<open>Lines 152 and 154 resume with a rejection: control passes to the \<^verbatim>\<open>catch\<close> block
  and the function returns.\<close>

definition search_rejected :: "nat \<Rightarrow> js_error \<Rightarrow> 'a search_page_scheme \<Rightarrow> 'a search_page_scheme" where
  "search_rejected i e s = finish i (search_catch e s)"

text \<open>Lines 154-157 resume with the parsed body: \<^verbatim>\<open>data.items\<close> is read and rendered;
  an exception of the read or of \<^verbatim>\<open>displayResults\<close> is caught.\<close>

definition json_fulfilled :: "nat \<Rightarrow> jsval \<Rightarrow> 'a search_page_scheme \<Rightarrow> 'a search_page_scheme" where
  "json_fulfilled i data s =
     finish i
       (case get_prop data Items of
          Inl e \<Rightarrow> search_catch e s
        | Inr items \<Rightarrow>
            (case displayResults items s of
               (None, s1) \<Rightarrow> s1
             | (Some e, s1) \<Rightarrow> search_catch e s1))"

section \<open>Suspended searches\<close>

definition waiting :: "'a search_page_scheme \<Rightarrow> nat \<Rightarrow> phase \<Rightarrow> bool" where
  "waiting s i ph \<longleftrightarrow> (i, ph) \<in> set (pending s)"

text \<open>The invariant of the search state: suspended searches have distinct identifiers
  below the next one to be given out, and while a search is suspended the results
  element exists.\<close>

definition search_inv :: "'a search_page_scheme \<Rightarrow> bool" where
  "search_inv s \<longleftrightarrow>
     distinct (map fst (pending s)) \<and>
     list_all (\<lambda>p. fst p < next_id s) (pending s) \<and>
     (pending s = [] \<or> results_div s \<noteq> None)"

section \<open>Lemmas: each stretch\<close>

lemma ensure_results_div_cases:
  obtains (present) c where "results_div s = Some c" "ensure_results_div s = (None, s)"
  | (created) "results_div s = None" "search_container s"
      "ensure_results_div s = (None, s\<lparr>results_div := Some []\<rparr>)"
  | (thrown) "results_div s = None" "\<not> search_container s"
      "ensure_results_div s = (Some TypeError, s)"
  by (cases "results_div s") (auto simp: ensure_results_div_def)

lemma search_start_thrown:
  "results_div s = None \<Longrightarrow> \<not> search_container s \<Longrightarrow> search_start q s = (Some TypeError, s)"
  by (simp add: search_start_def ensure_results_div_def)

lemma search_start_ok:
  assumes "results_div s \<noteq> None \<or> search_container s"
  shows "search_start q s =
     (None, s\<lparr>results_div := Some [Markup loading_markup],
              requests := requests s @ [request_url (config s) q],
              pending := pending s @ [(next_id s, AwaitFetch)],
              next_id := Suc (next_id s)\<rparr>)"
  using assms by (cases s rule: ensure_results_div_cases) (auto simp: search_start_def)

lemma search_start_throws_iff:
  "fst (search_start q s) \<noteq> None \<longleftrightarrow> results_div s = None \<and> \<not> search_container s"
  by (cases s rule: ensure_results_div_cases) (auto simp: search_start_def)

lemma results_div_search_catch:
  "results_div (search_catch e s) =
     (if results_div s = None then None else Some [Markup error_markup])"
  by (auto simp: search_catch_def)

lemma finish_simps [simp]:
  "results_div (finish i s) = results_div s"
  "search_container (finish i s) = search_container s"
  "config (finish i s) = config s"
  "next_id (finish i s) = next_id s"
  "requests (finish i s) = requests s"
  "console_errors (finish i s) = console_errors s"
  "search_page.more (finish i s) = search_page.more s"
  "pending (finish i s) = filter (\<lambda>p. fst p \<noteq> i) (pending s)"
  by (simp_all add: finish_def)

lemma search_catch_simps [simp]:
  "search_container (search_catch e s) = search_container s"
  "config (search_catch e s) = config s"
  "next_id (search_catch e s) = next_id s"
  "requests (search_catch e s) = requests s"
  "pending (search_catch e s) = pending s"
  "console_errors (search_catch e s) = console_errors s @ [e]"
  "search_page.more (search_catch e s) = search_page.more s"
  by (simp_all add: search_catch_def)

lemma search_rejected_simps [simp]:
  "search_container (search_rejected i e s) = search_container s"
  "config (search_rejected i e s) = config s"
  "next_id (search_rejected i e s) = next_id s"
  "requests (search_rejected i e s) = requests s"
  "pending (search_rejected i e s) = filter (\<lambda>p. fst p \<noteq> i) (pending s)"
  "console_errors (search_rejected i e s) = console_errors s @ [e]"
  "search_page.more (search_rejected i e s) = search_page.more s"
  by (simp_all add: search_rejected_def)

lemma fetch_fulfilled_simps [simp]:
  "results_div (fetch_fulfilled i s) = results_div s"
  "search_container (fetch_fulfilled i s) = search_container s"
  "config (fetch_fulfilled i s) = config s"
  "next_id (fetch_fulfilled i s) = next_id s"
  "requests (fetch_fulfilled i s) = requests s"
  "console_errors (fetch_fulfilled i s) = console_errors s"
  "search_page.more (fetch_fulfilled i s) = search_page.more s"
  "map fst (pending (fetch_fulfilled i s)) = map fst (pending s)"
  by (simp_all add: fetch_fulfilled_def comp_def)

text \<open>What \<^verbatim>\<open>displayResults\<close> leaves of the search state.\<close>

lemma displayResults_search_frame [simp]:
  "config (snd (displayResults r s)) = config s"
  "pending (snd (displayResults r s)) = pending s"
  "next_id (snd (displayResults r s)) = next_id s"
  "requests (snd (displayResults r s)) = requests s"
  "console_errors (snd (displayResults r s)) = console_errors s"
  "search_page.more (snd (displayResults r s)) = search_page.more s"
  by (auto simp: displayResults_def Let_def split: option.splits jsval.splits sum.splits)

text \<open>The results element after the body has arrived: the rendering when it succeeds,
  the error message when anything was thrown. It is a function of the body alone.\<close>

definition response_view :: "jsval \<Rightarrow> node list" where
  "response_view data =
     (case rbind (get_prop data Items) shown_for of
        Inl e \<Rightarrow> [Markup error_markup]
      | Inr ns \<Rightarrow> ns)"

text \<open>A response body with the given items (and nothing else).\<close>

definition response_with :: "result_item list \<Rightarrow> jsval" where
  "response_with its = Object [(lit ''items'', Array (map item_value its))]"

lemma json_value_response_with [simp]: "json_value (response_with its)"
  by (simp add: response_with_def list_all_iff)

lemma response_view_response_with:
  "response_view (response_with its) =
     (if its = [] then [Markup (heading_markup @ no_results_markup)]
      else [Markup heading_markup,
            Element (lit ''div'') (lit ''results-container'') (map result_block its)])"
  by (simp add: response_view_def response_with_def shown_for_item_values)

lemma response_view_no_items:
  "get_prop data Items = Inr Undefined \<Longrightarrow>
   response_view data = [Markup (heading_markup @ no_results_markup)]"
  by (simp add: response_view_def)

text \<open>Whatever the body, what is shown for it is not the loading placeholder.\<close>

lemma shown_for_not_loading: "shown_for results \<noteq> Inr [Markup loading_markup]"
proof (cases "\<not> truthy results \<or> get_prop results Length = Inr (Number 0)")
  case True
  then show ?thesis
    by (simp add: shown_for_def heading_markup_def no_results_markup_def loading_markup_def lit_Cons)
next
  case False
  then show ?thesis
    by (cases results) (auto simp: shown_for_def rbind_eq_Inr_iff)
qed

lemma response_view_not_loading [simp]: "response_view data \<noteq> [Markup loading_markup]"
proof (cases "rbind (get_prop data Items) shown_for")
  case (Inl e)
  then show ?thesis
    by (simp add: response_view_def error_markup_def loading_markup_def lit_Cons)
next
  case (Inr ns)
  then obtain items where "shown_for items = Inr ns"
    by (auto simp: rbind_eq_Inr_iff)
  with shown_for_not_loading [of items] Inr show ?thesis
    by (simp add: response_view_def)
qed

lemma results_div_json_fulfilled:
  assumes "results_div s \<noteq> None"
  shows "results_div (json_fulfilled i data s) = Some (response_view data)"
proof (cases "get_prop data Items")
  case (Inl e)
  with assms show ?thesis
    by (simp add: json_fulfilled_def response_view_def results_div_search_catch)
next
  case (Inr items)
  with assms show ?thesis
    by (cases "shown_for items")
      (simp_all add: json_fulfilled_def response_view_def displayResults_shown_for
        results_div_search_catch)
qed

lemma results_div_search_rejected:
  "results_div s \<noteq> None \<Longrightarrow> results_div (search_rejected i e s) = Some [Markup error_markup]"
  by (simp add: search_rejected_def results_div_search_catch)

lemma json_fulfilled_alt:
  "json_fulfilled i data s =
     finish i
       (case get_prop data Items of
          Inl e \<Rightarrow> search_catch e s
        | Inr items \<Rightarrow>
            (case fst (displayResults items s) of
               None \<Rightarrow> snd (displayResults items s)
             | Some e \<Rightarrow> search_catch e (snd (displayResults items s))))"
  by (simp add: json_fulfilled_def split: sum.splits prod.splits option.splits)

lemma json_fulfilled_frame [simp]:
  "search_container (json_fulfilled i data s) = search_container s"
  "config (json_fulfilled i data s) = config s"
  "next_id (json_fulfilled i data s) = next_id s"
  "requests (json_fulfilled i data s) = requests s"
  "search_page.more (json_fulfilled i data s) = search_page.more s"
  "pending (json_fulfilled i data s) = filter (\<lambda>p. fst p \<noteq> i) (pending s)"
  by (simp_all add: json_fulfilled_alt displayResults_frame split: sum.splits option.splits)

text \<open>The fields a settled search can have changed.\<close>

lemma json_fulfilled_shape:
  "\<exists>r p c. json_fulfilled i data s = s\<lparr>results_div := r, pending := p, console_errors := c\<rparr>"
proof (cases "get_prop data Items")
  case (Inl e)
  then have "json_fulfilled i data s =
      s\<lparr>results_div := (case results_div s of None \<Rightarrow> None | Some content \<Rightarrow> Some [Markup error_markup]),
        pending := filter (\<lambda>p. fst p \<noteq> i) (pending s),
        console_errors := console_errors s @ [e]\<rparr>"
    by (simp add: json_fulfilled_def finish_def search_catch_def)
  then show ?thesis by blast
next
  case (Inr items)
  obtain x s1 where d: "displayResults items s = (x, s1)"
    by (cases "displayResults items s")
  from displayResults_shape [of items s] d obtain r1 where s1: "s1 = s\<lparr>results_div := r1\<rparr>"
    by auto
  show ?thesis
  proof (cases x)
    case None
    with Inr d s1 have "json_fulfilled i data s =
        s\<lparr>results_div := r1, pending := filter (\<lambda>p. fst p \<noteq> i) (pending s),
          console_errors := console_errors s\<rparr>"
      by (simp add: json_fulfilled_def finish_def)
    then show ?thesis by blast
  next
    case (Some e)
    with Inr d s1 have "json_fulfilled i data s =
        s\<lparr>results_div := (case r1 of None \<Rightarrow> None | Some content \<Rightarrow> Some [Markup error_markup]),
          pending := filter (\<lambda>p. fst p \<noteq> i) (pending s),
          console_errors := console_errors s @ [e]\<rparr>"
      by (simp add: json_fulfilled_def finish_def search_catch_def)
    then show ?thesis by blast
  qed
qed

lemma results_div_json_fulfilled_None:
  "results_div (json_fulfilled i data s) = None \<longleftrightarrow> results_div s = None"
  by (simp add: json_fulfilled_alt results_div_search_catch displayResults_frame
      split: sum.splits option.splits)

section \<open>Lemmas: the invariant\<close>

lemma search_inv_search_start:
  assumes "search_inv s"
  shows "search_inv (snd (search_start q s))"
proof (cases s rule: ensure_results_div_cases)
  case thrown
  with assms show ?thesis by (simp add: search_start_thrown)
next
  case (present c)
  with assms show ?thesis
    by (auto simp: search_start_ok search_inv_def list_all_iff)
next
  case created
  with assms show ?thesis
    by (auto simp: search_start_ok search_inv_def list_all_iff)
qed

lemma search_inv_finish: "search_inv s \<Longrightarrow> search_inv (finish i s)"
  by (auto simp: search_inv_def list_all_iff distinct_map_filter filter_empty_conv)

lemma search_inv_fetch_fulfilled: "search_inv s \<Longrightarrow> search_inv (fetch_fulfilled i s)"
  unfolding search_inv_def
  by (auto simp: list_all_iff fetch_fulfilled_def comp_def distinct_conv_nth
      split: if_splits)

lemma search_inv_search_rejected: "search_inv s \<Longrightarrow> search_inv (search_rejected i e s)"
  unfolding search_rejected_def
  by (rule search_inv_finish) (auto simp: search_inv_def results_div_search_catch)

lemma search_inv_json_fulfilled: "search_inv s \<Longrightarrow> search_inv (json_fulfilled i data s)"
  by (auto simp: search_inv_def list_all_iff distinct_map_filter filter_empty_conv
      results_div_json_fulfilled_None)

end
