(* ===== verification/Request_URL.thy ===== *)
theory Request_URL
  imports Search Search_Form
begin

text \<open>
  The request of line 148 as the network sees it. \<^verbatim>\<open>fetch(url)\<close> parses its argument as
  a URL: what follows the first \<^verbatim>\<open>#\<close> is the fragment, which is not sent; the query is
  what follows the first \<^verbatim>\<open>?\<close>; the service reads the query as a sequence of parameters
  separated by \<^verbatim>\<open>&\<close>, each a name and a value separated by the first \<^verbatim>\<open>=\<close>. The
  definitions follow the URL Standard's query and form-urlencoded parsers up to that
  point: names and values are taken as they stand in the URL, before the decoding of
  \<^verbatim>\<open>+\<close> and of percent escapes. The script splices the query of the user into the URL
  as it is (the comment of line 147 says otherwise), so the theorems say for which
  queries the request carries the parameters \<^verbatim>\<open>q\<close>, \<^verbatim>\<open>key\<close> and \<^verbatim>\<open>cx\<close> that the
  specification lists, and what reaches the service otherwise.
\<close>

section \<open>Parsing\<close>

text \<open>The pieces of a list between the occurrences of a separator.\<close>

fun split_on :: "'a \<Rightarrow> 'a list \<Rightarrow> 'a list list" where
  "split_on sep [] = [[]]"
| "split_on sep (x # xs) =
     (if x = sep then [] # split_on sep xs
      else (x # hd (split_on sep xs)) # tl (split_on sep xs))"

definition url_without_fragment :: "jstring \<Rightarrow> jstring" where
  "url_without_fragment u = takeWhile (\<lambda>c. c \<noteq> 0x23) u"

definition url_query :: "jstring \<Rightarrow> jstring" where
  "url_query u = drop 1 (dropWhile (\<lambda>c. c \<noteq> 0x3F) (url_without_fragment u))"

definition url_param :: "jstring \<Rightarrow> jstring \<times> jstring" where
  "url_param p = (takeWhile (\<lambda>c. c \<noteq> 0x3D) p, drop 1 (dropWhile (\<lambda>c. c \<noteq> 0x3D) p))"

text \<open>The parameters of a URL, in order; empty pieces of the query are skipped.\<close>

definition url_params :: "jstring \<Rightarrow> (jstring \<times> jstring) list" where
  "url_params u = map url_param (filter (\<lambda>p. p \<noteq> []) (split_on 0x26 (url_query u)))"

section \<open>Lemmas: splitting\<close>

lemma takeWhile_append_absent:
  "c \<notin> set a \<Longrightarrow> takeWhile (\<lambda>x. x \<noteq> c) (a @ b) = a @ takeWhile (\<lambda>x. x \<noteq> c) b"
  by (induction a) auto

lemma dropWhile_append_absent:
  "c \<notin> set a \<Longrightarrow> dropWhile (\<lambda>x. x \<noteq> c) (a @ b) = dropWhile (\<lambda>x. x \<noteq> c) b"
  by (induction a) auto

lemmas until_simps = takeWhile_append_absent dropWhile_append_absent

lemma split_on_not_Nil [simp]: "split_on sep xs \<noteq> []"
  by (induction xs) simp_all

lemma split_on_no_sep: "sep \<notin> set a \<Longrightarrow> split_on sep a = [a]"
  by (induction a) auto

lemma split_on_append_sep:
  "sep \<notin> set a \<Longrightarrow> split_on sep (a @ sep # b) = a # split_on sep b"
  by (induction a) auto

text \<open>Splitting loses nothing: the pieces, joined by the separator, are the list.\<close>

lemma join_split_on: "join [sep] (split_on sep xs) = xs"
proof (induction xs)
  case (Cons x xs)
  then show ?case
    by (cases "split_on sep xs"; cases "tl (split_on sep xs)") auto
qed simp

lemma length_split_on: "length (split_on sep xs) = Suc (length (filter (\<lambda>x. x = sep) xs))"
  by (induction xs) simp_all

section \<open>Lemmas: the parts of a URL\<close>

lemma url_param_name_value:
  "0x3D \<notin> set n \<Longrightarrow> url_param (n @ 0x3D # v) = (n, v)"
  using until_simps [of "0x3D" n "0x3D # v"] by (simp add: url_param_def)

text \<open>The URL of line 148: the endpoint, the question mark, and the query the script
  composes.\<close>

definition endpoint :: jstring where
  "endpoint = lit ''https://www.googleapis.com/customsearch/v1''"

lemma request_url_parts:
  "request_url c q =
     endpoint @ 0x3F # (lit ''q'' @ 0x3D # q) @ lit ''+filetype:pdf'' @ 0x26 #
       (lit ''key'' @ 0x3D # env_text (apiKey c)) @ 0x26 #
       (lit ''cx'' @ 0x3D # env_text (searchEngineId c))"
  by (simp add: request_url_def endpoint_def lit_Cons)

lemma endpoint_chars [simp]: "0x23 \<notin> set endpoint" "0x3F \<notin> set endpoint"
  by (simp_all add: endpoint_def lit_Cons)

lemma url_query_endpoint:
  "url_query (endpoint @ 0x3F # q) = takeWhile (\<lambda>c. c \<noteq> 0x23) q"
  by (simp add: url_query_def url_without_fragment_def until_simps)

text \<open>A character that divides URLs: the separator of parameters or the start of the
  fragment.\<close>

definition url_safe :: "jstring \<Rightarrow> bool" where
  "url_safe s \<longleftrightarrow> list_all (\<lambda>c. c \<noteq> 0x23 \<and> c \<noteq> 0x26) s"

lemma url_safe_iff: "url_safe s \<longleftrightarrow> 0x23 \<notin> set s \<and> 0x26 \<notin> set s"
  by (auto simp: url_safe_def list_all_iff)

lemma url_safe_lit [simp]:
  "url_safe (lit ''q'')" "url_safe (lit ''key'')" "url_safe (lit ''cx'')"
  "url_safe (lit ''+filetype:pdf'')"
  by (simp_all add: url_safe_def lit_Cons)

lemma url_safe_append [simp]: "url_safe (a @ b) \<longleftrightarrow> url_safe a \<and> url_safe b"
  by (simp add: url_safe_def)

lemma url_safe_Cons [simp]: "url_safe (c # s) \<longleftrightarrow> c \<noteq> 0x23 \<and> c \<noteq> 0x26 \<and> url_safe s"
  by (simp add: url_safe_def)

lemma url_safe_Nil [simp]: "url_safe []"
  by (simp add: url_safe_def)

text \<open>A query of safe pieces, separated by ampersands and ended by the end of the URL
  or by a fragment, gives one parameter per piece.\<close>

lemma split_on_safe:
  "url_safe p \<Longrightarrow> split_on 0x26 (p @ 0x26 # rest) = p # split_on 0x26 rest"
  "url_safe p \<Longrightarrow> split_on 0x26 p = [p]"
  by (simp_all add: split_on_append_sep split_on_no_sep url_safe_iff)

lemma takeWhile_safe:
  "url_safe p \<Longrightarrow> takeWhile (\<lambda>c. c \<noteq> 0x23) (p @ rest) = p @ takeWhile (\<lambda>c. c \<noteq> 0x23) rest"
  "url_safe p \<Longrightarrow> takeWhile (\<lambda>c. c \<noteq> 0x23) p = p"
  using until_simps(1) [of "0x23" p] until_simps(1) [of "0x23" p "[]"]
  by (simp_all add: url_safe_iff)

lemmas url_safe_simps = split_on_safe takeWhile_safe

lemma url_params_request_url:
  assumes "url_safe q" and "url_safe (env_text (apiKey c))"
    and "url_safe (env_text (searchEngineId c))"
  shows "url_params (request_url c q) =
     [(lit ''q'', q @ lit ''+filetype:pdf''), (lit ''key'', env_text (apiKey c)),
      (lit ''cx'', env_text (searchEngineId c))]"
proof -
  define p1 where "p1 = lit ''q'' @ 0x3D # q @ lit ''+filetype:pdf''"
  define p2 where "p2 = lit ''key'' @ 0x3D # env_text (apiKey c)"
  define p3 where "p3 = lit ''cx'' @ 0x3D # env_text (searchEngineId c)"
  have url: "request_url c q = endpoint @ 0x3F # p1 @ 0x26 # p2 @ 0x26 # p3"
    by (simp add: request_url_parts p1_def p2_def p3_def)
  from assms have safe: "url_safe p1" "url_safe p2" "url_safe p3"
    by (simp_all add: p1_def p2_def p3_def)
  then have "split_on 0x26 (url_query (request_url c q)) = [p1, p2, p3]"
    by (simp add: url url_query_endpoint url_safe_simps)
  moreover have "p1 \<noteq> []" "p2 \<noteq> []" "p3 \<noteq> []"
    by (simp_all add: p1_def p2_def p3_def lit_Cons)
  moreover have "url_param p1 = (lit ''q'', q @ lit ''+filetype:pdf'')"
    "url_param p2 = (lit ''key'', env_text (apiKey c))"
    "url_param p3 = (lit ''cx'', env_text (searchEngineId c))"
    unfolding p1_def p2_def p3_def by (rule url_param_name_value, simp add: lit_Cons)+
  ultimately show ?thesis
    by (simp add: url_params_def)
qed

text \<open>A \<^verbatim>\<open>#\<close> in the query starts the fragment: the request ends there.\<close>

lemma url_params_hash:
  assumes "url_safe a"
  shows "url_params (request_url c (a @ 0x23 # b)) = [(lit ''q'', a)]"
proof -
  define p1 where "p1 = lit ''q'' @ 0x3D # a"
  have url: "request_url c (a @ 0x23 # b) = endpoint @ 0x3F # p1 @ 0x23 #
      (b @ lit ''+filetype:pdf'' @ 0x26 # lit ''key'' @ 0x3D # env_text (apiKey c)
        @ 0x26 # lit ''cx'' @ 0x3D # env_text (searchEngineId c))"
    by (simp add: request_url_parts p1_def)
  from assms have safe: "url_safe p1"
    by (simp add: p1_def)
  then have "split_on 0x26 (url_query (request_url c (a @ 0x23 # b))) = [p1]"
    by (simp add: url url_query_endpoint url_safe_simps)
  moreover have "p1 \<noteq> []"
    by (simp add: p1_def lit_Cons)
  moreover have "url_param p1 = (lit ''q'', a)"
    unfolding p1_def by (rule url_param_name_value) (simp add: lit_Cons)
  ultimately show ?thesis
    by (simp add: url_params_def)
qed

text \<open>An \<^verbatim>\<open>&\<close> in the query ends the parameter \<^verbatim>\<open>q\<close>: what follows it is read as
  further parameters.\<close>

lemma url_params_ampersand:
  assumes "url_safe a"
  shows "\<exists>rest. url_params (request_url c (a @ 0x26 # b)) = (lit ''q'', a) # rest"
proof -
  define p1 where "p1 = lit ''q'' @ 0x3D # a"
  define tail where "tail = b @ lit ''+filetype:pdf'' @ 0x26 # lit ''key'' @ 0x3D # env_text (apiKey c)
        @ 0x26 # lit ''cx'' @ 0x3D # env_text (searchEngineId c)"
  have url: "request_url c (a @ 0x26 # b) = endpoint @ 0x3F # p1 @ 0x26 # tail"
    by (simp add: request_url_parts p1_def tail_def)
  from assms have safe: "url_safe p1"
    by (simp add: p1_def)
  then have "split_on 0x26 (url_query (request_url c (a @ 0x26 # b)))
      = p1 # split_on 0x26 (takeWhile (\<lambda>c. c \<noteq> 0x23) tail)"
    by (simp add: url url_query_endpoint url_safe_simps)
  moreover have "p1 \<noteq> []"
    by (simp add: p1_def lit_Cons)
  moreover have "url_param p1 = (lit ''q'', a)"
    unfolding p1_def by (rule url_param_name_value) (simp add: lit_Cons)
  ultimately show ?thesis
    by (simp add: url_params_def)
qed

section \<open>Lemmas: queries without delimiters\<close>

lemma url_safe_subset: "set a \<subseteq> set b \<Longrightarrow> url_safe b \<Longrightarrow> url_safe a"
  by (auto simp: url_safe_iff)

lemma url_safe_trim: "url_safe s \<Longrightarrow> url_safe (trim s)"
proof -
  obtain pre suf where "s = pre @ trim s @ suf"
    using trim_decomp [of s] by blast
  then have "set (trim s) \<subseteq> set s"
    by (metis Un_upper1 Un_upper2 set_append subset_trans)
  then show "url_safe s \<Longrightarrow> url_safe (trim s)"
    by (rule url_safe_subset)
qed

lemma url_safe_with_language:
  "url_safe q \<Longrightarrow> url_safe l \<Longrightarrow> url_safe (with_language q l)"
  by (simp add: with_language_def lit_Cons)

text \<open>A well-formed ISBN holds digits, hyphens and white space only.\<close>

lemma url_safe_isValidISBN: "isValidISBN s \<Longrightarrow> url_safe s"
proof -
  assume valid: "isValidISBN s"
  have "c \<noteq> 0x23 \<and> c \<noteq> 0x26" if "c \<in> set s" for c
    using isValidISBN_chars [OF valid that]
    by (auto simp: is_digit_def isbn_separator_def is_white_space_def)
  then show ?thesis
    by (simp add: url_safe_def list_all_iff)
qed

section \<open>Properties of the request\<close>

text \<open>\<^bold>\<open>C35\<close> (error). The query is not encoded for the URL, so it ends at its first
  \<^verbatim>\<open>#\<close> or \<^verbatim>\<open>&\<close>. After a \<^verbatim>\<open>#\<close> nothing is sent: the request has the parameter
  \<^verbatim>\<open>q\<close> with the text before the \<^verbatim>\<open>#\<close> and nothing else, neither the file type
  restriction nor the key nor the engine identifier. After an \<^verbatim>\<open>&\<close> the rest of the
  query is read as further parameters, and \<^verbatim>\<open>q\<close> is the text before the \<^verbatim>\<open>&\<close>.\<close>

theorem query_is_cut_at_hash_or_ampersand:
  assumes "url_safe a"
  shows "url_params (request_url c (a @ 0x23 # b)) = [(lit ''q'', a)]
       \<and> (\<exists>rest. url_params (request_url c (a @ 0x26 # b)) = (lit ''q'', a) # rest)"
  using assms by (simp add: url_params_hash url_params_ampersand)

theorem query_is_cut_at_hash_or_ampersand_witness:
  "url_params (request_url \<lparr>apiKey = Some (lit ''KEY''), searchEngineId = Some (lit ''CX'')\<rparr>
       (lit ''C# in Depth  textbook pdf''))
     = [(lit ''q'', lit ''C'')]
   \<and> (\<exists>rest. url_params (request_url \<lparr>apiKey = Some (lit ''KEY''), searchEngineId = Some (lit ''CX'')\<rparr>
       (lit ''R&D  textbook pdf''))
     = (lit ''q'', lit ''R'') # rest)"
proof -
  let ?c = "\<lparr>apiKey = Some (lit ''KEY''), searchEngineId = Some (lit ''CX'')\<rparr>"
  have hash: "lit ''C# in Depth  textbook pdf'' = lit ''C'' @ 0x23 # lit '' in Depth  textbook pdf''"
    and amp: "lit ''R&D  textbook pdf'' = lit ''R'' @ 0x26 # lit ''D  textbook pdf''"
    by (simp_all add: lit_Cons)
  have safe: "url_safe (lit ''C'')" "url_safe (lit ''R'')"
    by (simp_all add: url_safe_def lit_Cons)
  from query_is_cut_at_hash_or_ampersand [OF safe(1), where c = ?c and b = "lit '' in Depth  textbook pdf''"]
    query_is_cut_at_hash_or_ampersand [OF safe(2), where c = ?c and b = "lit ''D  textbook pdf''"]
  show ?thesis
    unfolding hash amp by blast
qed

end
