(* ===== verification/Page.thy ===== *)
theory Page
  imports Search Search_Form Modal
begin

text \<open>
  The page as one event-driven system: the state both controllers work on, the events
  that reach the script (user events and the settling of the promises of suspended
  searches), and the reaction of the script to each event, which composes the listeners
  of the component theories. The reset listener (\<^verbatim>\<open>src/script.js\<close>, lines 56-63) and
  the whole submit listener (lines 67-113) are defined here, because they write to the
  page. Searches overlap: between the two suspension points of one search any other
  event may be handled, another submission included.
\<close>

section \<open>State and events\<close>

text \<open>Beside the search state: the modal controller's state, the custom validity message
  of the ISBN field with the number of times it was reported, and the logs of what the
  user and the developer were shown (alerts, console messages, promise rejections nobody
  handled, calls of \<^verbatim>\<open>scrollIntoView\<close>).\<close>

record page = search_page +
  modal :: modal_page
  validity_message :: jstring
  validity_reports :: nat
  alerts :: "jstring list"
  console_log :: "jstring list"
  unhandled :: "js_error list"
  scrolls :: nat

text \<open>An event carries what the listener reads from it or from the form: the value of
  the ISBN field, the values of the form's controls, the parsed body of a response.\<close>

datatype event =
    ModalEvent modal_event
  | IsbnInput jstring
  | Reset
  | Submit form_values
  | FetchFulfilled nat
  | FetchRejected nat js_error
  | JsonFulfilled nat jsval
  | JsonRejected nat js_error

section \<open>The listeners that write to the page\<close>

text \<open>Lines 45-53, applied to the field.\<close>

definition isbn_input_listener :: "jstring \<Rightarrow> page \<Rightarrow> page" where
  "isbn_input_listener v s =
     (let fb = on_isbn_input v in
      s\<lparr>validity_message := custom_validity fb,
        validity_reports := (if reported fb then Suc (validity_reports s) else validity_reports s)\<rparr>)"

text \<open>Lines 56-63: the reset listener logs and empties the results element, if there is
  one. It does nothing else: it neither clears the validity message of the ISBN field nor
  touches the suspended searches.\<close>

definition on_reset :: "page \<Rightarrow> page" where
  "on_reset s =
     s\<lparr>console_log := console_log s @ [lit ''Form reset triggered''],
       results_div := (case results_div s of None \<Rightarrow> None | Some content \<Rightarrow> Some [])\<rparr>"

text \<open>Lines 67-103: the submit listener up to its suspension at
  \<^verbatim>\<open>await searchForTextbook(searchQuery)\<close>. When \<^verbatim>\<open>searchForTextbook\<close> throws before its
  own first suspension, its promise is rejected, the \<^verbatim>\<open>await\<close> throws in the listener,
  and the rejection of the listener's promise is handled by nobody.\<close>

definition submit_listener :: "form_values \<Rightarrow> page \<Rightarrow> page" where
  "submit_listener f s =
     (case on_submit f of
        Alert message \<Rightarrow> s\<lparr>alerts := alerts s @ [message]\<rparr>
      | Search searchQuery \<Rightarrow>
          (case search_start searchQuery s of
             (Some e, s1) \<Rightarrow> s1\<lparr>unhandled := unhandled s1 @ [e]\<rparr>
           | (None, s1) \<Rightarrow> s1))"

text \<open>Lines 104-108: the submit listener after \<^verbatim>\<open>searchForTextbook\<close> has returned.\<close>

definition after_search :: "page \<Rightarrow> page" where
  "after_search s = (if results_div s \<noteq> None then s\<lparr>scrolls := Suc (scrolls s)\<rparr> else s)"

section \<open>The reaction to an event\<close>

text \<open>A promise settles only for a search that waits for it, and a parsed body is a JSON
  value.\<close>

fun enabled :: "event \<Rightarrow> page \<Rightarrow> bool" where
  "enabled (FetchFulfilled i) s \<longleftrightarrow> waiting s i AwaitFetch"
| "enabled (FetchRejected i e) s \<longleftrightarrow> waiting s i AwaitFetch"
| "enabled (JsonFulfilled i data) s \<longleftrightarrow> waiting s i AwaitJson \<and> json_value data"
| "enabled (JsonRejected i e) s \<longleftrightarrow> waiting s i AwaitJson"
| "enabled e s \<longleftrightarrow> True"

fun react :: "event \<Rightarrow> page \<Rightarrow> page" where
  "react (ModalEvent e) s = s\<lparr>modal := dispatch e (modal s)\<rparr>"
| "react (IsbnInput v) s = isbn_input_listener v s"
| "react Reset s = on_reset s"
| "react (Submit f) s = submit_listener f s"
| "react (FetchFulfilled i) s = fetch_fulfilled i s"
| "react (FetchRejected i e) s = after_search (search_rejected i e s)"
| "react (JsonFulfilled i data) s = after_search (json_fulfilled i data s)"
| "react (JsonRejected i e) s = after_search (search_rejected i e s)"

inductive step :: "page \<Rightarrow> event \<Rightarrow> page \<Rightarrow> bool" where
  react: "enabled e s \<Longrightarrow> step s e (react e s)"

text \<open>A sequence of events, each enabled when its turn comes; \<open>None\<close> when one is not.\<close>

fun exec :: "event list \<Rightarrow> page \<Rightarrow> page option" where
  "exec [] s = Some s"
| "exec (e # es) s = (if enabled e s then exec es (react e s) else None)"

section \<open>The page after loading\<close>

text \<open>Nothing has happened yet: the overlay is hidden, no search is suspended, the logs
  are empty. The markup decides whether there is a results element (and what it holds)
  and a search container.\<close>

definition page_initial :: "page \<Rightarrow> bool" where
  "page_initial s \<longleftrightarrow>
     modal_initial (modal s) \<and> pending s = [] \<and> next_id s = 0 \<and> requests s = [] \<and>
     console_errors s = [] \<and> validity_message s = [] \<and> validity_reports s = 0 \<and>
     alerts s = [] \<and> console_log s = [] \<and> unhandled s = [] \<and> scrolls s = 0"

inductive page_reachable :: "page \<Rightarrow> bool" where
  initial: "page_initial s \<Longrightarrow> page_reachable s"
| step: "page_reachable s \<Longrightarrow> step s e t \<Longrightarrow> page_reachable t"

inductive_cases stepE [elim!]: "step s e t"

definition page_inv :: "page \<Rightarrow> bool" where
  "page_inv s \<longleftrightarrow> search_inv s \<and> modal_inv (modal s)"

section \<open>Lemmas: frames\<close>

lemma after_search_simps [simp]:
  "results_div (after_search s) = results_div s"
  "search_container (after_search s) = search_container s"
  "config (after_search s) = config s"
  "pending (after_search s) = pending s"
  "next_id (after_search s) = next_id s"
  "requests (after_search s) = requests s"
  "console_errors (after_search s) = console_errors s"
  "modal (after_search s) = modal s"
  "validity_message (after_search s) = validity_message s"
  "alerts (after_search s) = alerts s"
  "console_log (after_search s) = console_log s"
  "unhandled (after_search s) = unhandled s"
  by (simp_all add: after_search_def)

lemma page_more_search_rejected [simp]:
  "modal (search_rejected i e s) = modal s"
  "validity_message (search_rejected i e s) = validity_message s"
  "alerts (search_rejected i e s) = alerts s"
  "console_log (search_rejected i e s) = console_log s"
  "unhandled (search_rejected i e s) = unhandled s"
  "scrolls (search_rejected i e s) = scrolls s"
  by (simp_all add: search_rejected_def finish_def search_catch_def)

lemma page_more_fetch_fulfilled [simp]:
  "modal (fetch_fulfilled i s) = modal s"
  "validity_message (fetch_fulfilled i s) = validity_message s"
  "alerts (fetch_fulfilled i s) = alerts s"
  "console_log (fetch_fulfilled i s) = console_log s"
  "unhandled (fetch_fulfilled i s) = unhandled s"
  "scrolls (fetch_fulfilled i s) = scrolls s"
  by (simp_all add: fetch_fulfilled_def)

lemma page_more_json_fulfilled [simp]:
  "modal (json_fulfilled i data s) = modal s"
  "validity_message (json_fulfilled i data s) = validity_message s"
  "alerts (json_fulfilled i data s) = alerts s"
  "console_log (json_fulfilled i data s) = console_log s"
  "unhandled (json_fulfilled i data s) = unhandled s"
  "scrolls (json_fulfilled i data s) = scrolls s"
proof -
  obtain r p c where "json_fulfilled i data s =
      s\<lparr>results_div := r, pending := p, console_errors := c\<rparr>"
    using json_fulfilled_shape [of i data s] by blast
  then show "modal (json_fulfilled i data s) = modal s"
    "validity_message (json_fulfilled i data s) = validity_message s"
    "alerts (json_fulfilled i data s) = alerts s"
    "console_log (json_fulfilled i data s) = console_log s"
    "unhandled (json_fulfilled i data s) = unhandled s"
    "scrolls (json_fulfilled i data s) = scrolls s"
    by simp_all
qed

lemma submit_listener_cases:
  obtains (alert) m where "on_submit f = Alert m" "submit_listener f s = s\<lparr>alerts := alerts s @ [m]\<rparr>"
  | (thrown) q where "on_submit f = Search q" "results_div s = None" "\<not> search_container s"
      "submit_listener f s = s\<lparr>unhandled := unhandled s @ [TypeError]\<rparr>"
  | (started) q where "on_submit f = Search q" "results_div s \<noteq> None \<or> search_container s"
      "submit_listener f s =
         s\<lparr>results_div := Some [Markup loading_markup],
           requests := requests s @ [request_url (config s) q],
           pending := pending s @ [(next_id s, AwaitFetch)],
           next_id := Suc (next_id s)\<rparr>"
proof (cases "on_submit f")
  case (Alert m)
  then show ?thesis by (auto simp: submit_listener_def intro: alert)
next
  case (Search q)
  show ?thesis
  proof (cases "results_div s \<noteq> None \<or> search_container s")
    case True
    with Search show ?thesis
      by (intro started [of q]) (simp_all add: submit_listener_def search_start_ok)
  next
    case False
    with Search show ?thesis
      by (intro thrown [of q]) (simp_all add: submit_listener_def search_start_thrown)
  qed
qed

section \<open>Lemmas: the invariant\<close>

lemma search_inv_cong:
  assumes "pending t = pending s" "next_id t = next_id s"
    and "results_div t = None \<longleftrightarrow> results_div s = None"
  shows "search_inv t \<longleftrightarrow> search_inv s"
  using assms by (simp add: search_inv_def)

lemma search_inv_react:
  assumes "search_inv s"
  shows "search_inv (react e s)"
proof (cases e)
  case (ModalEvent m)
  with assms show ?thesis by (simp add: search_inv_def)
next
  case (IsbnInput v)
  with assms show ?thesis by (simp add: search_inv_def isbn_input_listener_def Let_def)
next
  case Reset
  with assms show ?thesis
    by (auto simp: search_inv_def on_reset_def split: option.splits)
next
  case (Submit f)
  have "search_inv (submit_listener f s)"
  proof (cases f s rule: submit_listener_cases)
    case (started q)
    with assms show ?thesis by (auto simp: search_inv_def list_all_iff)
  qed (use assms in \<open>simp_all add: search_inv_def\<close>)
  with Submit show ?thesis by simp
next
  case (FetchFulfilled i)
  with assms show ?thesis by (simp add: search_inv_fetch_fulfilled)
next
  case (FetchRejected i err)
  from assms have "search_inv (search_rejected i err s)"
    by (rule search_inv_search_rejected)
  then have "search_inv (after_search (search_rejected i err s))"
    by (subst search_inv_cong [of _ "search_rejected i err s"]) simp_all
  with FetchRejected show ?thesis by simp
next
  case (JsonFulfilled i data)
  from assms have "search_inv (json_fulfilled i data s)"
    by (rule search_inv_json_fulfilled)
  then have "search_inv (after_search (json_fulfilled i data s))"
    by (subst search_inv_cong [of _ "json_fulfilled i data s"]) simp_all
  with JsonFulfilled show ?thesis by simp
next
  case (JsonRejected i err)
  from assms have "search_inv (search_rejected i err s)"
    by (rule search_inv_search_rejected)
  then have "search_inv (after_search (search_rejected i err s))"
    by (subst search_inv_cong [of _ "search_rejected i err s"]) simp_all
  with JsonRejected show ?thesis by simp
qed

text \<open>Only a modal event changes the modal controller's state.\<close>

lemma modal_react:
  "modal (react e s) = (case e of ModalEvent m \<Rightarrow> dispatch m (modal s) | _ \<Rightarrow> modal s)"
proof (cases e)
  case (Submit f)
  then show ?thesis
    by (cases f s rule: submit_listener_cases) simp_all
qed (simp_all add: isbn_input_listener_def Let_def on_reset_def)

lemma page_inv_react: "page_inv s \<Longrightarrow> page_inv (react e s)"
  by (auto simp: page_inv_def search_inv_react modal_react modal_inv_dispatch split: event.splits)

lemma page_inv_initial: "page_initial s \<Longrightarrow> page_inv s"
  by (simp add: page_inv_def page_initial_def search_inv_def modal_inv_initial)

lemma page_reachable_inv: "page_reachable s \<Longrightarrow> page_inv s"
  by (induction rule: page_reachable.induct) (auto simp: page_inv_initial page_inv_react)

lemma page_reachable_exec:
  "page_reachable s \<Longrightarrow> exec es s = Some t \<Longrightarrow> page_reachable t"
proof (induction es arbitrary: s)
  case (Cons e es)
  from Cons.prems(2) have en: "enabled e s" and rest: "exec es (react e s) = Some t"
    by (auto split: if_splits)
  from Cons.prems(1) en have "page_reachable (react e s)"
    by (auto intro: page_reachable.step step.react)
  then show ?case using rest by (rule Cons.IH)
qed simp

text \<open>While a search is suspended the results element exists.\<close>

lemma waiting_results_div:
  assumes "page_reachable s" and "waiting s i ph"
  shows "results_div s \<noteq> None"
proof -
  from assms(1) have "search_inv s"
    using page_reachable_inv by (simp add: page_inv_def)
  moreover from assms(2) have "pending s \<noteq> []"
    by (auto simp: waiting_def)
  ultimately show ?thesis by (simp add: search_inv_def)
qed

section \<open>Lemmas: rejections nobody handles\<close>

lemma unhandled_react:
  "unhandled (react e s) =
     (case e of
        Submit f \<Rightarrow>
          (case on_submit f of
             Search q \<Rightarrow> if results_div s = None \<and> \<not> search_container s
                         then unhandled s @ [TypeError] else unhandled s
           | Alert m \<Rightarrow> unhandled s)
      | _ \<Rightarrow> unhandled s)"
proof (cases e)
  case (Submit f)
  then show ?thesis
    by (cases f s rule: submit_listener_cases) auto
qed (simp_all add: isbn_input_listener_def Let_def on_reset_def)

lemma search_container_react [simp]: "search_container (react e s) = search_container s"
proof (cases e)
  case (Submit f)
  then show ?thesis
    by (cases f s rule: submit_listener_cases) simp_all
qed (simp_all add: isbn_input_listener_def Let_def on_reset_def)

lemma results_div_react_None:
  "results_div (react e s) \<noteq> None \<Longrightarrow> results_div s \<noteq> None \<or> search_container s"
proof (cases e)
  case (Submit f)
  assume "results_div (react e s) \<noteq> None"
  with Submit show ?thesis
    by (cases f s rule: submit_listener_cases) simp_all
next
  case Reset
  assume "results_div (react e s) \<noteq> None"
  with Reset show ?thesis by (auto simp: on_reset_def split: option.splits)
next
  case (JsonFulfilled i data)
  assume "results_div (react e s) \<noteq> None"
  with JsonFulfilled show ?thesis by (simp add: results_div_json_fulfilled_None)
next
  case (FetchRejected i err)
  assume "results_div (react e s) \<noteq> None"
  with FetchRejected show ?thesis
    by (simp add: search_rejected_def results_div_search_catch split: if_splits)
next
  case (JsonRejected i err)
  assume "results_div (react e s) \<noteq> None"
  with JsonRejected show ?thesis
    by (simp add: search_rejected_def results_div_search_catch split: if_splits)
qed (simp_all add: isbn_input_listener_def Let_def)

lemma no_unhandled_inv:
  assumes "page_reachable s"
  shows "search_container s \<or> results_div s \<noteq> None \<longrightarrow> unhandled s = []"
  using assms
proof (induction rule: page_reachable.induct)
  case (initial s)
  then show ?case by (simp add: page_initial_def)
next
  case (step s e t)
  from step.hyps(2) have t: "t = react e s" by auto
  show ?case
  proof
    assume "search_container t \<or> results_div t \<noteq> None"
    with t have here: "search_container s \<or> results_div s \<noteq> None"
      using results_div_react_None [of e s] by auto
    with step.IH have "unhandled s = []" by blast
    with here t show "unhandled t = []"
      by (auto simp: unhandled_react split: event.splits submit_outcome.splits)
  qed
qed

section \<open>Lemmas: settling\<close>

lemma not_waiting_after_filter:
  "pending t = filter (\<lambda>p. fst p \<noteq> i) (pending s) \<Longrightarrow> \<not> waiting t i ph"
  by (auto simp: waiting_def)

text \<open>The loading placeholder is on the page only while a search is suspended: every
  reaction keeps this true.\<close>

lemma placeholder_react:
  assumes "results_div s = Some [Markup loading_markup] \<longrightarrow> pending s \<noteq> []"
  shows "results_div (react e s) = Some [Markup loading_markup] \<longrightarrow> pending (react e s) \<noteq> []"
proof (cases e)
  case (Submit f)
  with assms show ?thesis
    by (cases f s rule: submit_listener_cases) simp_all
next
  case Reset
  then show ?thesis by (simp add: on_reset_def split: option.splits)
next
  case (FetchFulfilled i)
  with assms show ?thesis by (simp add: fetch_fulfilled_def)
next
  case (JsonFulfilled i data)
  show ?thesis
  proof (cases "results_div s")
    case None
    then have "results_div (json_fulfilled i data s) = None"
      by (simp add: results_div_json_fulfilled_None)
    with JsonFulfilled show ?thesis by simp
  next
    case (Some content)
    with JsonFulfilled show ?thesis by (simp add: results_div_json_fulfilled)
  qed
next
  case (FetchRejected i err)
  then show ?thesis
    by (simp add: search_rejected_def results_div_search_catch error_markup_def
        loading_markup_def lit_Cons)
next
  case (JsonRejected i err)
  then show ?thesis
    by (simp add: search_rejected_def results_div_search_catch error_markup_def
        loading_markup_def lit_Cons)
qed (use assms in \<open>simp_all add: isbn_input_listener_def Let_def\<close>)

lemma placeholder_exec:
  assumes "exec es s = Some t"
    and "results_div s = Some [Markup loading_markup] \<longrightarrow> pending s \<noteq> []"
  shows "results_div t = Some [Markup loading_markup] \<longrightarrow> pending t \<noteq> []"
  using assms
proof (induction es arbitrary: s)
  case (Cons e es)
  from Cons.prems(1) have "exec es (react e s) = Some t"
    by (simp split: if_splits)
  then show ?case
    using placeholder_react [OF Cons.prems(2)] by (rule Cons.IH)
qed simp

text \<open>The events that end a search: the body arrives, or one of the two promises is
  rejected.\<close>

fun ends_search :: "event \<Rightarrow> bool" where
  "ends_search (JsonFulfilled i data) \<longleftrightarrow> True"
| "ends_search (FetchRejected i e) \<longleftrightarrow> True"
| "ends_search (JsonRejected i e) \<longleftrightarrow> True"
| "ends_search e \<longleftrightarrow> False"

lemma scrolls_after_search:
  "results_div s \<noteq> None \<Longrightarrow> scrolls (after_search s) = Suc (scrolls s)"
  by (simp add: after_search_def)

lemma scrolls_submit_listener [simp]: "scrolls (submit_listener f s) = scrolls s"
  by (cases f s rule: submit_listener_cases) simp_all

section \<open>A page for the examples\<close>

text \<open>A page right after loading whose markup has no results element; the argument
  says whether it has a search container.\<close>

definition fresh_page :: "bool \<Rightarrow> page" where
  "fresh_page container =
     \<lparr>results_div = None, search_container = container,
      config = \<lparr>apiKey = Some (lit ''KEY''), searchEngineId = Some (lit ''CX'')\<rparr>,
      pending = [], next_id = 0, requests = [], console_errors = [],
      modal = \<lparr>modal_classes = [lit ''modal''], body_overflow = []\<rparr>,
      validity_message = [], validity_reports = 0, alerts = [], console_log = [],
      unhandled = [], scrolls = 0\<rparr>"

definition title_form :: "jstring \<Rightarrow> form_values" where
  "title_form t = \<lparr>isbn_value = [], title_value = t, author_value = [], language_value = lit ''english''\<rparr>"

lemma page_initial_fresh_page [simp]: "page_initial (fresh_page c)"
  by (simp add: page_initial_def fresh_page_def modal_initial_def)

lemma on_submit_title_form:
  "\<not> blank t \<Longrightarrow> on_submit (title_form t) = Search (trim t @ lit ''  textbook pdf'')"
  by (simp add: on_submit_title_author title_form_def js_defs)

lemma not_blank_Algebra [simp]: "\<not> blank (lit ''Algebra'')" "\<not> blank (lit ''Logic'')"
  by (simp_all add: js_defs)

text \<open>The fresh page with a container after one submission, and after two.\<close>

lemma fresh_page_submitted:
  "\<not> blank t \<Longrightarrow> submit_listener (title_form t) (fresh_page True) =
     (fresh_page True)\<lparr>results_div := Some [Markup loading_markup],
        requests := [request_url (config (fresh_page True)) (trim t @ lit ''  textbook pdf'')],
        pending := [(0, AwaitFetch)], next_id := Suc 0\<rparr>"
proof -
  assume "\<not> blank t"
  then have "on_submit (title_form t) = Search (trim t @ lit ''  textbook pdf'')"
    by (rule on_submit_title_form)
  moreover have "search_container (fresh_page True)" "next_id (fresh_page True) = 0"
    "requests (fresh_page True) = []" "pending (fresh_page True) = []"
    by (simp_all add: fresh_page_def)
  ultimately show ?thesis
    by (simp add: submit_listener_def search_start_ok)
qed

lemma page_reachable_example:
  "page_reachable (react (Submit (title_form (lit ''Algebra''))) (fresh_page True))"
  by (rule page_reachable.step [OF page_reachable.initial step.react]) simp_all

section \<open>Properties of the page\<close>

text \<open>\<^bold>\<open>C6\<close> (error). When the request of a suspended search fails (the promise of
  \<^verbatim>\<open>fetch\<close> or of \<^verbatim>\<open>response.json()\<close> is rejected), the results element shows the
  fixed error message, the error is logged to the console, the search is no longer
  suspended, and no rejection is left unhandled.\<close>

theorem failed_search_shows_error_message:
  assumes "page_reachable s"
    and "ev = FetchRejected i err \<or> ev = JsonRejected i err"
    and "enabled ev s"
  shows "results_div (react ev s) = Some [Markup error_markup]
       \<and> console_errors (react ev s) = console_errors s @ [err]
       \<and> unhandled (react ev s) = unhandled s
       \<and> \<not> waiting (react ev s) i AwaitFetch \<and> \<not> waiting (react ev s) i AwaitJson"
proof -
  from assms(2,3) obtain ph where "waiting s i ph" by auto
  with assms(1) have "results_div s \<noteq> None" by (rule waiting_results_div)
  with assms(2) show ?thesis
    by (auto simp: results_div_search_rejected intro!: not_waiting_after_filter)
qed

theorem failed_search_shows_error_message_witness:
  "results_div (react (FetchRejected 0 TypeError)
       (react (Submit (title_form (lit ''Algebra''))) (fresh_page True)))
     = Some [Markup error_markup]
   \<and> unhandled (react (FetchRejected 0 TypeError)
       (react (Submit (title_form (lit ''Algebra''))) (fresh_page True))) = []"
proof -
  let ?s = "react (Submit (title_form (lit ''Algebra''))) (fresh_page True)"
  have "enabled (FetchRejected 0 TypeError) ?s"
    by (simp add: fresh_page_submitted waiting_def)
  from failed_search_shows_error_message [OF page_reachable_example _ this, of 0 TypeError]
  show ?thesis
    by (simp add: fresh_page_submitted) (simp add: fresh_page_def)
qed

text \<open>\<^bold>\<open>C14\<close> (functional). When the body of the response of a suspended search
  arrives, the results element shows the view of that body: the rendering of its
  \<^verbatim>\<open>items\<close>, or the error message if reading or rendering them throws. The search is
  no longer suspended and no rejection is left unhandled.\<close>

theorem response_is_rendered:
  assumes "page_reachable s" and "enabled (JsonFulfilled i data) s"
  shows "results_div (react (JsonFulfilled i data) s) = Some (response_view data)
       \<and> unhandled (react (JsonFulfilled i data) s) = unhandled s
       \<and> \<not> waiting (react (JsonFulfilled i data) s) i AwaitJson"
proof -
  from assms(2) have "waiting s i AwaitJson" by simp
  with assms(1) have "results_div s \<noteq> None" by (rule waiting_results_div)
  then show ?thesis
    by (auto simp: results_div_json_fulfilled intro!: not_waiting_after_filter)
qed

theorem response_is_rendered_witness:
  "results_div (react (JsonFulfilled 0 (Object [(lit ''items'', Array [])]))
       (react (FetchFulfilled 0) (react (Submit (title_form (lit ''Algebra''))) (fresh_page True))))
     = Some [Markup (heading_markup @ no_results_markup)]"
proof -
  let ?s = "react (FetchFulfilled 0) (react (Submit (title_form (lit ''Algebra''))) (fresh_page True))"
  have "enabled (FetchFulfilled 0) (react (Submit (title_form (lit ''Algebra''))) (fresh_page True))"
    by (simp add: fresh_page_submitted waiting_def)
  with page_reachable_example have r: "page_reachable ?s"
    by (blast intro: page_reachable.step step.react)
  have "enabled (JsonFulfilled 0 (Object [(lit ''items'', Array [])])) ?s"
    by (simp add: fresh_page_submitted waiting_def fetch_fulfilled_def)
  from response_is_rendered [OF r this] show ?thesis
    by (simp add: response_view_def shown_for_def)
qed

text \<open>\<^bold>\<open>C12\<close> (safety). Overlapping searches are not ordered: when two searches wait
  for their bodies, the results element ends up with the view of the body that arrives
  last, whichever search was started first, so an earlier search can overwrite the
  results of a later one.\<close>

theorem last_response_wins:
  assumes "page_reachable s" and "i \<noteq> j"
    and "enabled (JsonFulfilled i d1) s" and "enabled (JsonFulfilled j d2) s"
  shows "enabled (JsonFulfilled i d1) (react (JsonFulfilled j d2) s)
       \<and> results_div (react (JsonFulfilled i d1) (react (JsonFulfilled j d2) s))
           = Some (response_view d1)"
proof -
  let ?t = "react (JsonFulfilled j d2) s"
  from assms(1,4) have t: "page_reachable ?t"
    by (blast intro: page_reachable.step step.react)
  from assms(2,3) have en: "enabled (JsonFulfilled i d1) ?t"
    by (auto simp: waiting_def)
  with t show ?thesis
    using response_view_def by (auto dest: waiting_results_div simp: results_div_json_fulfilled)
qed

theorem last_response_wins_witness:
  "map_option results_div
     (exec [Submit (title_form (lit ''Algebra'')), Submit (title_form (lit ''Logic'')),
            FetchFulfilled 0, FetchFulfilled 1,
            JsonFulfilled 1 (Object [(lit ''items'', Array [])]),
            JsonFulfilled 0 Null] (fresh_page True))
   = Some (Some [Markup error_markup])"
proof -
  let ?s0 = "fresh_page True"
  let ?es = "[Submit (title_form (lit ''Algebra'')), Submit (title_form (lit ''Logic'')),
            FetchFulfilled 0, FetchFulfilled 1]"
  obtain s where s: "exec ?es ?s0 = Some s" and p: "pending s = [(0, AwaitJson), (1, AwaitJson)]"
    by (cases "title_form (lit ''Logic'')" "react (Submit (title_form (lit ''Algebra''))) ?s0"
        rule: submit_listener_cases)
      (simp_all add: fresh_page_submitted on_submit_title_form waiting_def fetch_fulfilled_def)
  have r: "page_reachable s"
    by (rule page_reachable_exec [OF page_reachable.initial s]) simp
  from p have "enabled (JsonFulfilled 0 Null) s"
    and "enabled (JsonFulfilled 1 (Object [(lit ''items'', Array [])])) s"
    by (simp_all add: waiting_def)
  from last_response_wins [OF r _ this] have
    "enabled (JsonFulfilled 0 Null) (react (JsonFulfilled 1 (Object [(lit ''items'', Array [])])) s)"
    "results_div (react (JsonFulfilled 0 Null)
        (react (JsonFulfilled 1 (Object [(lit ''items'', Array [])])) s)) = Some (response_view Null)"
    by simp_all
  moreover have "enabled (JsonFulfilled 1 (Object [(lit ''items'', Array [])])) s"
    using p by (simp add: waiting_def)
  moreover have "exec (?es @ fs) ?s0 = exec fs s" for fs
    using s by (induction ?es arbitrary: fs) (simp_all split: if_splits)
  ultimately show ?thesis
    using s by (simp add: response_view_def split: if_splits)
qed

text \<open>\<^bold>\<open>C11\<close> (functional). A submission that passes the validation on a page with a
  results element or a search container shows the loading placeholder, issues exactly
  one request, to the search endpoint with the query, the file type restriction, the key
  and the engine identifier, and suspends the search under a fresh identifier.\<close>

theorem submit_starts_search:
  assumes "on_submit f = Search q" and "results_div s \<noteq> None \<or> search_container s"
  shows "react (Submit f) s =
     s\<lparr>results_div := Some [Markup loading_markup],
       requests := requests s @
         [lit ''https://www.googleapis.com/customsearch/v1?q='' @ q
          @ lit ''+filetype:pdf&key='' @ env_text (apiKey (config s))
          @ lit ''&cx='' @ env_text (searchEngineId (config s))],
       pending := pending s @ [(next_id s, AwaitFetch)],
       next_id := Suc (next_id s)\<rparr>"
  using assms by (cases f s rule: submit_listener_cases) (simp_all add: request_url_def)

theorem submit_starts_search_witness:
  "requests (react (Submit (title_form (lit ''Algebra''))) (fresh_page True)) =
     [lit ''https://www.googleapis.com/customsearch/v1?q=Algebra  textbook pdf+filetype:pdf&key=KEY&cx=CX'']"
proof -
  have "on_submit (title_form (lit ''Algebra'')) = Search (lit ''Algebra  textbook pdf'')"
    by (simp add: on_submit_title_form trim_fixed) (simp add: js_defs)
  from submit_starts_search [OF this, of "fresh_page True"] show ?thesis
    by (simp add: fresh_page_def env_text_def) (simp add: lit_Cons)
qed

text \<open>\<^bold>\<open>C17\<close> (safety). On a page whose markup has a results element or a search
  container, no rejection is ever left unhandled: every failure of a search ends in the
  error message.\<close>

theorem no_unhandled_rejection:
  assumes "page_reachable s" and "search_container s \<or> results_div s \<noteq> None"
  shows "unhandled s = []"
  using no_unhandled_inv [OF assms(1)] assms(2) by blast

theorem no_unhandled_rejection_witness:
  "unhandled (react (FetchRejected 0 TypeError)
     (react (Submit (title_form (lit ''Algebra''))) (fresh_page True))) = []"
proof -
  let ?s = "react (Submit (title_form (lit ''Algebra''))) (fresh_page True)"
  have "enabled (FetchRejected 0 TypeError) ?s"
    by (simp add: fresh_page_submitted waiting_def)
  with page_reachable_example have "page_reachable (react (FetchRejected 0 TypeError) ?s)"
    by (blast intro: page_reachable.step step.react)
  moreover have "search_container (react (FetchRejected 0 TypeError) ?s)"
    by (simp add: fresh_page_def del: react.simps)
  ultimately show ?thesis
    by (intro no_unhandled_rejection) simp_all
qed

text \<open>\<^bold>\<open>C18\<close> (error). On a page with neither a results element nor a search
  container, a submission that passes the validation fails before any request: nothing
  is shown, nothing is requested, no search is suspended, and the rejection of the
  listener's promise is handled by nobody.\<close>

theorem search_without_container_is_unhandled:
  assumes "on_submit f = Search q" and "results_div s = None" and "\<not> search_container s"
  shows "react (Submit f) s = s\<lparr>unhandled := unhandled s @ [TypeError]\<rparr>"
  using assms by (cases f s rule: submit_listener_cases) simp_all

theorem search_without_container_is_unhandled_witness:
  "react (Submit (title_form (lit ''Algebra''))) (fresh_page False)
     = (fresh_page False)\<lparr>unhandled := [TypeError]\<rparr>"
proof -
  have "on_submit (title_form (lit ''Algebra'')) = Search (trim (lit ''Algebra'') @ lit ''  textbook pdf'')"
    by (simp add: on_submit_title_form)
  from search_without_container_is_unhandled [OF this, of "fresh_page False"] show ?thesis
    by (simp add: fresh_page_def)
qed

text \<open>\<^bold>\<open>C22\<close> (safety). A reset empties the results element but cancels nothing: a
  search that was waiting for its response still waits, and when the response arrives it
  fills the element that the reset has cleared.\<close>

theorem reset_does_not_cancel_search:
  assumes "page_reachable s" and "enabled (JsonFulfilled i data) s"
  shows "results_div (react Reset s) = Some []
       \<and> enabled (JsonFulfilled i data) (react Reset s)
       \<and> results_div (react (JsonFulfilled i data) (react Reset s)) = Some (response_view data)"
proof -
  from assms(2) have "waiting s i AwaitJson" by simp
  with assms(1) obtain c where "results_div s = Some c"
    by (auto dest: waiting_results_div)
  with assms(2) show ?thesis
    by (simp add: on_reset_def waiting_def results_div_json_fulfilled)
qed

theorem reset_does_not_cancel_search_witness:
  "map_option results_div
     (exec [Submit (title_form (lit ''Algebra'')), FetchFulfilled 0, Reset,
            JsonFulfilled 0 (response_with [])] (fresh_page True))
   = Some (Some [Markup (heading_markup @ no_results_markup)])"
proof -
  let ?s = "react (FetchFulfilled 0) (react (Submit (title_form (lit ''Algebra''))) (fresh_page True))"
  have s: "exec [Submit (title_form (lit ''Algebra'')), FetchFulfilled 0] (fresh_page True) = Some ?s"
    by (simp add: fresh_page_submitted waiting_def)
  have "page_reachable ?s"
    by (rule page_reachable_exec [OF page_reachable.initial s]) simp
  moreover have "enabled (JsonFulfilled 0 (response_with [])) ?s"
    by (simp add: fresh_page_submitted waiting_def fetch_fulfilled_def)
  ultimately show ?thesis
    using reset_does_not_cancel_search [of ?s 0 "response_with []"] s
    by (simp add: response_view_response_with split: if_splits)
qed

text \<open>\<^bold>\<open>C24\<close> (invariant). On every reachable page the suspended searches have
  distinct identifiers, all below the next identifier to be given out, and while any
  search is suspended the results element exists.\<close>

theorem suspended_searches_invariant:
  assumes "page_reachable s"
  shows "distinct (map fst (pending s))
       \<and> list_all (\<lambda>p. fst p < next_id s) (pending s)
       \<and> (pending s = [] \<or> results_div s \<noteq> None)"
  using page_reachable_inv [OF assms] by (simp add: page_inv_def search_inv_def)

theorem suspended_searches_invariant_witness:
  "pending (react (Submit (title_form (lit ''Logic'')))
       (react (Submit (title_form (lit ''Algebra''))) (fresh_page True)))
     = [(0, AwaitFetch), (1, AwaitFetch)]
   \<and> results_div (react (Submit (title_form (lit ''Logic'')))
       (react (Submit (title_form (lit ''Algebra''))) (fresh_page True))) \<noteq> None"
proof -
  let ?s1 = "react (Submit (title_form (lit ''Algebra''))) (fresh_page True)"
  let ?s2 = "react (Submit (title_form (lit ''Logic''))) ?s1"
  have p: "pending ?s2 = [(0, AwaitFetch), (1, AwaitFetch)]"
    by (cases "title_form (lit ''Logic'')" ?s1 rule: submit_listener_cases)
      (simp_all add: fresh_page_submitted on_submit_title_form)
  have "step ?s1 (Submit (title_form (lit ''Logic''))) ?s2"
    by (intro step.react) simp
  with page_reachable_example have "page_reachable ?s2"
    by (rule page_reachable.step)
  from suspended_searches_invariant [OF this] p show ?thesis
    by simp
qed

text \<open>\<^bold>\<open>C25\<close> (safety). The loading placeholder never outlasts the searches: after
  any run of the page from a page that does not show the placeholder without a search,
  whenever no search is suspended the results element does not show
  \<^verbatim>\<open>Searching for textbooks...\<close>: every way a search ends replaces it.\<close>

theorem placeholder_only_while_searching:
  assumes "exec es s = Some t"
    and "results_div s = Some [Markup loading_markup] \<Longrightarrow> pending s \<noteq> []"
    and "pending t = []"
  shows "results_div t \<noteq> Some [Markup loading_markup]"
  using placeholder_exec [OF assms(1)] assms(2,3) by blast

theorem placeholder_only_while_searching_witness:
  "map_option pending
     (exec [Submit (title_form (lit ''Algebra'')), FetchFulfilled 0, JsonRejected 0 SyntaxError]
        (fresh_page True)) = Some []
   \<and> map_option results_div
     (exec [Submit (title_form (lit ''Algebra'')), FetchFulfilled 0, JsonRejected 0 SyntaxError]
        (fresh_page True)) \<noteq> Some (Some [Markup loading_markup])"
proof -
  let ?es = "[Submit (title_form (lit ''Algebra'')), FetchFulfilled 0, JsonRejected 0 SyntaxError]"
  let ?t = "react (JsonRejected 0 SyntaxError) (react (FetchFulfilled 0)
      (react (Submit (title_form (lit ''Algebra''))) (fresh_page True)))"
  have run: "exec ?es (fresh_page True) = Some ?t"
    by (simp add: fresh_page_submitted waiting_def fetch_fulfilled_def)
  have start: "results_div (fresh_page True) = Some [Markup loading_markup]
      \<Longrightarrow> pending (fresh_page True) \<noteq> []"
    by (simp add: fresh_page_def)
  have settled: "pending ?t = []"
    by (simp add: fresh_page_submitted fetch_fulfilled_def)
  from placeholder_only_while_searching [OF run start settled] run settled show ?thesis
    by (simp del: exec.simps react.simps)
qed

text \<open>\<^bold>\<open>C23\<close> (error). The status of the response is never looked at: a body without
  an \<^verbatim>\<open>items\<close> property, such as the error object the search service sends with a
  failure status, is rendered as a search without results, not as an error.\<close>

theorem api_error_body_shows_no_results:
  assumes "page_reachable s" and "enabled (JsonFulfilled i data) s"
    and "get_prop data Items = Inr Undefined"
  shows "results_div (react (JsonFulfilled i data) s)
           = Some [Markup (heading_markup @ no_results_markup)]
       \<and> console_errors (react (JsonFulfilled i data) s) = console_errors s"
proof -
  from assms(2) have "waiting s i AwaitJson" by simp
  with assms(1) have "results_div s \<noteq> None" by (rule waiting_results_div)
  with assms(3) show ?thesis
    by (simp add: results_div_json_fulfilled response_view_no_items json_fulfilled_def
        displayResults_empty finish_def)
qed

theorem api_error_body_shows_no_results_witness:
  "results_div (react (JsonFulfilled 0
       (Object [(lit ''error'', Object [(lit ''code'', Number 403)])]))
     (react (FetchFulfilled 0) (react (Submit (title_form (lit ''Algebra''))) (fresh_page True))))
   = Some [Markup (heading_markup @ no_results_markup)]"
proof -
  let ?s = "react (FetchFulfilled 0) (react (Submit (title_form (lit ''Algebra''))) (fresh_page True))"
  have s: "exec [Submit (title_form (lit ''Algebra'')), FetchFulfilled 0] (fresh_page True) = Some ?s"
    by (simp add: fresh_page_submitted waiting_def)
  have "page_reachable ?s"
    by (rule page_reachable_exec [OF page_reachable.initial s]) simp
  moreover have "enabled (JsonFulfilled 0
       (Object [(lit ''error'', Object [(lit ''code'', Number 403)])])) ?s"
    by (simp add: fresh_page_submitted waiting_def fetch_fulfilled_def)
  moreover have "get_prop (Object [(lit ''error'', Object [(lit ''code'', Number 403)])]) Items
      = Inr Undefined"
    by simp
  ultimately show ?thesis
    using api_error_body_shows_no_results by blast
qed

text \<open>\<^bold>\<open>C37\<close> (functional). The page scrolls to the results exactly when a search ends:
  once for every search whose body arrives or whose request fails, and never at the
  submission, at an alert, or when the response arrives. When lines 104-108 are reached
  the results element exists, so the test of line 106 never fails.\<close>

theorem page_scrolls_when_a_search_ends:
  assumes "page_reachable s" and "enabled e s"
  shows "scrolls (react e s) = (if ends_search e then Suc (scrolls s) else scrolls s)"
proof (cases "ends_search e")
  case True
  with assms(2) obtain i ph where "waiting s i ph"
    by (cases e) auto
  with assms(1) have here: "results_div s \<noteq> None"
    by (rule waiting_results_div)
  then have "results_div (json_fulfilled i data s) \<noteq> None"
    "results_div (search_rejected i err s) \<noteq> None" for i data err
    by (simp_all add: results_div_json_fulfilled_None results_div_search_rejected)
  with True show ?thesis
    by (cases e) (simp_all add: scrolls_after_search)
next
  case False
  then show ?thesis
    by (cases e) (simp_all add: isbn_input_listener_def Let_def on_reset_def)
qed

theorem page_scrolls_when_a_search_ends_witness:
  "scrolls (react (Submit (title_form (lit ''Algebra''))) (fresh_page True)) = 0
   \<and> scrolls (react (FetchRejected 0 TypeError)
        (react (Submit (title_form (lit ''Algebra''))) (fresh_page True))) = 1"
proof -
  let ?s = "react (Submit (title_form (lit ''Algebra''))) (fresh_page True)"
  have "enabled (FetchRejected 0 TypeError) ?s"
    by (simp add: fresh_page_submitted waiting_def)
  from page_scrolls_when_a_search_ends [OF page_reachable_example this]
    page_scrolls_when_a_search_ends [OF page_reachable.initial, of "fresh_page True"
      "Submit (title_form (lit ''Algebra''))"]
  show ?thesis
    by (simp add: fresh_page_def)
qed

end
