(* ===== verification/Spec2Isabelle.thy ===== *)
theory Spec2Isabelle
  imports JS_Prelude JS_Regex ISBN Search_Form Modal JS_Value Render Search Request_URL Page
begin

text \<open>
  \<^bold>\<open>A verification development for FreeTextBookFinder\<close> (\<^verbatim>\<open>src/script.js\<close>).

  \<^bold>\<open>The program.\<close> One browser script. On \<^verbatim>\<open>DOMContentLoaded\<close> it installs event
  listeners; afterwards everything it does is the reaction to one event. It has two
  parts that share the page and nothing else:

  \<^item> the \<^emph>\<open>modal controller\<close> (lines 4-36): the listeners on the about link, the close
    control, the window and the keyboard that show and hide the about overlay and lock
    the page's scrolling while it is shown;
  \<^item> the \<^emph>\<open>search controller\<close> (lines 38-204): the ISBN field's live validation, the
    reset listener, the submit listener that validates the form and builds the query,
    \<^verbatim>\<open>isValidISBN\<close>, \<^verbatim>\<open>searchForTextbook\<close> (the request and its outcomes) and
    \<^verbatim>\<open>displayResults\<close> (the rendering of the response).

  The submit listener and \<^verbatim>\<open>searchForTextbook\<close> are \<^verbatim>\<open>async\<close>: a search is suspended
  at \<^verbatim>\<open>await fetch(url)\<close> and again at \<^verbatim>\<open>await response.json()\<close>, and while it is
  suspended every other listener can run, another submission included.

  \<^bold>\<open>Theories, in the order of their dependencies.\<close>

  \<^descr>[\<open>JS_Prelude\<close>] What the script uses of the language's strings. A string is a list
    of UTF-16 code units (\<open>jstring\<close>, over \<^typ>\<open>16 word\<close>); \<open>lit\<close> embeds a literal.
    \<open>is_white_space\<close> is the class \<^verbatim>\<open>\s\<close> (also the set \<^verbatim>\<open>trim\<close> strips), \<open>is_digit\<close> the
    class \<^verbatim>\<open>\d\<close>; \<open>trim\<close> is \<^verbatim>\<open>String.prototype.trim\<close>. \<open>js_error\<close> and \<open>'a result\<close> are
    the exceptions the script can meet and the type of a computation that may throw.
    The lemmas characterise \<open>trim\<close> (idempotent, removes only white space, leaves
    no white space at either end) and collect the definitions of the literals in
    \<open>js_defs\<close>, with which concrete inputs evaluate by \<open>simp\<close>.

  \<^descr>[\<open>JS_Regex\<close>] The regular expressions of lines 119 and 122: \<open>rexp\<close> with character
    classes, alternation, sequence and bounded repetition \<open>rep\<close>, matched by
    derivatives (\<open>matches\<close>, \<open>test_whole\<close> for an anchored \<^verbatim>\<open>test\<close>); \<open>replace_class\<close> is
    \<^verbatim>\<open>replace\<close> with a global single-class pattern. \<open>lang\<close> is the reference semantics and
    \<open>matches_iff_lang\<close> proves the matcher against it.

  \<^descr>[\<open>ISBN\<close>] \<^verbatim>\<open>isValidISBN\<close> (lines 117-123) as \<open>cleanISBN\<close> followed by the anchored
    test of \<open>isbn_pattern\<close>. The reference is \<open>isbn_format\<close>: after the separators are
    removed, 10 or 13 characters, all digits. The lemmas prove the function equal to the
    reference, insensitive to separators and to \<^verbatim>\<open>trim\<close>, and that it accepts digits and
    separators only (so an ISBN-10 ending in \<^verbatim>\<open>X\<close> is rejected).

  \<^descr>[\<open>Search_Form\<close>] The decisions of the listeners of the form, as functions of the
    values the listener reads. \<open>on_isbn_input\<close> is the input listener of lines 45-53
    (the custom validity it sets and whether it reports). \<open>on_submit\<close> is the submit
    listener of lines 67-112 up to the call of \<^verbatim>\<open>searchForTextbook\<close>: its \<open>submit_outcome\<close>
    is the alert it shows or the query it searches for; \<open>base_query\<close> and
    \<open>with_language\<close> are the two template strings. The lemmas give the outcome on every
    branch, show that a search is started only with a well-formed ISBN or a title or an
    author, and that the live validation agrees with the validation on submit.

  \<^descr>[\<open>Modal\<close>] The modal controller. Its state \<open>modal_page\<close> is the class list of the
    overlay and the inline \<^verbatim>\<open>overflow\<close> of the body; \<open>on_about_click\<close>, \<open>on_close_click\<close>,
    \<open>on_window_click\<close> and \<open>on_keydown\<close> are the four listeners and \<open>dispatch\<close> delivers
    an event to them the way the browser does (a click on the about link or the close
    control bubbles to the window's listener). \<open>modal_reachable\<close> is the set of states
    reachable from \<open>modal_initial\<close>. The invariant \<open>modal_inv\<close> says that scrolling is
    locked exactly while the overlay is shown; \<open>spec_step\<close> is the two-state machine of
    the specification and \<open>state_of\<close> the abstraction under which \<open>dispatch\<close> refines it.

  \<^descr>[\<open>JS_Value\<close>] The values a response body can hold (\<open>jsval\<close>), property access
    \<open>get_prop\<close> (which throws on \<^verbatim>\<open>undefined\<close> and \<^verbatim>\<open>null\<close>), \<open>truthy\<close>, \<open>js_or\<close> and the
    conversion \<open>to_string\<close> of a template literal; \<open>rbind\<close> and \<open>collect\<close> sequence
    computations that may throw. \<open>json_value\<close> delimits what \<^verbatim>\<open>JSON.parse\<close> returns.

  \<^descr>[\<open>Render\<close>] \<^verbatim>\<open>displayResults\<close> (lines 168-204) over the fragment of the document
    it writes: the record \<open>dom\<close> holds the content of the element \<^verbatim>\<open>#results\<close> when there
    is one (a list of \<open>node\<close>s) and whether an element of class \<^verbatim>\<open>search-container\<close> exists.
    \<open>item_markup\<close> is the template of lines 189-198, \<open>for_each_item\<close> the loop of
    lines 185-200 (it stops at the first item that throws), \<open>displayResults\<close> the
    function, returning the exception it throws, if any, and the document. \<open>shown_for\<close>
    is the specification of the rendering as a function of the argument alone. The
    lemmas give each branch, the frame, the refinement of \<open>shown_for\<close>, and exactly when the
    function throws.

  \<^descr>[\<open>Search\<close>] \<^verbatim>\<open>searchForTextbook\<close> (lines 127-164) stretch by stretch:
    \<open>search_start\<close> runs from the call to the first suspension (\<open>ensure_results_div\<close>,
    the loading placeholder, the request, whose URL is \<open>request_url\<close>);
    \<open>fetch_fulfilled\<close> resumes it with a response and suspends it at the body;
    \<open>json_fulfilled\<close> resumes it with the parsed body, renders \<^verbatim>\<open>data.items\<close> and runs the
    \<^verbatim>\<open>catch\<close> block if anything throws; \<open>search_rejected\<close> resumes it with a rejection
    of either promise. The state \<open>search_page\<close> extends \<open>dom\<close> with the configuration,
    the suspended searches (\<open>pending\<close>, each with its \<open>phase\<close>), the requests issued and
    the errors logged. \<open>search_inv\<close> is its invariant; \<open>response_view\<close> is what the
    results element shows for a body.

  \<^descr>[\<open>Request_URL\<close>] The URL of line 148 as it is read on the way to the service:
    \<open>url_without_fragment\<close>, \<open>url_query\<close>, \<open>split_on\<close>, \<open>url_param\<close> and
    \<open>url_params\<close> follow the URL Standard up to the list of parameters, names and values
    undecoded. \<open>url_safe\<close> texts hold no \<^verbatim>\<open>#\<close> and no \<^verbatim>\<open>&\<close>. The lemmas give the
    parameters of \<open>request_url\<close> for a safe query and for a query with a delimiter.

  \<^descr>[\<open>Page\<close>] The page as one transition system. The record \<open>page\<close> extends
    \<open>search_page\<close> with the modal controller's state and what the listeners show or log;
    an \<open>event\<close> is a user event or the settling of a promise; \<open>react\<close> runs the listener
    or the continuation (\<open>isbn_input_listener\<close>, \<open>on_reset\<close>, \<open>submit_listener\<close>,
    \<open>after_search\<close> for lines 104-108), \<open>enabled\<close> says when a promise can settle,
    \<open>step\<close> and \<open>exec\<close> are single steps and runs, \<open>page_reachable\<close> the pages reachable
    from a page that has just loaded. The lemmas prove the invariant \<open>page_inv\<close> on every
    reachable page and the properties of searches that fail, overlap, are reset or
    cannot start, that the loading placeholder is shown only while a search is suspended,
    and when the page scrolls to the results. \<open>fresh_page\<close> and \<open>title_form\<close> are the page
    and the form of the examples.

  \<^descr>[\<open>Spec2Isabelle\<close>] This theory: the properties that span components. A search from
    the submission to the rendered results; the scroll lock on the whole page; the
    independence of the two controllers, with \<open>modal_events\<close> and \<open>search_events\<close> the
    projections of a run to the events of each; the parameters of the request of a
    submission.

  \<^bold>\<open>Correspondence.\<close> Every definition that models code keeps the name of the function
  or, for a listener, the name \<open>on_\<close>\<^emph>\<open>event\<close>; a listener is a function from the state
  before to the state after, a function that may throw returns \<open>js_error + 'a\<close> or
  an \<open>outcome\<close> (the exception, if any, and the state it leaves), and an \<^verbatim>\<open>async\<close>
  function is one definition per stretch between two suspension points. Strings built
  by template literals are spelled out character for character, the line breaks and
  the indentation of the templates included.

  \<^bold>\<open>Bounds and idealisations.\<close>

  \<^item> Numbers are integers (\<open>Number\<close> carries an \<^typ>\<open>int\<close>); \<open>json_value\<close> restricts them to
    magnitudes below \<open>2\<^sup>5\<^sup>3\<close>, where \<^verbatim>\<open>JSON.parse\<close> is exact. Fractions, \<^verbatim>\<open>NaN\<close> and the
    infinities are not modelled; they can occur in a body only where the script never
    looks or converts them with \<open>to_string\<close>.
  \<^item> Markup assigned to \<^verbatim>\<open>innerHTML\<close> is kept as the string (\<open>Markup\<close>), not parsed: the
    theorems speak of the string the script writes, not of the elements the browser
    builds from it.
  \<^item> A string has the inherited method \<^verbatim>\<open>link\<close>, so \<^verbatim>\<open>item.link\<close> of a string item is a
    function; \<open>StringProtoLink\<close> stands for it and \<open>to_string\<close> gives the source text
    engines print for a built-in.
  \<^item> No definition uses fuel: every loop of the script is over a finite list, and the
    runs of the page are lists of events.

  \<^item> An object of a response is the list of its properties; \<open>json_value\<close> asks for each name
    once, as \<^verbatim>\<open>JSON.parse\<close> delivers them. The theorems about \<^verbatim>\<open>displayResults\<close> alone
    range over every value of the model, those about the page over \<open>json_value\<close> bodies.
  \<^item> The parameters of a request are read up to names and values as they stand in the
    URL; the decoding of \<^verbatim>\<open>+\<close> and of percent escapes by the service is not modelled.

  \<^bold>\<open>Not modelled.\<close> The network and the search service (the response is an argument of
  the event that delivers it); the parsing of markup and the layout; the look-ups and
  registrations of lines 3-7 and 38-44 (the model starts when the listeners are
  installed); the browser's own constraint validation, which decides whether a submit
  event is dispatched at all and depends on markup that is not part of the sources
  (every submit event reaches the listener here); the object \<^verbatim>\<open>import.meta.env\<close>, which is
  taken to exist; the text of \<^verbatim>\<open>console.log\<close> beyond the messages themselves.

  \<^bold>\<open>Plan.\<close> Modelled so far: every listener and function of the script. Left for an
  extension of the development: the decoding of the query by the service (\<^verbatim>\<open>+\<close> and
  \<^verbatim>\<open>%\<close> in a title); the markup of an item as the browser parses it (titles and
  snippets are not escaped); the browser's constraint validation in front of the submit
  event.
\<close>

section \<open>The two controllers on one page\<close>

text \<open>The events of the modal controller within a run of the page, and the others.\<close>

fun is_modal_event :: "event \<Rightarrow> bool" where
  "is_modal_event (ModalEvent m) \<longleftrightarrow> True"
| "is_modal_event e \<longleftrightarrow> False"

lemma enabled_modal_update [simp]: "enabled e (s\<lparr>modal := m\<rparr>) = enabled e s"
  by (cases e) (simp_all add: waiting_def)

lemma json_fulfilled_modal_update:
  "json_fulfilled i data (s\<lparr>modal := m\<rparr>) = (json_fulfilled i data s)\<lparr>modal := m\<rparr>"
  by (simp add: json_fulfilled_def displayResults_def search_catch_def finish_def Let_def
      split: sum.splits option.splits jsval.splits)

lemma react_modal_update:
  "\<not> is_modal_event e \<Longrightarrow> react e (s\<lparr>modal := m\<rparr>) = (react e s)\<lparr>modal := m\<rparr>"
proof (cases e)
  case (Submit f)
  then show ?thesis
    by (simp add: submit_listener_def search_start_def ensure_results_div_def
      split: submit_outcome.splits option.splits)
next
  case (JsonFulfilled i data)
  then show ?thesis
    by (simp add: json_fulfilled_modal_update after_search_def)
qed (simp_all add: isbn_input_listener_def Let_def on_reset_def after_search_def
    search_rejected_def search_catch_def finish_def fetch_fulfilled_def)


definition modal_events :: "event list \<Rightarrow> modal_event list" where
  "modal_events es = concat (map (\<lambda>e. case e of ModalEvent m \<Rightarrow> [m] | _ \<Rightarrow> []) es)"

definition search_events :: "event list \<Rightarrow> event list" where
  "search_events es = filter (\<lambda>e. \<not> is_modal_event e) es"

lemma modal_events_simps [simp]:
  "modal_events [] = []"
  "modal_events (e # es) = (case e of ModalEvent m \<Rightarrow> [m] | _ \<Rightarrow> []) @ modal_events es"
  by (simp_all add: modal_events_def)

lemma search_events_simps [simp]:
  "search_events [] = []"
  "search_events (e # es) = (if is_modal_event e then search_events es else e # search_events es)"
  by (simp_all add: search_events_def)

lemma exec_Some_Cons:
  "exec (e # es) s = Some t \<longleftrightarrow> enabled e s \<and> exec es (react e s) = Some t"
  by simp

lemma exec_modal:
  "exec es s = Some t \<Longrightarrow> modal t = modal_run (modal_events es) (modal s)"
proof (induction es arbitrary: s)
  case (Cons e es)
  then have "modal t = modal_run (modal_events es) (modal (react e s))"
    by (simp split: if_splits)
  then show ?case
    by (simp add: modal_react del: react.simps split: event.splits)
qed simp

lemma exec_search_events:
  "exec es s = Some t \<Longrightarrow> exec (search_events es) (s\<lparr>modal := m\<rparr>) = Some (t\<lparr>modal := m\<rparr>)"
proof (induction es arbitrary: s)
  case (Cons e es)
  from Cons.prems have en: "enabled e s" and rest: "exec es (react e s) = Some t"
    by (simp_all split: if_splits)
  from Cons.IH [OF rest]
  have IH: "exec (search_events es) ((react e s)\<lparr>modal := m\<rparr>) = Some (t\<lparr>modal := m\<rparr>)" .
  show ?case
  proof (cases "is_modal_event e")
    case True
    then obtain me where "e = ModalEvent me" by (cases e) simp_all
    with IH show ?thesis by simp
  next
    case False
    with IH en show ?thesis by (simp add: react_modal_update del: react.simps)
  qed
qed simp

lemma started_search_awaits_body:
  assumes "search_inv s" and "results_div s \<noteq> None \<or> search_container s"
    and "on_submit f = Search q"
  defines "s2 \<equiv> react (FetchFulfilled (next_id s)) (react (Submit f) s)"
  shows "enabled (FetchFulfilled (next_id s)) (react (Submit f) s)"
    and "pending s2 = pending s @ [(next_id s, AwaitJson)]"
    and "results_div s2 \<noteq> None"
    and "requests s2 = requests s @ [request_url (config s) q]"
    and "unhandled s2 = unhandled s" and "alerts s2 = alerts s"
proof -
  from assms(1) have fresh: "\<And>p. p \<in> set (pending s) \<Longrightarrow> fst p \<noteq> next_id s"
    by (auto simp: search_inv_def list_all_iff)
  from assms(2,3) have s1: "react (Submit f) s = s\<lparr>results_div := Some [Markup loading_markup],
       requests := requests s @ [request_url (config s) q],
       pending := pending s @ [(next_id s, AwaitFetch)], next_id := Suc (next_id s)\<rparr>"
    by (cases f s rule: submit_listener_cases) simp_all
  then show "enabled (FetchFulfilled (next_id s)) (react (Submit f) s)"
    by (simp add: waiting_def)
  from fresh have "map (\<lambda>p. if fst p = next_id s then (next_id s, AwaitJson) else p) (pending s)
      = pending s"
    by (intro map_idI) simp
  with s1 show "pending s2 = pending s @ [(next_id s, AwaitJson)]"
    by (simp add: s2_def fetch_fulfilled_def)
  from s1 show "results_div s2 \<noteq> None" "requests s2 = requests s @ [request_url (config s) q]"
    "unhandled s2 = unhandled s" "alerts s2 = alerts s"
    by (simp_all add: s2_def)
qed

section \<open>Properties\<close>

text \<open>\<^bold>\<open>C7\<close> (functional). A search from the submission to the rendered results:
  on a reachable page with a results element or a search container, a submission that
  passes the validation, the response and its body with well-formed items are a run of
  the page, after which the results element shows the heading and one block per item in
  the order of the body (or the message that nothing was found), exactly one request
  has been issued, and no search is left suspended that was not suspended before.\<close>

theorem search_round_trip:
  assumes "page_reachable s" and "results_div s \<noteq> None \<or> search_container s"
    and "on_submit f = Search q"
  shows "\<exists>t. exec [Submit f, FetchFulfilled (next_id s), JsonFulfilled (next_id s) (response_with its)] s
           = Some t
       \<and> results_div t = Some (if its = [] then [Markup (heading_markup @ no_results_markup)]
            else [Markup heading_markup,
                  Element (lit ''div'') (lit ''results-container'') (map result_block its)])
       \<and> requests t = requests s @ [request_url (config s) q]
       \<and> pending t = pending s \<and> unhandled t = unhandled s \<and> alerts t = alerts s"
proof -
  let ?i = "next_id s"
  let ?s2 = "react (FetchFulfilled ?i) (react (Submit f) s)"
  let ?t = "react (JsonFulfilled ?i (response_with its)) ?s2"
  from assms(1) have inv: "search_inv s"
    using page_reachable_inv by (simp add: page_inv_def)
  note s2 = started_search_awaits_body [OF inv assms(2,3)]
  from s2(2) have e2: "enabled (JsonFulfilled ?i (response_with its)) ?s2"
    by (simp add: waiting_def)
  with s2(1) have "exec [Submit f, FetchFulfilled ?i, JsonFulfilled ?i (response_with its)] s = Some ?t"
    by simp
  moreover from s2(3) have "results_div ?t = Some (response_view (response_with its))"
    by (simp add: results_div_json_fulfilled)
  moreover from inv s2(2) have "pending ?t = pending s"
    by (auto simp: search_inv_def list_all_iff filter_id_conv)
  moreover from s2(4-6) have "requests ?t = requests s @ [request_url (config s) q]"
    "unhandled ?t = unhandled s" "alerts ?t = alerts s"
    by simp_all
  ultimately show ?thesis
    by (simp add: response_view_response_with)
qed

theorem search_round_trip_witness:
  "map_option results_div
     (exec [Submit (title_form (lit ''Algebra'')), FetchFulfilled 0,
            JsonFulfilled 0 (response_with
              [\<lparr>item_title = lit ''Algebra I'', item_snippet = None, item_link = lit ''http://a/b.pdf''\<rparr>])]
        (fresh_page True))
   = Some (Some [Markup heading_markup,
        Element (lit ''div'') (lit ''results-container'')
          [result_block \<lparr>item_title = lit ''Algebra I'', item_snippet = None,
             item_link = lit ''http://a/b.pdf''\<rparr>]])"
proof -
  have "on_submit (title_form (lit ''Algebra''))
      = Search (trim (lit ''Algebra'') @ lit ''  textbook pdf'')"
    by (simp add: on_submit_title_form)
  moreover have "page_reachable (fresh_page True)"
    by (simp add: page_reachable.initial)
  moreover have "results_div (fresh_page True) \<noteq> None \<or> search_container (fresh_page True)"
    by (simp add: fresh_page_def)
  moreover have n: "next_id (fresh_page True) = 0"
    by (simp add: fresh_page_def)
  ultimately show ?thesis
    using search_round_trip [of "fresh_page True" "title_form (lit ''Algebra'')" _
        "[\<lparr>item_title = lit ''Algebra I'', item_snippet = None, item_link = lit ''http://a/b.pdf''\<rparr>]"]
    unfolding n by (auto simp del: exec.simps react.simps)
qed

text \<open>\<^bold>\<open>C26\<close> (invariant). On every reachable page, whatever the searches do, the
  page's scrolling is locked exactly while the overlay is shown.\<close>

theorem page_scroll_lock:
  assumes "page_reachable s"
  shows "scroll_locked (modal s) \<longleftrightarrow> visible (modal s)"
  using page_reachable_inv [OF assms]
  by (simp add: page_inv_def modal_inv_def)

theorem page_scroll_lock_witness:
  "scroll_locked (modal (react (Submit (title_form (lit ''Algebra'')))
       (react (ModalEvent (Click AboutLink)) (fresh_page True))))
   \<and> visible (modal (react (Submit (title_form (lit ''Algebra'')))
       (react (ModalEvent (Click AboutLink)) (fresh_page True))))"
proof -
  let ?t = "react (Submit (title_form (lit ''Algebra'')))
       (react (ModalEvent (Click AboutLink)) (fresh_page True))"
  have "exec [ModalEvent (Click AboutLink), Submit (title_form (lit ''Algebra''))] (fresh_page True)
      = Some ?t"
    by simp
  with page_reachable.initial have "page_reachable ?t"
    by (rule page_reachable_exec) simp
  from page_scroll_lock [OF this] show ?thesis
    by (simp add: modal_react fresh_page_def on_about_click_def visible_def
        token_contains_def token_add_def del: react.simps)
qed

text \<open>\<^bold>\<open>C16\<close> (safety). The two controllers do not interfere. After any run of the
  page, the overlay is in the state its own events alone lead to, and everything else is
  as after the run without the modal events, which is a run of the page as well.\<close>

theorem overlay_and_search_do_not_interfere:
  assumes "exec es s = Some t"
  shows "modal t = modal_run (modal_events es) (modal s)
       \<and> exec (search_events es) s = Some (t\<lparr>modal := modal s\<rparr>)"
  using exec_modal [OF assms] exec_search_events [OF assms, of "modal s"] by simp

theorem overlay_and_search_do_not_interfere_witness:
  "exec [Submit (title_form (lit ''Algebra''))] (fresh_page True)
     = Some ((react (ModalEvent (KeyDown (lit ''Escape'')))
         (react (Submit (title_form (lit ''Algebra'')))
           (react (ModalEvent (Click AboutLink)) (fresh_page True))))
        \<lparr>modal := modal (fresh_page True)\<rparr>)"
proof -
  have "exec [ModalEvent (Click AboutLink), Submit (title_form (lit ''Algebra'')),
      ModalEvent (KeyDown (lit ''Escape''))] (fresh_page True)
     = Some (react (ModalEvent (KeyDown (lit ''Escape'')))
         (react (Submit (title_form (lit ''Algebra'')))
           (react (ModalEvent (Click AboutLink)) (fresh_page True))))"
    by simp
  from overlay_and_search_do_not_interfere [OF this] show ?thesis
    by (simp del: react.simps exec.simps)
qed

text \<open>\<^bold>\<open>C36\<close> (functional). The request of a submission carries the three parameters
  of the interface, \<^verbatim>\<open>q\<close> with the query and the file type restriction, \<^verbatim>\<open>key\<close> and
  \<^verbatim>\<open>cx\<close>, whenever the language and the credentials hold no \<^verbatim>\<open>#\<close> or \<^verbatim>\<open>&\<close> and
  either the search is by ISBN (a well-formed ISBN never holds one) or the title and
  the author hold none.\<close>

theorem submitted_request_carries_parameters:
  assumes "on_submit f = Search q"
    and "blank (isbn_value f) \<Longrightarrow> url_safe (title_value f) \<and> url_safe (author_value f)"
    and "url_safe (language_value f)"
    and "url_safe (env_text (apiKey c))" and "url_safe (env_text (searchEngineId c))"
  shows "url_params (request_url c q) =
     [(lit ''q'', q @ lit ''+filetype:pdf''), (lit ''key'', env_text (apiKey c)),
      (lit ''cx'', env_text (searchEngineId c))]"
proof -
  have "url_safe q"
  proof (cases f rule: form_cases)
    case valid_isbn
    then have "url_safe (trim (isbn_value f))"
      by (intro url_safe_trim url_safe_isValidISBN)
    with valid_isbn assms(1,3) show ?thesis
      by (auto simp: on_submit_valid_isbn lit_Cons intro!: url_safe_with_language)
  next
    case title_author
    with assms(2) have "url_safe (trim (title_value f))" "url_safe (trim (author_value f))"
      by (simp_all add: url_safe_trim)
    with title_author assms(1,3) show ?thesis
      by (auto simp: on_submit_title_author lit_Cons intro!: url_safe_with_language)
  qed (use assms(1) in \<open>simp_all add: on_submit_invalid on_submit_nothing\<close>)
  then show ?thesis
    using assms(4,5) by (rule url_params_request_url)
qed

theorem submitted_request_carries_parameters_witness:
  "url_params (request_url \<lparr>apiKey = Some (lit ''KEY''), searchEngineId = Some (lit ''CX'')\<rparr>
      (0x22 # lit ''978-0134685991'' @ 0x22 # lit '' textbook pdf french''))
   = [(lit ''q'', (0x22 # lit ''978-0134685991'' @ 0x22 # lit '' textbook pdf french'')
        @ lit ''+filetype:pdf''),
      (lit ''key'', lit ''KEY''), (lit ''cx'', lit ''CX'')]"
proof -
  let ?f = "\<lparr>isbn_value = lit ''978-0134685991'', title_value = lit ''R&D'',
      author_value = [], language_value = lit ''french''\<rparr>"
  have "isValidISBN (isbn_value ?f)"
    by simp code_simp
  then have q: "on_submit ?f
      = Search (0x22 # lit ''978-0134685991'' @ 0x22 # lit '' textbook pdf french'')"
    by (simp add: on_submit_valid_isbn) (simp add: js_defs)
  have "\<not> blank (isbn_value ?f)"
    by (simp add: js_defs)
  then show ?thesis
    using submitted_request_carries_parameters [OF q, where c =
        "\<lparr>apiKey = Some (lit ''KEY''), searchEngineId = Some (lit ''CX'')\<rparr>"]
    by (simp add: env_text_def) (simp add: lit_Cons)
qed

end
